theory Spec2Isabelle
  imports Complex_Main
begin

section \<open>Errors and results\<close>

text \<open>
  The Python exceptions the modelled code can raise, as values. A computation that can
  raise returns \<open>py_error + 'a\<close>, with \<open>Inl\<close> the exception. Leading underscores of
  the source's names are dropped, as an identifier cannot start with one.
\<close>

datatype py_error =
    KeyError string
  | NotImplementedError string
  | ValueError string
  | IndexError
  | ZeroDivisionError
  | NameError string
  | AttributeError
  | UnboundLocalError string
  | TypeError

type_synonym 'a res = "py_error + 'a"

definition bind_res :: "'a res \<Rightarrow> ('a \<Rightarrow> 'b res) \<Rightarrow> 'b res" where
  "bind_res m f = (case m of Inl e \<Rightarrow> Inl e | Inr x \<Rightarrow> f x)"

fun mapM_res :: "('a \<Rightarrow> 'b res) \<Rightarrow> 'a list \<Rightarrow> 'b list res" where
  "mapM_res f [] = Inr []"
| "mapM_res f (x # xs) =
     bind_res (f x) (\<lambda>y. bind_res (mapM_res f xs) (\<lambda>ys. Inr (y # ys)))"

fun foldM_res :: "('a \<Rightarrow> 's \<Rightarrow> 's res) \<Rightarrow> 'a list \<Rightarrow> 's \<Rightarrow> 's res" where
  "foldM_res f [] s = Inr s"
| "foldM_res f (x # xs) s = bind_res (f x s) (foldM_res f xs)"

definition nth_res :: "'a list \<Rightarrow> nat \<Rightarrow> 'a res" where
  "nth_res xs i = (if i < length xs then Inr (xs ! i) else Inl IndexError)"

section \<open>Arrays and contractions\<close>

text \<open>
  A one-dimensional array is a list of reals, a matrix a list of rows. Numbers are exact
  reals: the model states the algebra of the decomposition, not its rounding. The shapes
  that NumPy checks at each operation are the well-formedness conditions of the theorems.
\<close>

type_synonym vec = "real list"
type_synonym mat = "real list list"

definition vadd :: "vec \<Rightarrow> vec \<Rightarrow> vec" where
  "vadd u v = map2 (+) u v"

definition madd :: "mat \<Rightarrow> mat \<Rightarrow> mat" where
  "madd A B = map2 vadd A B"

definition mscale :: "real \<Rightarrow> mat \<Rightarrow> mat" where
  "mscale c A = map (map ((*) c)) A"

definition zeros :: "nat \<Rightarrow> nat \<Rightarrow> mat" where
  "zeros n m = replicate n (replicate m 0)"

definition zeros_like :: "mat \<Rightarrow> mat" where
  "zeros_like A = map (map (\<lambda>_. 0)) A"

text \<open>\<open>np.sum(x, axis=0)\<close> of a spin-stacked pair, and of a stack of \<open>n \<times> m\<close> matrices.\<close>

definition sum_spin :: "mat \<times> mat \<Rightarrow> mat" where
  "sum_spin p = madd (fst p) (snd p)"

definition sum_axis0 :: "nat \<Rightarrow> nat \<Rightarrow> mat list \<Rightarrow> mat" where
  "sum_axis0 n m Ms = foldr madd Ms (zeros n m)"

definition spin_get :: "'a \<times> 'a \<Rightarrow> nat \<Rightarrow> 'a" where
  "spin_get p i = (if i = 0 then fst p else snd p)"

definition spin_set :: "'a \<times> 'a \<Rightarrow> nat \<Rightarrow> 'a \<Rightarrow> 'a \<times> 'a" where
  "spin_set p i x = (if i = 0 then (x, snd p) else (fst p, x))"

text \<open>
  Modelled from the spec: \<open>tools.contract\<close> is not under src/; it is the Einstein
  summation over the given index pattern. One function per pattern the code uses.
\<close>

definition vdot :: "vec \<Rightarrow> vec \<Rightarrow> real" where
  "vdot u v = sum_list (map2 (*) u v)"

definition contract_ij_ij :: "mat \<Rightarrow> mat \<Rightarrow> real" where
  "contract_ij_ij A B = sum_list (map2 vdot A B)"

definition contract_xij_ij :: "mat list \<Rightarrow> mat \<Rightarrow> vec" where
  "contract_xij_ij As B = map (\<lambda>A. contract_ij_ij A B) As"

definition contract_ik_kj :: "mat \<Rightarrow> mat \<Rightarrow> mat" where
  "contract_ik_kj A B = map (\<lambda>ra. map (\<lambda>cb. vdot ra cb) (transpose B)) A"

definition contract_ik_jk :: "mat \<Rightarrow> mat \<Rightarrow> mat" where
  "contract_ik_jk A B = map (\<lambda>ra. map (\<lambda>rb. vdot ra rb) B) A"

definition contract_pi_pi :: "mat \<Rightarrow> mat \<Rightarrow> vec" where
  "contract_pi_pi A B = map2 vdot A B"

definition contract_i_i_i :: "vec \<Rightarrow> vec \<Rightarrow> vec \<Rightarrow> real" where
  "contract_i_i_i u v w = sum_list (map2 (*) (map2 (*) u v) w)"

definition contract_i_ij_j :: "vec \<Rightarrow> mat \<Rightarrow> vec \<Rightarrow> vec" where
  "contract_i_ij_j u A v = map2 (\<lambda>ui row. sum_list (map2 (\<lambda>a vj. ui * a * vj) row v)) u A"

definition contract_i_ix :: "vec \<Rightarrow> mat \<Rightarrow> mat" where
  "contract_i_ix u A = map2 (\<lambda>ui row. map ((*) ui) row) u A"

text \<open>
  Modelled from the spec: \<open>tools.make_rdm1\<close> is not under src/; the density matrix is
  the occupation-weighted outer product of the orbital coefficients,
  \<open>D[i][j] = \<Sum>p. occup[p] * mo[i][p] * mo[j][p]\<close>. \<open>mo\<close> has one row per basis
  function and one column per orbital.
\<close>

definition make_rdm1 :: "mat \<Rightarrow> vec \<Rightarrow> mat" where
  "make_rdm1 mo occup =
     map (\<lambda>ri. map (\<lambda>rj. sum_list (map2 (*) (map2 (*) occup ri) rj)) mo) mo"

text \<open>\<open>mo[:, j].reshape(mo.shape[0], -1)\<close>: column \<open>j\<close> as a one-column matrix.\<close>

definition orbital :: "mat \<Rightarrow> nat \<Rightarrow> mat res" where
  "orbital mo j =
     (if list_all (\<lambda>row. j < length row) mo then Inr (map (\<lambda>row. [row ! j]) mo)
      else Inl IndexError)"

section \<open>Values of a result dictionary\<close>

text \<open>
  An entry of a kernel's result is a scalar (energy) or a vector (dipole). Arithmetic
  broadcasts a scalar over a vector, as NumPy does.
\<close>

datatype val = Sc real | Vc vec

fun val_add :: "val \<Rightarrow> val \<Rightarrow> val" where
  "val_add (Sc a) (Sc b) = Sc (a + b)"
| "val_add (Sc a) (Vc v) = Vc (map ((+) a) v)"
| "val_add (Vc u) (Sc b) = Vc (map (\<lambda>x. x + b) u)"
| "val_add (Vc u) (Vc v) = Vc (vadd u v)"

fun val_neg :: "val \<Rightarrow> val" where
  "val_neg (Sc a) = Sc (- a)"
| "val_neg (Vc v) = Vc (map uminus v)"

definition val_sub :: "val \<Rightarrow> val \<Rightarrow> val" where
  "val_sub a b = val_add a (val_neg b)"

type_synonym rdict = "string \<rightharpoonup> val"

definition dict_get :: "rdict \<Rightarrow> string \<Rightarrow> val res" where
  "dict_get d k = (case d k of None \<Rightarrow> Inl (KeyError k) | Some v \<Rightarrow> Inr v)"

text \<open>\<open>d[k] += v\<close> and \<open>d[k] -= v\<close>: the entry is read first, and must exist.\<close>

definition dict_iadd :: "rdict \<Rightarrow> string \<Rightarrow> val \<Rightarrow> rdict res" where
  "dict_iadd d k v = bind_res (dict_get d k) (\<lambda>x. Inr (d(k \<mapsto> val_add x v)))"

definition dict_isub :: "rdict \<Rightarrow> string \<Rightarrow> val \<Rightarrow> rdict res" where
  "dict_isub d k v = bind_res (dict_get d k) (\<lambda>x. Inr (d(k \<mapsto> val_sub x v)))"

text \<open>
  Modelled from the spec: the constant \<open>COMP_KEYS\<close> of decomp.py is not under src/. It
  lists the component names this module writes, the electronic total and the structural
  term last, as the slices \<open>COMP_KEYS[:-2]\<close> and \<open>COMP_KEYS[-2:]\<close> of the code require.
\<close>

definition COMP_KEYS :: "string list" where
  "COMP_KEYS = [''coul'', ''exch'', ''kin'', ''nuc_att'', ''solvent'', ''xc'', ''el'', ''struct'']"

definition dict_init :: "string list \<Rightarrow> val \<Rightarrow> rdict" where
  "dict_init ks v = map_of (map (\<lambda>k. (k, v)) ks)"

section \<open>Shared numeric primitives (properties.py)\<close>

text \<open>\<open>_trace\<close>: a matrix operator, or a stack of them (one per Cartesian component).\<close>

datatype oper = Op2 mat | Op3 "mat list"

definition trace :: "oper \<Rightarrow> mat \<Rightarrow> real \<Rightarrow> val" where
  "trace op rdm1 scaling =
     (case op of
        Op2 A \<Rightarrow> Sc (contract_ij_ij A rdm1 * scaling)
      | Op3 As \<Rightarrow> Vc (map (\<lambda>x. x * scaling) (contract_xij_ij As rdm1)))"

text \<open>
  The values of the basis functions on the grid: two-dimensional (grid point, basis
  function) without derivatives, else a stack of such matrices. The density on the grid:
  one-dimensional for LDA, else a stack of rows.
\<close>

datatype ao_arr = Ao2 mat | Ao3 "mat list"
datatype rho_arr = Rho1 vec | RhoN mat
datatype xc_kind = LDA | HF | GGA | NLC | MGGA

definition e_xc :: "vec \<Rightarrow> vec \<Rightarrow> rho_arr \<Rightarrow> real res" where
  "e_xc eps_xc grid_weights rho =
     (case rho of
        Rho1 r \<Rightarrow> Inr (contract_i_i_i eps_xc r grid_weights)
      | RhoN rs \<Rightarrow> bind_res (nth_res rs 0) (\<lambda>r. Inr (contract_i_i_i eps_xc r grid_weights)))"

text \<open>
  \<open>_make_rho_interm1\<close>: the intermediates \<open>c0\<close> and \<open>c1\<close>. The functional type is
  already upper case (as the library returns it); the \<open>else\<close> branch is the meta-GGA
  one. Unpacking the shape of an array of the wrong dimension raises ValueError.
\<close>

definition make_rho_interm1 :: "ao_arr \<Rightarrow> mat \<Rightarrow> xc_kind \<Rightarrow> (mat \<times> mat list option) res" where
  "make_rho_interm1 ao_value rdm1 xctype =
     (if xctype = LDA \<or> xctype = HF then
        (case ao_value of
           Ao2 a \<Rightarrow> Inr (contract_ik_kj a rdm1, None)
         | Ao3 _ \<Rightarrow> Inl (ValueError ''too many values to unpack''))
      else
        (case ao_value of
           Ao2 _ \<Rightarrow> Inl (ValueError ''not enough values to unpack'')
         | Ao3 as \<Rightarrow>
             bind_res (nth_res as 0) (\<lambda>a0.
               if xctype = GGA \<or> xctype = NLC then Inr (contract_ik_kj a0 rdm1, None)
               else
                 bind_res (mapM_res (\<lambda>i. bind_res (nth_res as i)
                                      (\<lambda>ai. Inr (contract_ik_jk ai rdm1))) [1, 2, 3])
                   (\<lambda>c1. Inr (contract_ik_kj a0 rdm1, Some c1)))))"

text \<open>\<open>_make_rho_interm2\<close>: the density on the grid from the intermediates.\<close>

definition make_rho_interm2 ::
  "mat \<Rightarrow> mat list option \<Rightarrow> ao_arr \<Rightarrow> xc_kind \<Rightarrow> rho_arr res" where
  "make_rho_interm2 c0 c1 ao_value xctype =
     (if xctype = LDA \<or> xctype = HF then
        (case ao_value of
           Ao2 a \<Rightarrow> Inr (Rho1 (contract_pi_pi a c0))
         | Ao3 _ \<Rightarrow> Inl (ValueError ''einsum operand''))
      else
        (case ao_value of
           Ao2 _ \<Rightarrow> Inl (ValueError ''einsum operand'')
         | Ao3 as \<Rightarrow>
             bind_res (nth_res as 0) (\<lambda>a0.
               if xctype = GGA \<or> xctype = NLC then
                 bind_res (mapM_res (\<lambda>i. bind_res (nth_res as i)
                              (\<lambda>ai. Inr (map (\<lambda>x. x * 2) (contract_pi_pi c0 ai)))) [1, 2, 3])
                   (\<lambda>grad. Inr (RhoN (contract_pi_pi c0 a0 # grad)))
               else
                 let rho0 = contract_pi_pi a0 c0 in
                 bind_res (mapM_res (\<lambda>i. bind_res (nth_res as i)
                              (\<lambda>ai. Inr (map (\<lambda>x. x * 2) (contract_pi_pi c0 ai)))) [1, 2, 3])
                   (\<lambda>grad.
                 bind_res (case c1 of None \<Rightarrow> Inl TypeError | Some c \<Rightarrow> Inr c) (\<lambda>c.
                 bind_res (foldM_res (\<lambda>i rho5.
                              bind_res (nth_res as i) (\<lambda>ai.
                              bind_res (nth_res c (i - 1)) (\<lambda>ci.
                                Inr (vadd rho5 (contract_pi_pi ci ai)))))
                            [1, 2, 3] (map (\<lambda>_. 0) rho0))
                   (\<lambda>rho5.
                 bind_res (nth_res as 4) (\<lambda>axx.
                 bind_res (nth_res as 7) (\<lambda>ayy.
                 bind_res (nth_res as 9) (\<lambda>azz.
                   let ao_value_2 = madd (madd axx ayy) azz;
                       rho4 = map (\<lambda>x. x * 2) (vadd (contract_pi_pi c0 ao_value_2) rho5)
                   in Inr (RhoN (rho0 # grad @ [rho4, map (\<lambda>x. x * (1 / 2)) rho5])))))))))))"

section \<open>The molecule and the nuclear terms\<close>

type_synonym coord = "real \<times> real \<times> real"

record atoms =
  natm :: nat
  atom_charges :: vec
  atom_coords :: "coord list"

text \<open>
  The molecule as the integral provider sees it: its atoms, the atoms of the reference
  (minimal-basis) molecule that \<open>lo.iao.reference_mol\<close> builds, the occupied orbital
  indices per spin, the atom each basis function sits on, and the one-electron integrals
  (the inverse-distance and the dipole integrals depend on an origin).
\<close>

record mole = atoms +
  reference_mol :: "atoms"
  alpha :: "nat list"
  beta :: "nat list"
  ao_labels :: "nat list"
  nao_nr :: nat
  int1e_kin :: mat
  int1e_rinv :: "coord \<Rightarrow> mat"
  int1e_r :: "coord \<Rightarrow> mat list"

definition sub3 :: "coord \<Rightarrow> coord \<Rightarrow> coord" where
  "sub3 a b = (case a of (x, y, z) \<Rightarrow> case b of (u, v, w) \<Rightarrow> (x - u, y - v, z - w))"

definition norm3 :: "coord \<Rightarrow> real" where
  "norm3 a = (case a of (x, y, z) \<Rightarrow> sqrt (x * x + y * y + z * z))"

text \<open>PySCF's \<open>inter_distance\<close>: the matrix of Euclidean distances between the atoms.\<close>

definition inter_distance :: "coord list \<Rightarrow> mat" where
  "inter_distance cs = map (\<lambda>ri. map (\<lambda>rj. norm3 (sub3 ri rj)) cs) cs"

text \<open>\<open>dist[np.diag_indices_from(dist)] = v\<close>\<close>

definition set_diag :: "real \<Rightarrow> mat \<Rightarrow> mat" where
  "set_diag v A = map (\<lambda>(i, row). row[i := v]) (enumerate 0 A)"

definition recip :: "mat \<Rightarrow> mat" where
  "recip A = map (map (\<lambda>x. 1 / x)) A"

text \<open>The value \<open>1e200\<close> that \<open>_e_nuc\<close> stores on the diagonal of the distance matrix.\<close>

definition self_dist :: real where
  "self_dist = 10 ^ 200"

text \<open>
  \<open>_e_nuc\<close>: the nuclear repulsion per atom, and the interaction with the sites of an MM
  region when there is one.
\<close>

definition e_nuc :: "'a atoms_scheme \<Rightarrow> 'b atoms_scheme option \<Rightarrow> vec res" where
  "e_nuc mol mm_mol =
     (let coords = atom_coords mol;
          charges = atom_charges mol;
          dist = set_diag self_dist (inter_distance coords);
          e = map (\<lambda>x. x * (1 / 2)) (contract_i_ij_j charges (recip dist) charges)
      in case mm_mol of
           None \<Rightarrow> Inr e
         | Some mm \<Rightarrow>
             foldM_res (\<lambda>j e.
                 bind_res (nth_res charges j) (\<lambda>q2.
                 bind_res (nth_res coords j) (\<lambda>r2.
                 bind_res (nth_res e j) (\<lambda>ej.
                   let r = map (\<lambda>c. norm3 (sub3 r2 c)) (atom_coords mm)
                   in Inr (e[j := ej + q2 * sum_list (map2 (\<lambda>q d. q / d) (atom_charges mm) r)])))))
               [0..<natm mol] e)"

text \<open>\<open>_dip_nuc\<close>: charge times position, per atom.\<close>

definition coord_list :: "coord \<Rightarrow> vec" where
  "coord_list c = (case c of (x, y, z) \<Rightarrow> [x, y, z])"

definition dip_nuc :: "'a atoms_scheme \<Rightarrow> mat" where
  "dip_nuc mol = contract_i_ix (atom_charges mol) (map coord_list (atom_coords mol))"

text \<open>
  \<open>_h_core\<close>: the kinetic matrix, the total nuclear attraction, the attraction of each
  nucleus, and the potential of the MM region (computed by the integral library, a
  parameter here) when there is one.
\<close>

definition h_core :: "'a mole_scheme \<Rightarrow> mat option \<Rightarrow> (mat \<times> mat \<times> mat list \<times> mat option) res" where
  "h_core mol mm_pot =
     (let kin = int1e_kin mol;
          coords = atom_coords mol;
          charges = atom_charges mol
      in bind_res (mapM_res (\<lambda>k.
                      bind_res (nth_res coords k) (\<lambda>rk.
                      bind_res (nth_res charges k) (\<lambda>zk.
                        Inr (mscale zk (mscale (- 1) (int1e_rinv mol rk))))))
                    [0..<natm mol])
           (\<lambda>sub_nuc.
              Inr (kin, sum_axis0 (nao_nr mol) (nao_nr mol) sub_nuc, sub_nuc, mm_pot)))"


section \<open>The mean-field object and Python values\<close>

text \<open>
  What \<open>prop_tot\<close> reads of the mean-field object \<open>mf\<close>. The Coulomb and exchange
  builders, the functional library, the grids and the solvent and MM machinery are
  external: each is a field, a function of the density where it depends on it.
  \<open>mm_pot_ints\<close> is what \<open>_mm_pot(mol, mm_mol)\<close> returns and \<open>solvent_energy\<close> what
  \<open>_solvent(mol, rdm1, mf.with_solvent)\<close> returns: both are calls into the library only.
\<close>

datatype rdm_arg = Rdm2 mat | Rdm3 "mat \<times> mat"
datatype rho_out = RhoOne rho_arr | RhoPair rho_arr rho_arr

record mf_obj =
  is_ks :: bool
  mm_mol :: "atoms option"
  mm_pot_ints :: mat
  with_solvent :: bool
  solvent_energy :: "mat \<Rightarrow> vec"
  get_jk :: "mat \<times> mat \<Rightarrow> (mat \<times> mat) \<times> (mat \<times> mat)"
  mf_xc_type :: xc_kind
  rsh_and_hybrid_coeff :: "real \<times> real \<times> real"
  get_k_omega :: "mat \<times> mat \<Rightarrow> real \<Rightarrow> mat \<times> mat"
  eval_ao :: "nat \<Rightarrow> ao_arr"
  grids_weights :: vec
  eval_xc :: "rho_out \<Rightarrow> vec"
  nlc_is_vv10 :: bool
  eval_ao_nlc :: "nat \<Rightarrow> ao_arr"
  nlcgrids_weights :: vec
  vv10nlc :: "rho_out \<Rightarrow> vec"

text \<open>
  The values that travel through a call of \<open>prop_tot\<close>. A numeric array that is passed
  as a value of its own is an object of the installed NumPy: it carries the release of the
  library it belongs to, which decides what comparing it with a string gives. The releases
  are told apart as far as that comparison differs: before 1.25, from 1.25 up to 2.1, and
  from 2.2 on. A coordinate is taken as a Python list of three numbers, and the orbitals, the
  occupations, the weights and the bond assignment are tuples or lists of arrays.

  Modelled from the spec: the weight tensor and the bond assignment come from
  \<open>assign_rdm1s\<close>, which is not under src/. The weights are, per spin channel, the list
  of one weight vector (over the atoms) per occupied orbital; the bond assignment is, per
  spin channel, the list of orbital indices.
\<close>

datatype numpy_release = Before_1_25 | From_1_25 | From_2_2

datatype ndarray = NdArray (release: numpy_release) (entries: "mat list")

datatype pyval =
    PNone
  | PStr string
  | PBool bool
  | PCoord coord
  | PArr ndarray
  | PMol mole
  | PMf mf_obj
  | POrbs "mat \<times> mat"
  | POcc "vec \<times> vec"
  | PWeights "vec list \<times> vec list"
  | PRepIdx "nat list \<times> nat list"
  | PCentres "(nat \<times> nat) list \<times> (nat \<times> nat) list"

section \<open>The density on the grid\<close>

text \<open>
  \<open>_make_rho\<close>. The density is a matrix or a spin-stacked pair. \<open>ref\<close> is whatever the
  caller bound to the parameter, any Python value, and \<open>ref_eq_str\<close> is the test
  \<open>if ref == 'restricted'\<close> as Python evaluates it. A string compares by value; \<open>None\<close>,
  a tuple, a list and any other object compare unequal to a string. For a numeric array
  the installed NumPy decides. Before release 1.25 the comparison gives the scalar
  \<open>False\<close>. From 1.25 on it is elementwise and gives an array of \<open>False\<close> of the shape of
  the array, and \<open>if\<close> asks for the truth value of that array: \<open>False\<close> for one entry,
  ValueError for more than one; for no entry it is \<open>False\<close> up to 2.1 and ValueError from
  2.2 on.
\<close>

definition arr_size :: "mat list \<Rightarrow> nat" where
  "arr_size a = sum_list (map (\<lambda>m. sum_list (map length m)) a)"

definition ambiguous :: py_error where
  "ambiguous = ValueError ''The truth value of an array is ambiguous''"

definition array_eq_str :: "ndarray \<Rightarrow> bool res" where
  "array_eq_str a =
     (case release a of
        Before_1_25 \<Rightarrow> Inr False
      | From_1_25 \<Rightarrow> if arr_size (entries a) \<le> 1 then Inr False else Inl ambiguous
      | From_2_2 \<Rightarrow> if arr_size (entries a) = 1 then Inr False else Inl ambiguous)"


definition ref_eq_str :: "pyval \<Rightarrow> string \<Rightarrow> bool res" where
  "ref_eq_str r s =
     (case r of PStr t \<Rightarrow> Inr (t = s) | PArr a \<Rightarrow> array_eq_str a | _ \<Rightarrow> Inr False)"

definition sum_c1 :: "mat list option \<Rightarrow> mat list option \<Rightarrow> mat list option" where
  "sum_c1 a b = (case a of None \<Rightarrow> None
                 | Some x \<Rightarrow> (case b of None \<Rightarrow> None | Some y \<Rightarrow> Some (map2 madd x y)))"

definition make_rho ::
  "ao_arr \<Rightarrow> rdm_arg \<Rightarrow> pyval \<Rightarrow> xc_kind \<Rightarrow> (mat \<times> mat list option \<times> rho_out) res" where
  "make_rho ao_value rdm1 ref xc_type =
     (case rdm1 of
        Rdm2 d \<Rightarrow>
          bind_res (make_rho_interm1 ao_value d xc_type) (\<lambda>(c0, c1).
          bind_res (make_rho_interm2 c0 c1 ao_value xc_type) (\<lambda>rho.
            Inr (c0, c1, RhoOne rho)))
      | Rdm3 ds \<Rightarrow>
          bind_res (ref_eq_str ref ''restricted'') (\<lambda>restricted.
          if restricted then
            bind_res (make_rho_interm1 ao_value (mscale 2 (fst ds)) xc_type) (\<lambda>(c0, c1).
            bind_res (make_rho_interm2 c0 c1 ao_value xc_type) (\<lambda>rho.
              Inr (c0, c1, RhoOne rho)))
          else
            bind_res (make_rho_interm1 ao_value (fst ds) xc_type) (\<lambda>(c0a, c1a).
            bind_res (make_rho_interm1 ao_value (snd ds) xc_type) (\<lambda>(c0b, c1b).
            bind_res (make_rho_interm2 c0a c1a ao_value xc_type) (\<lambda>rho_a.
            bind_res (make_rho_interm2 c0b c1b ao_value xc_type) (\<lambda>rho_b.
              Inr (madd c0a c0b, sum_c1 c1a c1b, RhoPair rho_a rho_b)))))))"

text \<open>\<open>_e_xc\<close> on what \<open>_make_rho\<close> returned: a tuple of densities has no \<open>ndim\<close>.\<close>

definition e_xc_out :: "vec \<Rightarrow> vec \<Rightarrow> rho_out \<Rightarrow> real res" where
  "e_xc_out eps_xc grid_weights rho =
     (case rho of RhoOne r \<Rightarrow> e_xc eps_xc grid_weights r | RhoPair _ _ \<Rightarrow> Inl AttributeError)"

definition xc_ao_deriv :: "xc_kind \<Rightarrow> (xc_kind \<times> nat) res" where
  "xc_ao_deriv xc_type =
     (if xc_type = LDA then Inr (xc_type, 0)
      else if xc_type = GGA \<or> xc_type = NLC then Inr (xc_type, 1)
      else if xc_type = MGGA then Inr (xc_type, 2)
      else Inl (UnboundLocalError ''ao_deriv''))"

section \<open>The three kernels of \<open>prop_tot\<close>\<close>

text \<open>
  The kernels are closures of \<open>prop_tot\<close>: they read the variables that \<open>prop_tot\<close> has
  bound before the decomposition starts, and nothing else. The record below is that
  environment. Spin-stacked arrays are pairs (alpha, beta). \<open>k_weights\<close> is \<open>None\<close> when
  no weights were passed (the name is then unbound).
\<close>

record nlc_ctx =
  n_ao_value :: ao_arr
  n_grid_weights :: vec
  n_eps_xc :: vec
  n_c0_vv10 :: mat
  n_c1_vv10 :: "mat list option"

record dft_ctx =
  d_xc_type :: xc_kind
  d_ao_value :: ao_arr
  d_grid_weights :: vec
  d_eps_xc :: vec
  d_c0_tot :: mat
  d_c1_tot :: "mat list option"
  d_nlc :: "nlc_ctx option"

record kctx =
  k_prop_type :: string
  k_mo_coeff :: "mat \<times> mat"
  k_mo_occ :: "vec \<times> vec"
  k_alpha :: "nat list"
  k_beta :: "nat list"
  k_weights :: "(vec list \<times> vec list) option"
  k_rdm1_tot :: "mat \<times> mat"
  k_kin :: mat
  k_nuc :: mat
  k_sub_nuc :: "mat list"
  k_mm_pot :: "mat option"
  k_e_solvent :: "vec option"
  k_vj :: "mat \<times> mat"
  k_vk :: "mat \<times> mat"
  k_dft :: "dft_ctx option"
  k_ref :: pyval
  k_ao_dip :: "mat list option"
  k_prop_nuc_rep :: "val list option"
  k_ao_labels :: "nat list"

definition init_res :: "string \<Rightarrow> rdict" where
  "init_res prop_type =
     (if prop_type = ''energy'' then dict_init COMP_KEYS (Sc 0) else Map.empty)"

definition get_weight :: "kctx \<Rightarrow> nat \<Rightarrow> nat \<Rightarrow> nat \<Rightarrow> real res" where
  "get_weight c i m atom_idx =
     (case k_weights c of
        None \<Rightarrow> Inl (NameError ''weights'')
      | Some w \<Rightarrow> bind_res (nth_res (spin_get w i) m) (\<lambda>row. nth_res row atom_idx))"

text \<open>The density of one spin-orbital: \<open>make_rdm1(orb, mo_occ[i][j])\<close>.\<close>

definition orb_rdm1 :: "kctx \<Rightarrow> nat \<Rightarrow> nat \<Rightarrow> mat res" where
  "orb_rdm1 c i j =
     bind_res (orbital (spin_get (k_mo_coeff c) i) j) (\<lambda>orb.
     bind_res (nth_res (spin_get (k_mo_occ c) i) j) (\<lambda>occ.
       Inr (make_rdm1 orb [occ])))"

text \<open>The inner loop of \<open>prop_atom\<close> over the spin-orbitals of spin \<open>i\<close>.\<close>

definition atom_rdm1 :: "kctx \<Rightarrow> nat \<Rightarrow> nat \<Rightarrow> nat list \<Rightarrow> mat \<Rightarrow> mat res" where
  "atom_rdm1 c atom_idx i spin_mo d0 =
     foldM_res (\<lambda>(m, j) d.
         bind_res (orb_rdm1 c i j) (\<lambda>rdm1_orb.
         bind_res (get_weight c i m atom_idx) (\<lambda>w.
           Inr (madd d (mscale w rdm1_orb)))))
       (enumerate 0 spin_mo) d0"

text \<open>One pass of the loop over spins: the atom's density, then Coulomb and exchange.\<close>

definition atom_spin :: "kctx \<Rightarrow> nat \<Rightarrow> nat \<Rightarrow> nat list \<Rightarrow> rdict \<times> (mat \<times> mat)
                           \<Rightarrow> (rdict \<times> (mat \<times> mat)) res" where
  "atom_spin c atom_idx i spin_mo s =
     (case s of (res, rdm1_atom) \<Rightarrow>
        bind_res (atom_rdm1 c atom_idx i spin_mo (spin_get rdm1_atom i)) (\<lambda>d.
          if k_prop_type c = ''energy'' then
            bind_res (dict_iadd res ''coul'' (trace (Op2 (sum_spin (k_vj c))) d (1 / 2))) (\<lambda>res.
            bind_res (dict_isub res ''exch'' (trace (Op2 (spin_get (k_vk c) i)) d (1 / 2))) (\<lambda>res.
              Inr (res, spin_set rdm1_atom i d)))
          else Inr (res, spin_set rdm1_atom i d)))"

text \<open>The exchange-correlation part shared by \<open>prop_atom\<close> and \<open>prop_bonds\<close>.\<close>

definition xc_terms :: "kctx \<Rightarrow> mat \<Rightarrow> string \<Rightarrow> rdict \<Rightarrow> rdict res" where
  "xc_terms c d key res =
     (case k_dft c of
        None \<Rightarrow> Inr res
      | Some dc \<Rightarrow>
          bind_res (make_rho (d_ao_value dc) (Rdm2 d) (k_ref c) (d_xc_type dc)) (\<lambda>(_, _, rho).
          bind_res (dict_get res key) (\<lambda>x.
          bind_res (e_xc_out (d_eps_xc dc) (d_grid_weights dc) rho) (\<lambda>e.
            let res = res(key \<mapsto> val_add x (Sc e)) in
            case d_nlc dc of
              None \<Rightarrow> Inr res
            | Some nc \<Rightarrow>
                bind_res (make_rho (n_ao_value nc) (Rdm2 d) (k_ref c) GGA) (\<lambda>(_, _, rho_vv10).
                bind_res (dict_get res key) (\<lambda>y.
                bind_res (e_xc_out (n_eps_xc nc) (n_grid_weights nc) rho_vv10) (\<lambda>e2.
                  Inr (res(key \<mapsto> val_add y (Sc e2))))))))))"

text \<open>\<open>for comp_key in COMP_KEYS[:-2]: res['el'] += res[comp_key]\<close>\<close>

definition sum_el :: "rdict \<Rightarrow> rdict res" where
  "sum_el res =
     foldM_res (\<lambda>comp_key res.
         bind_res (dict_get res ''el'') (\<lambda>x.
         bind_res (dict_get res comp_key) (\<lambda>v.
           Inr (res(''el'' \<mapsto> val_add x v)))))
       (butlast (butlast COMP_KEYS)) res"

definition add_struct :: "kctx \<Rightarrow> nat \<Rightarrow> rdict \<Rightarrow> rdict res" where
  "add_struct c atom_idx res =
     bind_res (dict_get res ''struct'') (\<lambda>x.
     bind_res (case k_prop_nuc_rep c of None \<Rightarrow> Inl (NameError ''prop_nuc_rep'')
               | Some p \<Rightarrow> nth_res p atom_idx) (\<lambda>v.
       Inr (res(''struct'' \<mapsto> val_add x v))))"

definition add_solvent :: "kctx \<Rightarrow> nat \<Rightarrow> rdict \<Rightarrow> rdict res" where
  "add_solvent c atom_idx res =
     (case k_e_solvent c of
        None \<Rightarrow> Inr res
      | Some es \<Rightarrow>
          bind_res (dict_get res ''solvent'') (\<lambda>x.
          bind_res (nth_res es atom_idx) (\<lambda>v.
            Inr (res(''solvent'' \<mapsto> val_add x (Sc v))))))"

definition ao_dip_op :: "kctx \<Rightarrow> mat list res" where
  "ao_dip_op c = (case k_ao_dip c of None \<Rightarrow> Inl AttributeError | Some a \<Rightarrow> Inr a)"

text \<open>\<open>prop_atom\<close>: the contributions of one atom in the atom-weighted strategy.\<close>

definition prop_atom :: "kctx \<Rightarrow> nat \<Rightarrow> rdict res" where
  "prop_atom c atom_idx =
     (let res = init_res (k_prop_type c);
          rdm1_atom = (zeros_like (fst (k_rdm1_tot c)), zeros_like (snd (k_rdm1_tot c)))
      in bind_res (atom_spin c atom_idx 0 (k_alpha c) (res, rdm1_atom)) (\<lambda>s.
         bind_res (atom_spin c atom_idx 1 (k_beta c) s) (\<lambda>(res, rdm1_atom).
         bind_res
           (if k_prop_type c = ''energy'' then
              bind_res (dict_iadd res ''kin'' (trace (Op2 (k_kin c)) (sum_spin rdm1_atom) 1)) (\<lambda>res.
              bind_res (dict_get res ''nuc_att'') (\<lambda>x.
              bind_res (nth_res (k_sub_nuc c) atom_idx) (\<lambda>sub_nuc_a.
              bind_res (Inr (res(''nuc_att'' \<mapsto> val_add x
                          (val_add (trace (Op2 (k_nuc c)) (sum_spin rdm1_atom) (1 / 2))
                                   (trace (Op2 sub_nuc_a) (sum_spin (k_rdm1_tot c)) (1 / 2)))))) (\<lambda>res.
              bind_res (case k_mm_pot c of None \<Rightarrow> Inr res
                        | Some mm_pot \<Rightarrow>
                            dict_iadd res ''solvent'' (trace (Op2 mm_pot) (sum_spin rdm1_atom) 1)) (\<lambda>res.
              bind_res (add_solvent c atom_idx res) (\<lambda>res.
                xc_terms c (sum_spin rdm1_atom) ''xc'' res))))))
            else Inr res) (\<lambda>res.
         bind_res
           (if k_prop_type c = ''energy'' then sum_el res
            else if k_prop_type c = ''dipole'' then
              bind_res (dict_get res ''el'') (\<lambda>x.
              bind_res (ao_dip_op c) (\<lambda>ao_dip.
                Inr (res(''el'' \<mapsto> val_sub x (trace (Op3 ao_dip) (sum_spin rdm1_atom) 1)))))
            else Inr res) (\<lambda>res.
           add_struct c atom_idx res)))))"

text \<open>
  \<open>prop_eda\<close>: the contributions of one atom in the EDA strategy. \<open>select\<close> lists the
  basis functions whose label names the atom; \<open>A[select]\<close> keeps those rows and
  \<open>A[:, select]\<close> those columns.
\<close>

definition select_aos :: "nat list \<Rightarrow> nat \<Rightarrow> nat list" where
  "select_aos labels atom_idx = filter (\<lambda>i. labels ! i = atom_idx) [0..<length labels]"

definition rows :: "'a list \<Rightarrow> nat list \<Rightarrow> 'a list res" where
  "rows A select = mapM_res (nth_res A) select"

definition cols :: "mat \<Rightarrow> nat list \<Rightarrow> mat res" where
  "cols A select = mapM_res (\<lambda>row. rows row select) A"

definition eda_xc :: "kctx \<Rightarrow> nat list \<Rightarrow> rdict \<Rightarrow> rdict res" where
  "eda_xc c select res =
     (case k_dft c of
        None \<Rightarrow> Inr res
      | Some dc \<Rightarrow>
          bind_res (cols (d_c0_tot dc) select) (\<lambda>c0.
          bind_res (case d_c1_tot dc of None \<Rightarrow> Inr None
                    | Some c1 \<Rightarrow> bind_res (mapM_res (\<lambda>m. cols m select) c1) (\<lambda>x. Inr (Some x))) (\<lambda>c1.
          bind_res (case d_ao_value dc of Ao2 _ \<Rightarrow> Inl IndexError
                    | Ao3 as \<Rightarrow> bind_res (mapM_res (\<lambda>m. cols m select) as) (\<lambda>x. Inr (Ao3 x))) (\<lambda>ao.
          bind_res (make_rho_interm2 c0 c1 ao (d_xc_type dc)) (\<lambda>rho_atom.
          bind_res (dict_get res ''xc'') (\<lambda>x.
          bind_res (e_xc (d_eps_xc dc) (d_grid_weights dc) rho_atom) (\<lambda>e.
            let res = res(''xc'' \<mapsto> val_add x (Sc e)) in
            case d_nlc dc of
              None \<Rightarrow> Inr res
            | Some nc \<Rightarrow>
                bind_res (cols (n_c0_vv10 nc) select) (\<lambda>c0v.
                bind_res (case n_c1_vv10 nc of None \<Rightarrow> Inr None
                          | Some c1 \<Rightarrow> bind_res (mapM_res (\<lambda>m. cols m select) c1) (\<lambda>x. Inr (Some x))) (\<lambda>c1v.
                bind_res (case n_ao_value nc of Ao2 _ \<Rightarrow> Inl IndexError
                          | Ao3 as \<Rightarrow> bind_res (mapM_res (\<lambda>m. cols m select) as) (\<lambda>x. Inr (Ao3 x))) (\<lambda>aov.
                bind_res (make_rho_interm2 c0v c1v aov GGA) (\<lambda>rho_vv10.
                bind_res (dict_get res ''xc'') (\<lambda>y.
                bind_res (e_xc (n_eps_xc nc) (n_grid_weights nc) rho_vv10) (\<lambda>e2.
                  Inr (res(''xc'' \<mapsto> val_add y (Sc e2))))))))))))))))"

definition eda_spin :: "kctx \<Rightarrow> nat list \<Rightarrow> nat \<Rightarrow> rdict \<Rightarrow> rdict res" where
  "eda_spin c select i res =
     bind_res (dict_get res ''coul'') (\<lambda>x.
     bind_res (rows (sum_spin (k_vj c)) select) (\<lambda>vj_sel.
     bind_res (rows (spin_get (k_rdm1_tot c) i) select) (\<lambda>d_sel.
     bind_res (Inr (res(''coul'' \<mapsto> val_add x (trace (Op2 vj_sel) d_sel (1 / 2))))) (\<lambda>res.
     bind_res (dict_get res ''exch'') (\<lambda>y.
     bind_res (rows (spin_get (k_vk c) i) select) (\<lambda>vk_sel.
       Inr (res(''exch'' \<mapsto> val_sub y (trace (Op2 vk_sel) d_sel (1 / 2))))))))))"

definition prop_eda :: "kctx \<Rightarrow> nat \<Rightarrow> rdict res" where
  "prop_eda c atom_idx =
     (let res = init_res (k_prop_type c);
          select = select_aos (k_ao_labels c) atom_idx;
          d_tot = sum_spin (k_rdm1_tot c)
      in bind_res
           (if k_prop_type c = ''energy'' then
              bind_res (eda_spin c select 0 res) (\<lambda>res.
              bind_res (eda_spin c select 1 res) (\<lambda>res.
              bind_res (dict_get res ''kin'') (\<lambda>x.
              bind_res (rows (k_kin c) select) (\<lambda>kin_sel.
              bind_res (rows d_tot select) (\<lambda>d_sel.
              bind_res (Inr (res(''kin'' \<mapsto> val_add x (trace (Op2 kin_sel) d_sel 1)))) (\<lambda>res.
              bind_res (dict_get res ''nuc_att'') (\<lambda>x.
              bind_res (rows (k_nuc c) select) (\<lambda>nuc_sel.
              bind_res (nth_res (k_sub_nuc c) atom_idx) (\<lambda>sub_nuc_a.
              bind_res (Inr (res(''nuc_att'' \<mapsto> val_add x
                          (val_add (trace (Op2 nuc_sel) d_sel (1 / 2))
                                   (trace (Op2 sub_nuc_a) d_tot (1 / 2)))))) (\<lambda>res.
              bind_res (case k_mm_pot c of None \<Rightarrow> Inr res
                        | Some mm_pot \<Rightarrow>
                            bind_res (dict_get res ''solvent'') (\<lambda>x.
                            bind_res (rows mm_pot select) (\<lambda>mm_sel.
                              Inr (res(''solvent'' \<mapsto> val_add x (trace (Op2 mm_sel) d_sel 1)))))) (\<lambda>res.
              bind_res (add_solvent c atom_idx res) (\<lambda>res.
                eda_xc c select res))))))))))))
            else Inr res) (\<lambda>res.
         bind_res
           (if k_prop_type c = ''energy'' then sum_el res
            else if k_prop_type c = ''dipole'' then
              bind_res (dict_get res ''el'') (\<lambda>x.
              bind_res (ao_dip_op c) (\<lambda>ao_dip.
              bind_res (mapM_res (\<lambda>m. rows m select) ao_dip) (\<lambda>dip_sel.
              bind_res (rows d_tot select) (\<lambda>d_sel.
                Inr (res(''el'' \<mapsto> val_sub x (trace (Op3 dip_sel) d_sel 1)))))))
            else Inr res) (\<lambda>res.
           add_struct c atom_idx res)))"

text \<open>\<open>prop_bonds\<close>: the contribution of one spin-orbital.\<close>

definition prop_bonds :: "kctx \<Rightarrow> nat \<times> nat \<Rightarrow> rdict res" where
  "prop_bonds c task =
     (case task of (spin_idx, orb_idx) \<Rightarrow>
        bind_res (orb_rdm1 c spin_idx orb_idx) (\<lambda>rdm1_orb.
          if k_prop_type c = ''energy'' then
            (let res = Map.empty(''el'' \<mapsto>
                         trace (Op2 (madd (sum_spin (k_vj c)) (mscale (- 1) (spin_get (k_vk c) spin_idx))))
                               rdm1_orb (1 / 2))
             in bind_res (dict_iadd res ''el'' (trace (Op2 (madd (k_kin c) (k_nuc c))) rdm1_orb 1)) (\<lambda>res.
                bind_res (case k_mm_pot c of None \<Rightarrow> Inr res
                          | Some mm_pot \<Rightarrow> dict_iadd res ''el'' (trace (Op2 mm_pot) rdm1_orb 1)) (\<lambda>res.
                  xc_terms c rdm1_orb ''el'' res)))
          else if k_prop_type c = ''dipole'' then
            bind_res (ao_dip_op c) (\<lambda>ao_dip.
              Inr (Map.empty(''el'' \<mapsto> val_neg (trace (Op3 ao_dip) rdm1_orb 1))))
          else Inr Map.empty))"

section \<open>Running the kernel over the domain\<close>

text \<open>
  The sequential path is \<open>list(map(kernel, domain))\<close>: the tasks run in order and the
  first exception ends the run.

  The parallel path is \<open>pool.map\<close> (or \<open>pool.starmap\<close>) on a pool of
  \<open>min(domain.size, lib.num_threads())\<close> processes. Creating a pool of fewer than one
  process raises ValueError. The pool completes the tasks in an order of its own, the
  schedule \<open>sched\<close> (the task indices in completion order); each result is stored in the
  slot of its task index, and the first failure to complete is the exception raised.
\<close>

definition seq_map :: "('a \<Rightarrow> 'b res) \<Rightarrow> 'a list \<Rightarrow> 'b list res" where
  "seq_map f domain = mapM_res f domain"

definition fill_slots :: "('a \<Rightarrow> 'b res) \<Rightarrow> 'a list \<Rightarrow> nat list \<Rightarrow> 'b res option list" where
  "fill_slots f domain sched =
     foldl (\<lambda>slots k. slots[k := Some (f (domain ! k))]) (replicate (length domain) None) sched"

definition slot_value :: "'b res option \<Rightarrow> 'b res" where
  "slot_value s = (case s of None \<Rightarrow> Inl (ValueError ''task not completed'') | Some r \<Rightarrow> r)"

definition pool_map :: "nat \<Rightarrow> nat list \<Rightarrow> ('a \<Rightarrow> 'b res) \<Rightarrow> 'a list \<Rightarrow> 'b list res" where
  "pool_map processes sched f domain =
     (if processes < 1 then Inl (ValueError ''Number of processes must be at least 1'')
      else case List.find (\<lambda>k. isl (f (domain ! k))) (filter (\<lambda>k. k < length domain) sched) of
             Some k \<Rightarrow> Inl (projl (f (domain ! k)))
           | None \<Rightarrow> mapM_res slot_value (fill_slots f domain sched))"

definition run_kernel ::
  "bool \<Rightarrow> nat \<Rightarrow> nat \<Rightarrow> nat list \<Rightarrow> ('a \<Rightarrow> 'b res) \<Rightarrow> 'a list \<Rightarrow> 'b list res" where
  "run_kernel multiproc domain_size num_threads sched f domain =
     (if multiproc then pool_map (min domain_size num_threads) sched f domain
      else seq_map f domain)"

section \<open>Collecting the results\<close>

text \<open>
  What \<open>prop_tot\<close> returns: a dictionary whose entries are arrays over the atoms, a pair
  of arrays over the orbitals of the two spin channels, a vector or a scalar.
\<close>

datatype entry = EArr "val list" | ESpin "val list" "val list" | EVec vec | EScalar real

type_synonym tot = "string \<rightharpoonup> entry"

text \<open>The keys of a kernel's result, in the order of \<open>COMP_KEYS\<close>.\<close>

definition items :: "rdict \<Rightarrow> (string \<times> val) list" where
  "items r = concat (map (\<lambda>k. case r k of None \<Rightarrow> [] | Some v \<Rightarrow> [(k, v)]) COMP_KEYS)"

text \<open>\<open>prop[key][k] = val\<close> in the atoms and EDA strategies.\<close>

definition store_atom :: "nat \<Rightarrow> string \<times> val \<Rightarrow> tot \<Rightarrow> tot res" where
  "store_atom k kv prop =
     (case prop (fst kv) of
        Some (EArr a) \<Rightarrow>
          if k < length a then Inr (prop(fst kv \<mapsto> EArr (a[k := snd kv]))) else Inl IndexError
      | Some _ \<Rightarrow> Inl TypeError
      | None \<Rightarrow> Inl (KeyError (fst kv)))"

definition collect_atoms :: "rdict list \<Rightarrow> tot \<Rightarrow> tot res" where
  "collect_atoms results prop =
     foldM_res (\<lambda>(k, r) prop. foldM_res (store_atom k) (items r) prop) (enumerate 0 results) prop"

text \<open>
  \<open>prop[key][0 if k < len(rep_idx[0]) else 1][k % len(rep_idx[0])] = val\<close> in the bonds
  strategy; \<open>n0\<close> is \<open>len(rep_idx[0])\<close>.
\<close>

definition store_bond :: "nat \<Rightarrow> nat \<Rightarrow> string \<times> val \<Rightarrow> tot \<Rightarrow> tot res" where
  "store_bond n0 k kv prop =
     (case prop (fst kv) of
        Some (ESpin a b) \<Rightarrow>
          if n0 = 0 then Inl ZeroDivisionError
          else if k < n0 then
            (if k mod n0 < length a then Inr (prop(fst kv \<mapsto> ESpin (a[k mod n0 := snd kv]) b))
             else Inl IndexError)
          else
            (if k mod n0 < length b then Inr (prop(fst kv \<mapsto> ESpin a (b[k mod n0 := snd kv])))
             else Inl IndexError)
      | Some _ \<Rightarrow> Inl TypeError
      | None \<Rightarrow> Inl (KeyError (fst kv)))"

definition collect_bonds :: "nat \<Rightarrow> rdict list \<Rightarrow> tot \<Rightarrow> tot res" where
  "collect_bonds n0 results prop =
     foldM_res (\<lambda>(k, r) prop. foldM_res (store_bond n0 k) (items r) prop) (enumerate 0 results) prop"

text \<open>The domain of the bonds strategy: alpha tasks first, then beta tasks.\<close>

definition bonds_domain :: "nat list \<times> nat list \<Rightarrow> (nat \<times> nat) list" where
  "bonds_domain rep_idx = map (\<lambda>j. (0, j)) (fst rep_idx) @ map (\<lambda>j. (1, j)) (snd rep_idx)"

section \<open>\<open>prop_tot\<close>\<close>

text \<open>\<open>np.sum(rows, axis=0)\<close> of a list of vectors over \<open>n\<close> atoms.\<close>

definition sum_rows :: "nat \<Rightarrow> vec list \<Rightarrow> vec" where
  "sum_rows n ws = foldr vadd ws (replicate n 0)"

text \<open>
  The effective atomic charges: \<open>weights[0] + weights[1]\<close> joins the two lists of weight
  vectors, and the sum over the orbitals is taken off the nuclear charges.
\<close>

definition charge_atom :: "atoms \<Rightarrow> (string \<rightharpoonup> pyval) \<Rightarrow> entry res" where
  "charge_atom pmol kwargs =
     (case kwargs ''weights'' of
        None \<Rightarrow> Inr (EScalar 0)
      | Some (PWeights weights) \<Rightarrow>
          Inr (EVec (map2 (-) (atom_charges pmol)
                      (sum_rows (length (atom_charges pmol)) (fst weights @ snd weights))))
      | Some _ \<Rightarrow> Inl TypeError)"

definition pscale :: "real \<Rightarrow> mat \<times> mat \<Rightarrow> mat \<times> mat" where
  "pscale c p = (mscale c (fst p), mscale c (snd p))"

definition padd :: "mat \<times> mat \<Rightarrow> mat \<times> mat \<Rightarrow> mat \<times> mat" where
  "padd p q = (madd (fst p) (fst q), madd (snd p) (snd q))"

text \<open>\<open>_vk_dft\<close>: the exchange operator scaled for the functional.\<close>

definition vk_dft :: "mf_obj \<Rightarrow> mat \<times> mat \<Rightarrow> mat \<times> mat \<Rightarrow> mat \<times> mat" where
  "vk_dft mf rdm1 vk =
     (case rsh_and_hybrid_coeff mf of (omega, alpha_c, hyb) \<Rightarrow>
        let vk = pscale hyb vk in
        if \<bar>omega\<bar> > 1 / 10 ^ 10
        then padd vk (pscale (alpha_c - hyb) (get_k_omega mf rdm1 omega))
        else vk)"

text \<open>The density-functional intermediates of \<open>prop_tot\<close> (lines 87 to 116).\<close>

definition dft_setup :: "mf_obj \<Rightarrow> mat \<times> mat \<Rightarrow> pyval \<Rightarrow> mat \<times> mat
                           \<Rightarrow> ((mat \<times> mat) \<times> dft_ctx option) res" where
  "dft_setup mf rdm1_tot ref vk =
     (if is_ks mf then
        bind_res (xc_ao_deriv (mf_xc_type mf)) (\<lambda>(xc_type, ao_deriv).
          let vk = vk_dft mf rdm1_tot vk;
              ao_value = eval_ao mf ao_deriv;
              grid_weights = grids_weights mf
          in bind_res (make_rho ao_value (Rdm3 rdm1_tot) ref xc_type) (\<lambda>(c0_tot, c1_tot, rho_tot).
             let eps_xc = eval_xc mf rho_tot in
             bind_res
               (if nlc_is_vv10 mf then
                  (let ao_value_nlc = eval_ao_nlc mf 1 in
                   bind_res (make_rho ao_value_nlc (Rdm2 (sum_spin rdm1_tot)) ref GGA)
                     (\<lambda>(c0_vv10, c1_vv10, rho_vv10).
                        Inr (Some \<lparr>n_ao_value = ao_value_nlc,
                                   n_grid_weights = nlcgrids_weights mf,
                                   n_eps_xc = vv10nlc mf rho_vv10,
                                   n_c0_vv10 = c0_vv10, n_c1_vv10 = c1_vv10\<rparr>)))
                else Inr None) (\<lambda>nlc.
               Inr (vk, Some \<lparr>d_xc_type = xc_type, d_ao_value = ao_value,
                              d_grid_weights = grid_weights, d_eps_xc = eps_xc,
                              d_c0_tot = c0_tot, d_c1_tot = c1_tot, d_nlc = nlc\<rparr>))))
      else Inr (vk, None))"

definition get_weights_kw :: "(string \<rightharpoonup> pyval) \<Rightarrow> (vec list \<times> vec list) option" where
  "get_weights_kw kwargs = (case kwargs ''weights'' of Some (PWeights w) \<Rightarrow> Some w | _ \<Rightarrow> None)"

text \<open>
  The last block of \<open>prop_tot\<close> (``perform decomposition''): the result arrays are
  initialised, the kernel of the strategy runs over the domain, and the results are
  collected. \<open>num_threads\<close> is \<open>lib.num_threads()\<close> and \<open>sched\<close> the completion order of
  the worker pool; both belong to the machine, not to the request.
\<close>

definition decompose ::
  "nat \<Rightarrow> nat list \<Rightarrow> kctx \<Rightarrow> atoms \<Rightarrow> string \<Rightarrow> bool \<Rightarrow> (string \<rightharpoonup> pyval) \<Rightarrow> entry
     \<Rightarrow> tot res" where
  "decompose num_threads sched c pmol part multiproc kwargs charge =
    (if part = ''atoms'' \<or> part = ''eda'' then
       bind_res
         (if k_prop_type c = ''energy''
          then Inr (map_of (map (\<lambda>key. (key, EArr (replicate (natm pmol) (Sc 0)))) COMP_KEYS))
          else if k_prop_type c = ''dipole''
          then Inr (map_of (map (\<lambda>key. (key, EArr (replicate (natm pmol) (Vc [0, 0, 0]))))
                              [''el'', ''struct'']))
          else Inl (UnboundLocalError ''prop'')) (\<lambda>prop.
       let domain = [0..<natm pmol] in
       bind_res (run_kernel multiproc (length domain) num_threads sched
                   (if part = ''atoms'' then prop_atom c else prop_eda c) domain) (\<lambda>results.
       bind_res (collect_atoms results prop) (\<lambda>prop.
         Inr (prop(''charge_atom'' \<mapsto> charge)))))
     else
       (case kwargs ''rep_idx'' of
          None \<Rightarrow> Inl (KeyError ''rep_idx'')
        | Some (PRepIdx rep_idx) \<Rightarrow>
            bind_res
              (if k_prop_type c = ''energy''
               then Inr [''el'' \<mapsto> ESpin (replicate (length (fst rep_idx)) (Sc 0))
                                         (replicate (length (snd rep_idx)) (Sc 0))]
               else if k_prop_type c = ''dipole''
               then Inr [''el'' \<mapsto> ESpin (replicate (length (fst rep_idx)) (Vc [0, 0, 0]))
                                         (replicate (length (snd rep_idx)) (Vc [0, 0, 0]))]
               else Inl (UnboundLocalError ''prop'')) (\<lambda>prop.
            let domain = bonds_domain rep_idx in
            bind_res (run_kernel multiproc (2 * length domain) num_threads sched
                        (prop_bonds c) domain) (\<lambda>results.
            bind_res (collect_bonds (length (fst rep_idx)) results prop) (\<lambda>prop.
            bind_res (case k_prop_nuc_rep c of None \<Rightarrow> Inl (NameError ''prop_nuc_rep'')
                      | Some p \<Rightarrow> Inr p) (\<lambda>p.
              Inr (prop(''struct'' \<mapsto> EArr p, ''charge_atom'' \<mapsto> charge))))))
        | Some _ \<Rightarrow> Inl TypeError))"

text \<open>\<open>prop_tot\<close>: everything up to the decomposition, then the decomposition.\<close>

definition prop_tot ::
  "nat \<Rightarrow> nat list \<Rightarrow> mole \<Rightarrow> mf_obj \<Rightarrow> mat \<times> mat \<Rightarrow> vec \<times> vec \<Rightarrow> pyval \<Rightarrow> string \<Rightarrow> string
     \<Rightarrow> string \<Rightarrow> bool \<Rightarrow> (string \<rightharpoonup> pyval) \<Rightarrow> tot res" where
  "prop_tot num_threads sched mol mf mo_coeff mo_occ ref pop prop_type part multiproc kwargs =
     bind_res
       (if prop_type = ''dipole'' then
          (case kwargs ''dipole_origin'' of
             None \<Rightarrow> Inl (KeyError ''dipole_origin'')
           | Some (PCoord origin) \<Rightarrow> Inr (Some (int1e_r mol origin))
           | Some _ \<Rightarrow> Inl TypeError)
        else Inr None) (\<lambda>ao_dip.
     let rdm1_tot = (make_rdm1 (fst mo_coeff) (fst mo_occ), make_rdm1 (snd mo_coeff) (snd mo_occ));
         pmol = (if pop = ''iao'' then reference_mol mol else atoms.truncate mol)
     in
     bind_res (charge_atom pmol kwargs) (\<lambda>charge.
     let mm = mm_mol mf;
         e_solvent = (if with_solvent mf then Some (solvent_energy mf (sum_spin rdm1_tot)) else None)
     in
     bind_res
       (if prop_type = ''energy'' then bind_res (e_nuc pmol mm) (\<lambda>e. Inr (Some (map Sc e)))
        else if prop_type = ''dipole'' then Inr (Some (map Vc (dip_nuc pmol)))
        else Inr None) (\<lambda>prop_nuc_rep.
     bind_res (h_core mol (case mm of None \<Rightarrow> None | Some _ \<Rightarrow> Some (mm_pot_ints mf)))
       (\<lambda>(kin, nuc, sub_nuc, mm_pot).
     case get_jk mf rdm1_tot of (vj, vk) \<Rightarrow>
     bind_res (dft_setup mf rdm1_tot ref vk) (\<lambda>(vk, dft).
     let c = \<lparr>k_prop_type = prop_type, k_mo_coeff = mo_coeff, k_mo_occ = mo_occ,
              k_alpha = alpha mol, k_beta = beta mol, k_weights = get_weights_kw kwargs,
              k_rdm1_tot = rdm1_tot, k_kin = kin, k_nuc = nuc, k_sub_nuc = sub_nuc,
              k_mm_pot = mm_pot, k_e_solvent = e_solvent, k_vj = vj, k_vk = vk,
              k_dft = dft, k_ref = ref, k_ao_dip = ao_dip, k_prop_nuc_rep = prop_nuc_rep,
              k_ao_labels = ao_labels mol\<rparr>
     in
     decompose num_threads sched c pmol part multiproc kwargs charge)))))"

section \<open>Calling \<open>prop_tot\<close> from \<open>main\<close> (decodense.py)\<close>

text \<open>
  A Python call: positional arguments and keyword arguments. The positional arguments
  fill the parameters from the left; a keyword argument fills the parameter of its name
  if there is one and it is still unfilled, and lands in \<open>**kwargs\<close> otherwise.
\<close>

record call =
  pos_args :: "pyval list"
  kw_args :: "(string \<times> pyval) list"

definition bind_keyword :: "string list \<Rightarrow> string \<times> pyval
    \<Rightarrow> (string \<rightharpoonup> pyval) \<times> (string \<rightharpoonup> pyval) \<Rightarrow> ((string \<rightharpoonup> pyval) \<times> (string \<rightharpoonup> pyval)) res" where
  "bind_keyword params kv s =
     (case s of (args, kwargs) \<Rightarrow>
        if fst kv \<in> set params then
          (if args (fst kv) = None then Inr (args(fst kv \<mapsto> snd kv), kwargs) else Inl TypeError)
        else Inr (args, kwargs(fst kv \<mapsto> snd kv)))"

definition bind_call :: "string list \<Rightarrow> call
    \<Rightarrow> ((string \<rightharpoonup> pyval) \<times> (string \<rightharpoonup> pyval)) res" where
  "bind_call params c =
     (if length (pos_args c) > length params then Inl TypeError
      else bind_res (foldM_res (bind_keyword params) (kw_args c)
                       (map_of (zip params (pos_args c)), Map.empty)) (\<lambda>(args, kwargs).
             if list_all (\<lambda>p. args p \<noteq> None) params then Inr (args, kwargs) else Inl TypeError))"

text \<open>The signature \<open>prop_tot(mol, mf, mo_coeff, mo_occ, ref, pop, prop_type, part, multiproc, **kwargs)\<close>.\<close>

definition prop_tot_params :: "string list" where
  "prop_tot_params =
     [''mol'', ''mf'', ''mo_coeff'', ''mo_occ'', ''ref'', ''pop'', ''prop_type'', ''part'', ''multiproc'']"

definition call_prop_tot :: "nat \<Rightarrow> nat list \<Rightarrow> call \<Rightarrow> tot res" where
  "call_prop_tot num_threads sched c =
     bind_res (bind_call prop_tot_params c) (\<lambda>(args, kwargs).
       case (args ''mol'', args ''mf'', args ''mo_coeff'', args ''mo_occ'', args ''ref'',
             args ''pop'', args ''prop_type'', args ''part'', args ''multiproc'') of
         (Some (PMol mol), Some (PMf mf), Some (POrbs mo_coeff), Some (POcc mo_occ), Some ref,
          Some (PStr pop), Some (PStr prop_type), Some (PStr part), Some (PBool multiproc)) \<Rightarrow>
            prop_tot num_threads sched mol mf mo_coeff mo_occ ref pop prop_type part multiproc kwargs
       | _ \<Rightarrow> Inl TypeError)"

text \<open>
  The configuration object and the collaborators of \<open>main\<close> that are not under src/:
  the sanity check (which may raise), the orbital preparation, the localisation and the
  population analysis. \<open>assign_rdm1s\<close> returns a pair; \<open>main\<close> keeps its first component
  as the weights, or both components as the bond assignment and its centres.
\<close>

record decomp_cls =
  loc :: string
  part :: string
  pop :: string
  prop' :: string
  multiproc :: bool
  gauge_origin :: coord
  ndo :: bool
  verbose :: nat
  thres :: real
  write' :: string

record collab =
  sanity_check :: "mole \<Rightarrow> decomp_cls \<Rightarrow> py_error option"
  mf_info :: "mf_obj \<Rightarrow> (mat \<times> mat) \<times> (vec \<times> vec)"
  make_no :: "mole \<Rightarrow> mf_obj \<Rightarrow> mat list \<Rightarrow> (mat \<times> mat) \<times> (vec \<times> vec)"
  loc_orbs :: "mole \<Rightarrow> mat \<times> mat \<Rightarrow> vec \<times> vec \<Rightarrow> string \<Rightarrow> mat \<times> mat"
  assign_rdm1s :: "mole \<Rightarrow> mat \<times> mat \<Rightarrow> vec \<times> vec \<Rightarrow> string \<Rightarrow> string \<Rightarrow> pyval \<times> pyval"

definition opt_arr :: "ndarray option \<Rightarrow> pyval" where
  "opt_arr a = (case a of None \<Rightarrow> PNone | Some x \<Rightarrow> PArr x)"

text \<open>The call of \<open>prop_tot\<close> that \<open>main\<close> writes, with the extra keywords of the branch.\<close>

definition main_call :: "mole \<Rightarrow> decomp_cls \<Rightarrow> mf_obj \<Rightarrow> mat \<times> mat \<Rightarrow> vec \<times> vec
                           \<Rightarrow> ndarray option \<Rightarrow> (string \<times> pyval) list \<Rightarrow> call" where
  "main_call mol decomp mf mo_coeff mo_occ rdm1_eff extra =
     \<lparr>pos_args = [PMol mol, PMf mf, POrbs mo_coeff, POcc mo_occ, opt_arr rdm1_eff,
                    PStr (pop decomp), PStr (prop' decomp), PStr (part decomp)],
      kw_args = [(''multiproc'', PBool (multiproc decomp)),
                  (''gauge_origin'', PCoord (gauge_origin decomp)),
                  (''ndo'', PBool (ndo decomp))] @ extra\<rparr>"

definition main_orbitals :: "collab \<Rightarrow> mole \<Rightarrow> decomp_cls \<Rightarrow> mf_obj \<Rightarrow> mat list option
                               \<Rightarrow> (mat \<times> mat) \<times> (vec \<times> vec)" where
  "main_orbitals ext mol decomp mf rdm1_orb =
     (case (case rdm1_orb of None \<Rightarrow> mf_info ext mf | Some r \<Rightarrow> make_no ext mol mf r) of
        (mo_coeff, mo_occ) \<Rightarrow>
          if loc decomp \<noteq> [] then (loc_orbs ext mol mo_coeff mo_occ (loc decomp), mo_occ)
          else (mo_coeff, mo_occ))"

definition main_extra :: "collab \<Rightarrow> mole \<Rightarrow> decomp_cls \<Rightarrow> mat \<times> mat \<Rightarrow> vec \<times> vec
                            \<Rightarrow> (string \<times> pyval) list" where
  "main_extra ext mol decomp mo_coeff mo_occ =
     (if part decomp = ''atoms'' \<or> part decomp = ''eda'' then
        [(''weights'', fst (assign_rdm1s ext mol mo_coeff mo_occ (pop decomp) (part decomp)))]
      else if part decomp = ''bonds'' then
        (case assign_rdm1s ext mol mo_coeff mo_occ (pop decomp) (part decomp) of
           (rep_idx, centres) \<Rightarrow> [(''rep_idx'', rep_idx), (''centres'', centres)])
      else [])"

text \<open>
  \<open>main\<close>, up to the result it stores in \<open>decomp.res\<close> and returns (writing the density
  matrices to a file afterwards is left out).
\<close>

definition main :: "collab \<Rightarrow> nat \<Rightarrow> nat list \<Rightarrow> mole \<Rightarrow> decomp_cls \<Rightarrow> mf_obj
                      \<Rightarrow> mat list option \<Rightarrow> ndarray option \<Rightarrow> tot res" where
  "main ext num_threads sched mol decomp mf rdm1_orb rdm1_eff =
     (case sanity_check ext mol decomp of
        Some e \<Rightarrow> Inl e
      | None \<Rightarrow>
          (case main_orbitals ext mol decomp mf rdm1_orb of (mo_coeff, mo_occ) \<Rightarrow>
             call_prop_tot num_threads sched
               (main_call mol decomp mf mo_coeff mo_occ rdm1_eff
                  (main_extra ext mol decomp mo_coeff mo_occ))))"

section \<open>Periodic nuclear attraction (pbctools.py)\<close>

text \<open>
  \<open>kpts\<close> is \<open>None\<close>, one k-point (a one-dimensional array) or a list of k-points.
  The density-fitting object carries its own k-points, the flag \<open>_prefer_ccdf\<close> and
  the cell, of which only \<open>omega\<close> is read here.
\<close>

type_synonym kpt = "real \<times> real \<times> real"

datatype kpts_arg = KOne kpt | KMany "kpt list"

record df_obj =
  df_kpts :: kpts_arg
  prefer_ccdf :: bool
  cell_omega :: real

definition kpt_abs_sum :: "kpt \<Rightarrow> real" where
  "kpt_abs_sum k = (case k of (x, y, z) \<Rightarrow> \<bar>x\<bar> + \<bar>y\<bar> + \<bar>z\<bar>)"

text \<open>PySCF's \<open>is_zero\<close>: the absolute values sum to less than the tolerance 1e-6.\<close>

definition is_zero :: "kpts_arg \<Rightarrow> bool" where
  "is_zero ks = (case ks of
      KOne k \<Rightarrow> kpt_abs_sum k < 1 / 10 ^ 6
    | KMany l \<Rightarrow> sum_list (map kpt_abs_sum l) < 1 / 10 ^ 6)"

definition kpts_ndim_is_1 :: "kpts_arg \<Rightarrow> bool" where
  "kpts_ndim_is_1 ks = (case ks of KOne _ \<Rightarrow> True | KMany _ \<Rightarrow> False)"

definition reshape_3 :: "kpts_arg \<Rightarrow> kpt list" where
  "reshape_3 ks = (case ks of KOne k \<Rightarrow> [k] | KMany l \<Rightarrow> l)"

definition check_kpts :: "df_obj \<Rightarrow> kpts_arg option \<Rightarrow> kpt list \<times> bool" where
  "check_kpts mydf kpts =
     (case kpts of
        None \<Rightarrow>
          (let ks = df_kpts mydf;
               is_single_kpt = (kpts_ndim_is_1 ks \<or> is_zero ks)
           in (reshape_3 ks, is_single_kpt))
      | Some ks \<Rightarrow>
          (let is_single_kpt = kpts_ndim_is_1 ks
           in (reshape_3 ks, is_single_kpt)))"

text \<open>
  What the two functions return: the array over k-points, or its first entry when a
  single k-point was asked for.
\<close>

datatype 'a per_k = AllK "'a list" | FirstK 'a

definition first_k :: "'a list \<Rightarrow> 'a res" where
  "first_k xs = (case xs of [] \<Rightarrow> Inl IndexError | x # _ \<Rightarrow> Inr x)"

text \<open>
  The range-separated builder (\<open>_RSNucBuilder(cell, kpts).build()\<close> followed by
  \<open>get_pp_loc_part1\<close>), the second local part and the non-local part are integral
  machinery: they are parameters here, each a computation that may itself raise.
  \<open>rs_part1 kpts with_pseudo\<close> stands for the builder's result.
\<close>

definition get_nuc_atomic_df ::
  "(kpt list \<Rightarrow> bool \<Rightarrow> 'a list res) \<Rightarrow> df_obj \<Rightarrow> kpts_arg option \<Rightarrow> 'a per_k res" where
  "get_nuc_atomic_df rs_part1 mydf kpts =
     (case check_kpts mydf kpts of (ks, is_single_kpt) \<Rightarrow>
        if prefer_ccdf mydf \<or> cell_omega mydf > 0
        then Inl (NotImplementedError ''No implementation for el-nuc long-range integrals.'')
        else bind_res (rs_part1 ks False) (\<lambda>vne_at.
               if is_single_kpt
               then bind_res (first_k vne_at) (\<lambda>v. Inr (FirstK v))
               else Inr (AllK vne_at)))"

definition get_pp_atomic_df ::
  "(kpt list \<Rightarrow> bool \<Rightarrow> 'a list res) \<Rightarrow> (kpt list \<Rightarrow> 'a list res) \<Rightarrow> (kpt list \<Rightarrow> 'a list res)
     \<Rightarrow> ('a \<Rightarrow> 'a \<Rightarrow> 'a)
     \<Rightarrow> df_obj \<Rightarrow> kpts_arg option \<Rightarrow> ('a per_k \<times> 'a per_k \<times> 'a per_k) res" where
  "get_pp_atomic_df rs_part1 pp_loc_part2 get_pp_nl add mydf kpts =
     (case check_kpts mydf kpts of (ks, is_single_kpt) \<Rightarrow>
        if prefer_ccdf mydf \<or> cell_omega mydf > 0
        then Inl (NotImplementedError ''No implementation for el-nuc long-range integrals.'')
        else bind_res (rs_part1 ks True) (\<lambda>vpp_loc1_at.
             bind_res (pp_loc_part2 ks) (\<lambda>vpp_loc2_at.
             bind_res (get_pp_nl ks) (\<lambda>vpp_nl_at.
               let loc2_nl = map2 add vpp_loc2_at vpp_nl_at;
                   vpp_total = map2 add (map2 add vpp_loc1_at vpp_loc2_at) vpp_nl_at
               in if is_single_kpt
                  then bind_res (first_k vpp_total) (\<lambda>t.
                       bind_res (first_k vpp_loc1_at) (\<lambda>l1.
                       bind_res (first_k vpp_loc2_at) (\<lambda>l2.
                       bind_res (first_k vpp_nl_at) (\<lambda>nl.
                         Inr (FirstK t, FirstK l1, FirstK (add l2 nl))))))
                  else Inr (AllK vpp_total, AllK vpp_loc1_at, AllK loc2_nl)))))"

text \<open>
  The keyword dictionary \<open>**kwargs\<close> that the call written in \<open>main\<close> leaves after the
  named parameters are bound (\<open>prop'\<close> and \<open>write'\<close> above are the attributes \<open>prop\<close> and
  \<open>write\<close> of the configuration object).
\<close>

definition main_kwargs :: "collab \<Rightarrow> mole \<Rightarrow> decomp_cls \<Rightarrow> mat \<times> mat \<Rightarrow> vec \<times> vec
                             \<Rightarrow> (string \<rightharpoonup> pyval)" where
  "main_kwargs ext mol decomp mo_coeff mo_occ =
     map_of (rev ([(''gauge_origin'', PCoord (gauge_origin decomp)),
                   (''ndo'', PBool (ndo decomp))] @ main_extra ext mol decomp mo_coeff mo_occ))"

section \<open>A two-atom example\<close>

text \<open>
  A closed-shell molecule of two atoms with one basis function each and one doubly
  occupied orbital, shared half and half: the inputs at which the theorems are
  instantiated.
\<close>

definition example_atoms :: atoms where
  "example_atoms = \<lparr>natm = 2, atom_charges = [1, 1], atom_coords = [(0, 0, 0), (0, 0, 2)]\<rparr>"

definition example_mol :: mole where
  "example_mol =
     \<lparr>natm = 2, atom_charges = [1, 1], atom_coords = [(0, 0, 0), (0, 0, 2)],
      reference_mol = example_atoms, alpha = [0], beta = [0], ao_labels = [0, 1], nao_nr = 2,
      int1e_kin = [[1, 1 / 2], [1 / 2, 1]],
      int1e_rinv = (\<lambda>c. if c = (0, 0, 0) then [[2, 1], [1, 1]] else [[1, 1], [1, 2]]),
      int1e_r = (\<lambda>c. [[[0, 0], [0, 0]], [[0, 0], [0, 0]], [[0, 1], [1, 2]]])\<rparr>"

definition example_mf :: mf_obj where
  "example_mf =
     \<lparr>is_ks = False, mm_mol = None, mm_pot_ints = [], with_solvent = False,
      solvent_energy = (\<lambda>d. []),
      get_jk = (\<lambda>d. (([[1, 0], [0, 1]], [[1, 0], [0, 1]]),
                       ([[1 / 2, 0], [0, 1 / 2]], [[1 / 2, 0], [0, 1 / 2]]))),
      mf_xc_type = LDA, rsh_and_hybrid_coeff = (0, 0, 0), get_k_omega = (\<lambda>d w. d),
      eval_ao = (\<lambda>n. Ao2 []), grids_weights = [], eval_xc = (\<lambda>r. []),
      nlc_is_vv10 = False, eval_ao_nlc = (\<lambda>n. Ao3 []), nlcgrids_weights = [],
      vv10nlc = (\<lambda>r. [])\<rparr>"

text \<open>
  The same mean field as a Kohn-Sham calculation with a local functional on a grid of one
  point, and an effective density given as an array of eight entries.
\<close>

definition example_ks_mf :: mf_obj where
  "example_ks_mf =
     example_mf\<lparr>is_ks := True, eval_ao := (\<lambda>n. Ao2 [[1, 1]]), grids_weights := [1],
                eval_xc := (\<lambda>r. [- 1])\<rparr>"

definition example_rdm1_eff :: "numpy_release \<Rightarrow> ndarray" where
  "example_rdm1_eff np = NdArray np [[[1, 1], [1, 1]], [[1, 1], [1, 1]]]"

definition example_orbs :: "(mat \<times> mat) \<times> (vec \<times> vec)" where
  "example_orbs = (([[1], [1]], [[1], [1]]), ([1], [1]))"

definition example_weights :: "vec list \<times> vec list" where
  "example_weights = ([[1 / 2, 1 / 2]], [[1 / 2, 1 / 2]])"

definition example_ext :: collab where
  "example_ext =
     \<lparr>sanity_check = (\<lambda>m d. None),
      mf_info = (\<lambda>mf. example_orbs),
      make_no = (\<lambda>m mf r. example_orbs),
      loc_orbs = (\<lambda>m c occ l. c),
      assign_rdm1s = (\<lambda>m c occ p pt.
         if pt = ''bonds'' then (PRepIdx ([0], [0]), PCentres ([(0, 1)], [(0, 1)]))
         else (PWeights example_weights, PNone))\<rparr>"

definition example_decomp :: "string \<Rightarrow> string \<Rightarrow> decomp_cls" where
  "example_decomp part_name prop_name =
     \<lparr>loc = [], part = part_name, pop = ''mulliken'', prop' = prop_name, multiproc = False,
      gauge_origin = (0, 0, 0), ndo = False, verbose = 0, thres = 98 / 100, write' = []\<rparr>"

section \<open>What the specification says of the nuclear term\<close>

text \<open>
  These follow the words of the specification, not the code: the repulsion of a pair of
  nuclei, one half of the sum over the other atoms, and the total over the pairs. The
  last two are what the code adds to them: the self term that the diagonal value leaves,
  and the interaction of an atom with the sites of an MM region.
\<close>

definition pair_term :: "vec \<Rightarrow> coord list \<Rightarrow> nat \<Rightarrow> nat \<Rightarrow> real" where
  "pair_term Z R a b = Z ! a * Z ! b / norm3 (sub3 (R ! a) (R ! b))"

definition pair_repulsion :: "vec \<Rightarrow> coord list \<Rightarrow> nat \<Rightarrow> real" where
  "pair_repulsion Z R a =
     (1 / 2) * (\<Sum>b\<leftarrow>[0..<length R]. if b = a then 0 else pair_term Z R a b)"

definition total_repulsion :: "vec \<Rightarrow> coord list \<Rightarrow> real" where
  "total_repulsion Z R = (\<Sum>a\<leftarrow>[0..<length R]. \<Sum>b\<leftarrow>[0..<a]. pair_term Z R a b)"

definition self_residual :: "vec \<Rightarrow> nat \<Rightarrow> real" where
  "self_residual Z a = Z ! a * Z ! a / (2 * self_dist)"

definition mm_term :: "vec \<Rightarrow> coord list \<Rightarrow> 'b atoms_scheme \<Rightarrow> nat \<Rightarrow> real" where
  "mm_term Z R mm a =
     Z ! a * sum_list (map2 (\<lambda>q d. q / d) (atom_charges mm)
                         (map (\<lambda>c. norm3 (sub3 (R ! a) c)) (atom_coords mm)))"

definition mm_part :: "vec \<Rightarrow> coord list \<Rightarrow> 'b atoms_scheme option \<Rightarrow> nat \<Rightarrow> real" where
  "mm_part Z R mm a = (case mm of None \<Rightarrow> 0 | Some m \<Rightarrow> mm_term Z R m a)"

definition single_atom :: atoms where
  "single_atom = \<lparr>natm = 1, atom_charges = [1], atom_coords = [(0, 0, 0)]\<rparr>"

section \<open>Comparing the sequential and the parallel run\<close>

text \<open>
  Two runs have the same outcome when both return the same result or both raise. The
  molecule whose atoms \<open>prop_tot\<close> decomposes over, the number of tasks of a request, and
  a schedule in which every task completes.
\<close>

definition same_outcome :: "'a res \<Rightarrow> 'a res \<Rightarrow> bool" where
  "same_outcome s p = (case s of Inr r \<Rightarrow> p = Inr r | Inl e \<Rightarrow> isl p)"

definition pmol_of :: "mole \<Rightarrow> string \<Rightarrow> atoms" where
  "pmol_of mol pop_name = (if pop_name = ''iao'' then reference_mol mol else atoms.truncate mol)"

definition n_tasks :: "atoms \<Rightarrow> string \<Rightarrow> (string \<rightharpoonup> pyval) \<Rightarrow> nat" where
  "n_tasks pmol part_name kwargs =
     (if part_name = ''atoms'' \<or> part_name = ''eda'' then natm pmol
      else case kwargs ''rep_idx'' of
             Some (PRepIdx rep_idx) \<Rightarrow> length (bonds_domain rep_idx)
           | _ \<Rightarrow> 0)"

definition all_complete :: "nat list \<Rightarrow> nat \<Rightarrow> bool" where
  "all_complete sched n = list_all (\<lambda>k. k \<in> set sched) [0..<n]"

text \<open>A bare nucleus with one basis function and no occupied orbital.\<close>

definition proton_mol :: mole where
  "proton_mol =
     \<lparr>natm = 1, atom_charges = [1], atom_coords = [(0, 0, 0)],
      reference_mol = single_atom, alpha = [], beta = [], ao_labels = [0], nao_nr = 1,
      int1e_kin = [[1]], int1e_rinv = (\<lambda>c. [[1]]),
      int1e_r = (\<lambda>c. [[[0]], [[0]], [[0]]])\<rparr>"

section \<open>The atom-weighted strategy in closed form\<close>

text \<open>
  An \<open>n \<times> m\<close> matrix. The density of one spin-orbital, the weight of an atom in an
  orbital, and the orbitals that the loop of \<open>prop_atom\<close> visits in a spin channel.
\<close>

definition is_mat :: "nat \<Rightarrow> nat \<Rightarrow> mat \<Rightarrow> bool" where
  "is_mat n m A = (length A = n \<and> list_all (\<lambda>r. length r = m) A)"

definition orb_density :: "kctx \<Rightarrow> nat \<Rightarrow> nat \<Rightarrow> mat" where
  "orb_density c i j =
     make_rdm1 (map (\<lambda>row. [row ! j]) (spin_get (k_mo_coeff c) i)) [spin_get (k_mo_occ c) i ! j]"

definition weight_of :: "kctx \<Rightarrow> nat \<Rightarrow> nat \<Rightarrow> nat \<Rightarrow> real" where
  "weight_of c i m a = (case k_weights c of None \<Rightarrow> 0 | Some w \<Rightarrow> spin_get w i ! m ! a)"

definition spin_orbs :: "kctx \<Rightarrow> nat \<Rightarrow> nat list" where
  "spin_orbs c i = (if i = 0 then k_alpha c else k_beta c)"

text \<open>
  The atom-restricted density of the specification: every orbital's density scaled by the
  weight of the atom, summed over the orbitals of the spin channel; and its sum over the
  two spin channels.
\<close>

definition atom_density :: "kctx \<Rightarrow> nat \<Rightarrow> nat \<Rightarrow> mat" where
  "atom_density c a i =
     foldl (\<lambda>d (m, j). madd d (mscale (weight_of c i m a) (orb_density c i j)))
       (zeros_like (spin_get (k_rdm1_tot c) i)) (enumerate 0 (spin_orbs c i))"

definition atom_dens :: "kctx \<Rightarrow> nat \<Rightarrow> mat" where
  "atom_dens c a = sum_spin (atom_density c a 0, atom_density c a 1)"

text \<open>
  The exchange-correlation energy of a density, as \<open>prop_atom\<close> and \<open>prop_bonds\<close> add it
  to a component: nothing without a density functional, else the integral on the grid,
  plus the one on the second grid when the non-local correction is on.
\<close>

definition xc_value :: "kctx \<Rightarrow> mat \<Rightarrow> real res" where
  "xc_value c d =
     (case k_dft c of
        None \<Rightarrow> Inr 0
      | Some dc \<Rightarrow>
          bind_res (make_rho (d_ao_value dc) (Rdm2 d) (k_ref c) (d_xc_type dc)) (\<lambda>out.
          bind_res (e_xc_out (d_eps_xc dc) (d_grid_weights dc) (snd (snd out))) (\<lambda>e.
            case d_nlc dc of
              None \<Rightarrow> Inr e
            | Some nc \<Rightarrow>
                bind_res (make_rho (n_ao_value nc) (Rdm2 d) (k_ref c) GGA) (\<lambda>out2.
                bind_res (e_xc_out (n_eps_xc nc) (n_grid_weights nc) (snd (snd out2))) (\<lambda>e2.
                  Inr (e + e2))))))"

text \<open>
  The inputs \<open>prop_atom\<close> can index: every listed orbital is a column of the coefficients
  and has an occupation, the weights hold one vector over the atoms per listed orbital,
  and the arrays over the atoms and over the basis have the sizes NumPy would insist on.
\<close>

definition spin_ok :: "kctx \<Rightarrow> nat \<Rightarrow> nat \<Rightarrow> bool" where
  "spin_ok c n_atoms i =
     (list_all (\<lambda>j. list_all (\<lambda>row. j < length row) (spin_get (k_mo_coeff c) i)
                    \<and> j < length (spin_get (k_mo_occ c) i)) (spin_orbs c i)
      \<and> (case k_weights c of
            None \<Rightarrow> False
          | Some w \<Rightarrow> length (spin_get w i) = length (spin_orbs c i)
                      \<and> list_all (\<lambda>row. length row = n_atoms) (spin_get w i)))"

definition atom_ctx_ok :: "kctx \<Rightarrow> nat \<Rightarrow> nat \<Rightarrow> bool" where
  "atom_ctx_ok c n_atoms nao =
     (is_mat nao nao (fst (k_rdm1_tot c)) \<and> is_mat nao nao (snd (k_rdm1_tot c))
      \<and> length (fst (k_mo_coeff c)) = nao \<and> length (snd (k_mo_coeff c)) = nao
      \<and> length (k_sub_nuc c) = n_atoms \<and> list_all (is_mat nao nao) (k_sub_nuc c)
      \<and> (case k_prop_nuc_rep c of None \<Rightarrow> False | Some p \<Rightarrow> length p = n_atoms)
      \<and> (case k_e_solvent c of None \<Rightarrow> True | Some es \<Rightarrow> length es = n_atoms)
      \<and> spin_ok c n_atoms 0 \<and> spin_ok c n_atoms 1)"

definition pair_ok :: "kctx \<Rightarrow> nat \<Rightarrow> nat \<Rightarrow> nat \<times> nat \<Rightarrow> bool" where
  "pair_ok c a i mj =
     (list_all (\<lambda>row. snd mj < length row) (spin_get (k_mo_coeff c) i)
      \<and> snd mj < length (spin_get (k_mo_occ c) i)
      \<and> (case k_weights c of None \<Rightarrow> False
          | Some w \<Rightarrow> fst mj < length (spin_get w i) \<and> a < length (spin_get w i ! fst mj)))"

text \<open>
  The components of \<open>prop_atom\<close> in energy mode, as the traces its lines compute, and the
  dictionary it returns once the exchange-correlation energy \<open>exc\<close> is known.
\<close>

definition coul_of :: "kctx \<Rightarrow> nat \<Rightarrow> real" where
  "coul_of c a = 0 + contract_ij_ij (sum_spin (k_vj c)) (atom_density c a 0) * (1 / 2)
                   + contract_ij_ij (sum_spin (k_vj c)) (atom_density c a 1) * (1 / 2)"

definition exch_of :: "kctx \<Rightarrow> nat \<Rightarrow> real" where
  "exch_of c a = 0 - contract_ij_ij (fst (k_vk c)) (atom_density c a 0) * (1 / 2)
                   - contract_ij_ij (snd (k_vk c)) (atom_density c a 1) * (1 / 2)"

definition kin_of :: "kctx \<Rightarrow> nat \<Rightarrow> real" where
  "kin_of c a = contract_ij_ij (k_kin c) (atom_dens c a)"

definition nuc_att_of :: "kctx \<Rightarrow> nat \<Rightarrow> real" where
  "nuc_att_of c a = contract_ij_ij (k_nuc c) (atom_dens c a) * (1 / 2)
                    + contract_ij_ij (k_sub_nuc c ! a) (sum_spin (k_rdm1_tot c)) * (1 / 2)"

definition solvent_of :: "kctx \<Rightarrow> nat \<Rightarrow> real" where
  "solvent_of c a =
     (case k_mm_pot c of None \<Rightarrow> 0 | Some mm_pot \<Rightarrow> contract_ij_ij mm_pot (atom_dens c a))
     + (case k_e_solvent c of None \<Rightarrow> 0 | Some es \<Rightarrow> es ! a)"

definition atom_result :: "kctx \<Rightarrow> nat \<Rightarrow> real \<Rightarrow> rdict" where
  "atom_result c a exc =
     [''coul'' \<mapsto> Sc (coul_of c a), ''exch'' \<mapsto> Sc (exch_of c a), ''kin'' \<mapsto> Sc (kin_of c a),
      ''nuc_att'' \<mapsto> Sc (nuc_att_of c a), ''solvent'' \<mapsto> Sc (solvent_of c a), ''xc'' \<mapsto> Sc exc,
      ''el'' \<mapsto> Sc (coul_of c a + exch_of c a + kin_of c a + nuc_att_of c a + solvent_of c a + exc),
      ''struct'' \<mapsto> val_add (Sc 0) (the (k_prop_nuc_rep c) ! a)]"

text \<open>
  What \<open>prop_tot\<close> and \<open>_h_core\<close> establish before the kernel runs: the total nuclear
  attraction is the sum of the per-atom operators, and the total density is made of the
  orbitals. The listed orbitals are the occupied ones (each once, every other orbital has
  occupation zero), and the weights of every listed orbital sum to one over the atoms.
\<close>

definition built_by_prop_tot :: "kctx \<Rightarrow> nat \<Rightarrow> bool" where
  "built_by_prop_tot c nao =
     (k_nuc c = sum_axis0 nao nao (k_sub_nuc c)
      \<and> k_rdm1_tot c = (make_rdm1 (fst (k_mo_coeff c)) (fst (k_mo_occ c)),
                        make_rdm1 (snd (k_mo_coeff c)) (snd (k_mo_occ c))))"

definition occupied_listed :: "kctx \<Rightarrow> nat \<Rightarrow> bool" where
  "occupied_listed c i =
     (distinct (spin_orbs c i)
      \<and> list_all (\<lambda>j. j < length (spin_get (k_mo_occ c) i)) (spin_orbs c i)
      \<and> list_all (\<lambda>p. p \<in> set (spin_orbs c i) \<or> spin_get (k_mo_occ c) i ! p = 0)
           [0..<length (spin_get (k_mo_occ c) i)]
      \<and> list_all (\<lambda>row. length row = length (spin_get (k_mo_occ c) i)) (spin_get (k_mo_coeff c) i))"

definition weights_complete :: "kctx \<Rightarrow> nat \<Rightarrow> bool" where
  "weights_complete c i =
     (case k_weights c of None \<Rightarrow> False
      | Some w \<Rightarrow> list_all (\<lambda>row. sum_list row = 1) (spin_get w i))"

text \<open>The environment of the kernels for the two-atom example.\<close>

definition example_ctx :: kctx where
  "example_ctx =
     \<lparr>k_prop_type = ''energy'', k_mo_coeff = ([[1], [1]], [[1], [1]]), k_mo_occ = ([1], [1]),
      k_alpha = [0], k_beta = [0], k_weights = Some example_weights,
      k_rdm1_tot = ([[1, 1], [1, 1]], [[1, 1], [1, 1]]),
      k_kin = [[1, 1 / 2], [1 / 2, 1]], k_nuc = [[- 3, - 2], [- 2, - 3]],
      k_sub_nuc = [[[- 2, - 1], [- 1, - 1]], [[- 1, - 1], [- 1, - 2]]],
      k_mm_pot = None, k_e_solvent = None,
      k_vj = ([[1, 0], [0, 1]], [[1, 0], [0, 1]]),
      k_vk = ([[1 / 2, 0], [0, 1 / 2]], [[1 / 2, 0], [0, 1 / 2]]),
      k_dft = None, k_ref = PNone, k_ao_dip = None,
      k_prop_nuc_rep = Some [Sc (1 / 4), Sc (1 / 4)], k_ao_labels = [0, 1]\<rparr>"

text \<open>
  An atom that has weight zero in every orbital of both spin channels; a matrix whose
  entries are all zero; and the two-atom example with the whole orbital on the first atom.
\<close>

definition zero_weight :: "kctx \<Rightarrow> nat \<Rightarrow> bool" where
  "zero_weight c a =
     (case k_weights c of None \<Rightarrow> False
      | Some w \<Rightarrow> list_all (\<lambda>row. row ! a = 0) (fst w) \<and> list_all (\<lambda>row. row ! a = 0) (snd w))"

definition allzero :: "mat \<Rightarrow> bool" where
  "allzero A = list_all (list_all (\<lambda>x. x = 0)) A"

definition example_zero_ctx :: kctx where
  "example_zero_ctx = example_ctx\<lparr>k_weights := Some ([[1, 0]], [[1, 0]])\<rparr>"

section \<open>The EDA strategy in closed form\<close>

text \<open>
  \<open>sel_rows A select\<close> is the NumPy selection \<open>A[select]\<close> of the rows of \<open>A\<close> on indices
  that exist. \<open>eda_xc_value\<close> is the exchange-correlation energy that \<open>eda_xc\<close> adds to the
  entry \<open>xc\<close>, with every error of \<open>eda_xc\<close> kept. \<open>eda_ctx_ok\<close> says that the arrays of
  the context have the shapes \<open>prop_tot\<close> gives them: one label per basis function, square
  matrices over the basis functions, one per-atom operator and one nuclear term per atom.
  \<open>eda_nuc_att_of\<close> is the nuclear attraction of one atom as \<open>prop_eda\<close> computes it: half the
  trace of the total operator with the total density over the rows of the atom's basis
  functions, plus half the trace of the atom's own operator with the whole total density.
\<close>

definition sel_rows :: "'a list \<Rightarrow> nat list \<Rightarrow> 'a list" where
  "sel_rows A select = map (\<lambda>k. A ! k) select"

definition eda_xc_value :: "kctx \<Rightarrow> nat list \<Rightarrow> real res" where
  "eda_xc_value c select =
     (case k_dft c of
        None \<Rightarrow> Inr 0
      | Some dc \<Rightarrow>
          bind_res (cols (d_c0_tot dc) select) (\<lambda>c0.
          bind_res (case d_c1_tot dc of None \<Rightarrow> Inr None
                    | Some c1 \<Rightarrow> bind_res (mapM_res (\<lambda>m. cols m select) c1) (\<lambda>x. Inr (Some x))) (\<lambda>c1.
          bind_res (case d_ao_value dc of Ao2 _ \<Rightarrow> Inl IndexError
                    | Ao3 as \<Rightarrow> bind_res (mapM_res (\<lambda>m. cols m select) as) (\<lambda>x. Inr (Ao3 x))) (\<lambda>ao.
          bind_res (make_rho_interm2 c0 c1 ao (d_xc_type dc)) (\<lambda>rho_atom.
          bind_res (e_xc (d_eps_xc dc) (d_grid_weights dc) rho_atom) (\<lambda>e.
            case d_nlc dc of
              None \<Rightarrow> Inr e
            | Some nc \<Rightarrow>
                bind_res (cols (n_c0_vv10 nc) select) (\<lambda>c0v.
                bind_res (case n_c1_vv10 nc of None \<Rightarrow> Inr None
                          | Some c1 \<Rightarrow> bind_res (mapM_res (\<lambda>m. cols m select) c1) (\<lambda>x. Inr (Some x))) (\<lambda>c1v.
                bind_res (case n_ao_value nc of Ao2 _ \<Rightarrow> Inl IndexError
                          | Ao3 as \<Rightarrow> bind_res (mapM_res (\<lambda>m. cols m select) as) (\<lambda>x. Inr (Ao3 x))) (\<lambda>aov.
                bind_res (make_rho_interm2 c0v c1v aov GGA) (\<lambda>rho_vv10.
                bind_res (e_xc (n_eps_xc nc) (n_grid_weights nc) rho_vv10) (\<lambda>e2.
                  Inr (e + e2))))))))))))"

definition eda_ctx_ok :: "kctx \<Rightarrow> nat \<Rightarrow> nat \<Rightarrow> bool" where
  "eda_ctx_ok c n_atoms nao =
     (length (k_ao_labels c) = nao
      \<and> is_mat nao nao (fst (k_rdm1_tot c)) \<and> is_mat nao nao (snd (k_rdm1_tot c))
      \<and> is_mat nao nao (fst (k_vj c)) \<and> is_mat nao nao (snd (k_vj c))
      \<and> is_mat nao nao (fst (k_vk c)) \<and> is_mat nao nao (snd (k_vk c))
      \<and> is_mat nao nao (k_kin c) \<and> is_mat nao nao (k_nuc c)
      \<and> (case k_mm_pot c of None \<Rightarrow> True | Some mm_pot \<Rightarrow> is_mat nao nao mm_pot)
      \<and> length (k_sub_nuc c) = n_atoms \<and> list_all (is_mat nao nao) (k_sub_nuc c)
      \<and> (case k_prop_nuc_rep c of None \<Rightarrow> False | Some p \<Rightarrow> length p = n_atoms)
      \<and> (case k_e_solvent c of None \<Rightarrow> True | Some es \<Rightarrow> length es = n_atoms))"

definition eda_select :: "kctx \<Rightarrow> nat \<Rightarrow> nat list" where
  "eda_select c a = select_aos (k_ao_labels c) a"

definition eda_coul_of :: "kctx \<Rightarrow> nat \<Rightarrow> real" where
  "eda_coul_of c a =
     0 + contract_ij_ij (sel_rows (sum_spin (k_vj c)) (eda_select c a))
                        (sel_rows (fst (k_rdm1_tot c)) (eda_select c a)) * (1 / 2)
       + contract_ij_ij (sel_rows (sum_spin (k_vj c)) (eda_select c a))
                        (sel_rows (snd (k_rdm1_tot c)) (eda_select c a)) * (1 / 2)"

definition eda_exch_of :: "kctx \<Rightarrow> nat \<Rightarrow> real" where
  "eda_exch_of c a =
     0 - contract_ij_ij (sel_rows (fst (k_vk c)) (eda_select c a))
                        (sel_rows (fst (k_rdm1_tot c)) (eda_select c a)) * (1 / 2)
       - contract_ij_ij (sel_rows (snd (k_vk c)) (eda_select c a))
                        (sel_rows (snd (k_rdm1_tot c)) (eda_select c a)) * (1 / 2)"

definition eda_kin_of :: "kctx \<Rightarrow> nat \<Rightarrow> real" where
  "eda_kin_of c a = contract_ij_ij (sel_rows (k_kin c) (eda_select c a))
                                   (sel_rows (sum_spin (k_rdm1_tot c)) (eda_select c a))"

definition eda_nuc_att_of :: "kctx \<Rightarrow> nat \<Rightarrow> real" where
  "eda_nuc_att_of c a =
     contract_ij_ij (sel_rows (k_nuc c) (eda_select c a))
                    (sel_rows (sum_spin (k_rdm1_tot c)) (eda_select c a)) * (1 / 2)
     + contract_ij_ij (k_sub_nuc c ! a) (sum_spin (k_rdm1_tot c)) * (1 / 2)"

definition eda_solvent_of :: "kctx \<Rightarrow> nat \<Rightarrow> real" where
  "eda_solvent_of c a =
     (case k_mm_pot c of None \<Rightarrow> 0
      | Some mm_pot \<Rightarrow> contract_ij_ij (sel_rows mm_pot (eda_select c a))
                                       (sel_rows (sum_spin (k_rdm1_tot c)) (eda_select c a)))
     + (case k_e_solvent c of None \<Rightarrow> 0 | Some es \<Rightarrow> es ! a)"

definition eda_result :: "kctx \<Rightarrow> nat \<Rightarrow> real \<Rightarrow> rdict" where
  "eda_result c a exc =
     [''coul'' \<mapsto> Sc (eda_coul_of c a), ''exch'' \<mapsto> Sc (eda_exch_of c a),
      ''kin'' \<mapsto> Sc (eda_kin_of c a), ''nuc_att'' \<mapsto> Sc (eda_nuc_att_of c a),
      ''solvent'' \<mapsto> Sc (eda_solvent_of c a), ''xc'' \<mapsto> Sc exc,
      ''el'' \<mapsto> Sc (eda_coul_of c a + eda_exch_of c a + eda_kin_of c a + eda_nuc_att_of c a
                     + eda_solvent_of c a + exc),
      ''struct'' \<mapsto> val_add (Sc 0) (the (k_prop_nuc_rep c) ! a)]"

section \<open>Theorems\<close>

text \<open>
  C9. Whenever the density-fitting object prefers the compensated-charge builder or the
  cell's range-separation parameter omega is positive, \<open>get_nuc_atomic_df\<close> and
  \<open>get_pp_atomic_df\<close> raise NotImplementedError, whatever the builders would return
  and whatever k-points are given: no nuclear-attraction matrix is returned.
\<close>

theorem long_range_rejected:
  assumes "prefer_ccdf mydf \<or> cell_omega mydf > 0"
  shows "get_nuc_atomic_df rs_part1 mydf kpts
           = Inl (NotImplementedError ''No implementation for el-nuc long-range integrals.'')
       \<and> get_pp_atomic_df rs_part1 pp_loc_part2 get_pp_nl add mydf kpts
           = Inl (NotImplementedError ''No implementation for el-nuc long-range integrals.'')"
  using assms
  by (simp add: get_nuc_atomic_df_def get_pp_atomic_df_def split: prod.split)

theorem long_range_rejected_witness:
  "(prefer_ccdf \<lparr>df_kpts = KMany [(0, 0, 0)], prefer_ccdf = False, cell_omega = 1 / 2\<rparr>
      \<or> cell_omega \<lparr>df_kpts = KMany [(0, 0, 0)], prefer_ccdf = False, cell_omega = 1 / 2\<rparr> > 0)
   \<and> get_nuc_atomic_df (\<lambda>ks wp. Inr [1 :: real])
         \<lparr>df_kpts = KMany [(0, 0, 0)], prefer_ccdf = False, cell_omega = 1 / 2\<rparr> None
       = Inl (NotImplementedError ''No implementation for el-nuc long-range integrals.'')
   \<and> get_pp_atomic_df (\<lambda>ks wp. Inr [1 :: real]) (\<lambda>ks. Inr [1]) (\<lambda>ks. Inr [1]) (+)
         \<lparr>df_kpts = KMany [(0, 0, 0)], prefer_ccdf = False, cell_omega = 1 / 2\<rparr> None
       = Inl (NotImplementedError ''No implementation for el-nuc long-range integrals.'')"
  using long_range_rejected [of "\<lparr>df_kpts = KMany [(0, 0, 0)], prefer_ccdf = False, cell_omega = 1 / 2\<rparr>"
      "\<lambda>ks wp. Inr [1 :: real]" None "\<lambda>ks. Inr [1]" "\<lambda>ks. Inr [1]" "(+)"]
  by simp


subsection \<open>The call of \<open>prop_tot\<close> in \<open>main\<close>\<close>

lemma bind_call_main:
  "bind_call prop_tot_params (main_call mol decomp mf mo_coeff mo_occ rdm1_eff
        (main_extra ext mol decomp mo_coeff mo_occ)) =
   Inr (map_of (zip prop_tot_params
          [PMol mol, PMf mf, POrbs mo_coeff, POcc mo_occ, opt_arr rdm1_eff,
           PStr (pop decomp), PStr (prop' decomp), PStr (part decomp), PBool (multiproc decomp)]),
        main_kwargs ext mol decomp mo_coeff mo_occ)"
  apply (simp add: bind_call_def main_call_def main_extra_def prop_tot_params_def bind_keyword_def
      bind_res_def main_kwargs_def split: prod.split)
  apply (auto simp: fun_eq_iff)
  done

lemma main_kwargs_dipole_origin:
  "main_kwargs ext mol decomp mo_coeff mo_occ ''dipole_origin'' = None"
  unfolding main_kwargs_def main_extra_def
  apply (cases "part decomp = ''atoms'' \<or> part decomp = ''eda''")
   apply simp
  apply (cases "part decomp = ''bonds''")
   apply (simp add: case_prod_beta)
  apply simp
  done

lemma main_is_prop_tot:
  "main ext num_threads sched mol decomp mf rdm1_orb rdm1_eff =
     (case sanity_check ext mol decomp of
        Some e \<Rightarrow> Inl e
      | None \<Rightarrow>
          prop_tot num_threads sched mol mf
            (fst (main_orbitals ext mol decomp mf rdm1_orb))
            (snd (main_orbitals ext mol decomp mf rdm1_orb))
            (opt_arr rdm1_eff) (pop decomp) (prop' decomp) (part decomp) (multiproc decomp)
            (main_kwargs ext mol decomp (fst (main_orbitals ext mol decomp mf rdm1_orb))
               (snd (main_orbitals ext mol decomp mf rdm1_orb))))"
  unfolding main_def call_prop_tot_def
  by (simp add: bind_call_main bind_res_def split: option.split prod.split)
     (simp add: prop_tot_params_def)

lemma prop_tot_dipole_no_origin:
  "kwargs ''dipole_origin'' = None \<Longrightarrow>
   prop_tot num_threads sched mol mf mo_coeff mo_occ ref pop_v ''dipole'' part_v mp kwargs
     = Inl (KeyError ''dipole_origin'')"
  by (simp add: prop_tot_def bind_res_def)

text \<open>
  C5. The claim is that a dipole request made through \<open>main\<close> evaluates the dipole
  integrals at the origin of the configuration and does not fail for want of an origin.
  The code does the opposite: \<open>main\<close> passes the origin under the keyword
  \<open>gauge_origin\<close>, \<open>prop_tot\<close> reads \<open>kwargs['dipole_origin']\<close>, and every dipole
  request that passes the sanity check ends in \<open>KeyError: 'dipole_origin'\<close>, whatever the
  strategy and the other inputs.
\<close>

theorem dipole_request_fails:
  assumes "sanity_check ext mol decomp = None" and "prop' decomp = ''dipole''"
  shows "main ext num_threads sched mol decomp mf rdm1_orb rdm1_eff
           = Inl (KeyError ''dipole_origin'')"
  using assms
  by (simp add: main_is_prop_tot prop_tot_dipole_no_origin main_kwargs_dipole_origin)

theorem dipole_request_fails_witness:
  "sanity_check example_ext example_mol (example_decomp ''atoms'' ''dipole'') = None
   \<and> prop' (example_decomp ''atoms'' ''dipole'') = ''dipole''
   \<and> main example_ext 4 [0, 1] example_mol (example_decomp ''atoms'' ''dipole'') example_mf None None
       = Inl (KeyError ''dipole_origin'')"
  using dipole_request_fails [of example_ext example_mol "example_decomp ''atoms'' ''dipole''"
      4 "[0, 1]" example_mf None None]
  by (simp add: example_ext_def example_decomp_def)

lemma opt_arr_not_str: "opt_arr a \<noteq> PStr s"
  by (simp add: opt_arr_def split: option.split)

lemma ref_test_not_true: "ref_eq_str (opt_arr a) ''restricted'' \<noteq> Inr True"
  by (simp add: ref_eq_str_def opt_arr_def array_eq_str_def
      split: option.split numpy_release.split)

lemma ref_test_none: "ref_eq_str (opt_arr None) ''restricted'' = Inr False"
  by (simp add: ref_eq_str_def opt_arr_def)

lemma ref_test_legacy:
  "release a = Before_1_25 \<Longrightarrow> ref_eq_str (opt_arr (Some a)) ''restricted'' = Inr False"
  by (simp add: ref_eq_str_def opt_arr_def array_eq_str_def)

lemma ref_test_raises:
  "release a \<noteq> Before_1_25 \<Longrightarrow> 1 < arr_size (entries a) \<Longrightarrow>
   ref_eq_str (opt_arr (Some a)) ''restricted'' = Inl ambiguous"
  by (simp add: ref_eq_str_def opt_arr_def array_eq_str_def split: numpy_release.split)

lemma make_rho_not_restricted:
  "ref_eq_str r ''restricted'' = Inr False \<Longrightarrow>
   make_rho ao (Rdm3 ds) r xc = make_rho ao (Rdm3 ds) (PStr ''unrestricted'') xc"
  by (simp add: make_rho_def ref_eq_str_def bind_res_def)

lemma make_rho_matrix_ref: "make_rho ao (Rdm2 d) r xc = make_rho ao (Rdm2 d) r' xc"
  by (simp add: make_rho_def)

lemma make_rho_test_error:
  "ref_eq_str r ''restricted'' = Inl e \<Longrightarrow> make_rho ao (Rdm3 ds) r xc = Inl e"
  by (simp add: make_rho_def bind_res_def)

lemma dft_setup_ref:
  assumes "ref_eq_str r ''restricted'' = Inr False"
  shows "dft_setup mf d r vk = dft_setup mf d (PStr ''unrestricted'') vk"
  unfolding dft_setup_def make_rho_not_restricted [OF assms]
    make_rho_matrix_ref [of _ _ r _ "PStr ''unrestricted''"]
  by (rule refl)

lemma dft_setup_test_error:
  assumes "is_ks mf" and "ref_eq_str r ''restricted'' = Inl e"
  shows "isl (dft_setup mf d r vk)"
    and "xc_ao_deriv (mf_xc_type mf) = Inr x \<Longrightarrow> dft_setup mf d r vk = Inl e"
  using assms
  by (cases "xc_ao_deriv (mf_xc_type mf)";
      simp add: dft_setup_def make_rho_test_error bind_res_def Let_def split: prod.split)+

lemma isl_bind: "isl m \<Longrightarrow> isl (bind_res m f)"
  by (cases m) (simp_all add: bind_res_def)

lemma isl_bind_all: "(\<And>x. isl (f x)) \<Longrightarrow> isl (bind_res m f)"
  by (cases m) (simp_all add: bind_res_def)

lemma prop_tot_dft_raises:
  assumes d: "\<And>d vk. isl (dft_setup mf d ref vk)"
  shows "isl (prop_tot num_threads sched mol mf mo_coeff mo_occ ref pop_v prop_type part_v mp kwargs)"
  unfolding prop_tot_def Let_def case_prod_beta
  by (rule isl_bind_all, rule isl_bind_all, rule isl_bind_all, rule isl_bind_all,
      rule isl_bind, rule d)

lemma prop_tot_dft_error:
  assumes "prop_type = ''energy''"
    and "\<not> isl (charge_atom (if pop_v = ''iao'' then reference_mol mol else atoms.truncate mol)
                  kwargs)"
    and "\<not> isl (e_nuc (if pop_v = ''iao'' then reference_mol mol else atoms.truncate mol)
                  (mm_mol mf))"
    and "\<not> isl (h_core mol (case mm_mol mf of None \<Rightarrow> None | Some _ \<Rightarrow> Some (mm_pot_ints mf)))"
    and "\<And>d vk. dft_setup mf d ref vk = Inl e"
  shows "prop_tot num_threads sched mol mf mo_coeff mo_occ ref pop_v prop_type part_v mp kwargs
           = Inl e"
proof -
  obtain ch where ch: "charge_atom (if pop_v = ''iao'' then reference_mol mol
                                    else atoms.truncate mol) kwargs = Inr ch"
    using assms(2) by (cases "charge_atom (if pop_v = ''iao'' then reference_mol mol
                                           else atoms.truncate mol) kwargs") simp_all
  obtain en where en: "e_nuc (if pop_v = ''iao'' then reference_mol mol else atoms.truncate mol)
                         (mm_mol mf) = Inr en"
    using assms(3) by (cases "e_nuc (if pop_v = ''iao'' then reference_mol mol
                                     else atoms.truncate mol) (mm_mol mf)") simp_all
  obtain h where h: "h_core mol (case mm_mol mf of None \<Rightarrow> None | Some _ \<Rightarrow> Some (mm_pot_ints mf))
                       = Inr h"
    using assms(4) by (cases "h_core mol (case mm_mol mf of None \<Rightarrow> None
                                          | Some _ \<Rightarrow> Some (mm_pot_ints mf))") simp_all
  show ?thesis
    unfolding prop_tot_def Let_def case_prod_beta
    by (simp add: assms(1,5) ch en h bind_res_def)
qed

lemma example_unrestricted:
  "make_rho (Ao2 [[1, 1]]) (Rdm3 ([[1, 1], [1, 1]], [[1, 1], [1, 1]])) (PStr ''unrestricted'') LDA
     = Inr ([[4, 4]], None, RhoPair (Rho1 [4]) (Rho1 [4]))"
  by (simp add: make_rho_def make_rho_interm1_def make_rho_interm2_def bind_res_def
      contract_ik_kj_def contract_pi_pi_def vdot_def madd_def vadd_def ref_eq_str_def
      sum_c1_def)

lemma example_array_size: "arr_size (entries (example_rdm1_eff np)) = 8"
  by (simp add: example_rdm1_eff_def arr_size_def)

lemma example_main_raises:
  "main example_ext 4 [0, 1] example_mol (example_decomp ''atoms'' ''energy'') example_ks_mf None
     (Some (example_rdm1_eff From_1_25)) = Inl ambiguous"
proof -
  have t: "ref_eq_str (opt_arr (Some (example_rdm1_eff From_1_25))) ''restricted'' = Inl ambiguous"
    by (rule ref_test_raises) (simp_all add: example_array_size, simp add: example_rdm1_eff_def)
  have ks: "is_ks example_ks_mf" "xc_ao_deriv (mf_xc_type example_ks_mf) = Inr (LDA, 0)"
    "mm_mol example_ks_mf = None"
    by (simp_all add: example_ks_mf_def example_mf_def xc_ao_deriv_def)
  have d: "dft_setup example_ks_mf d (opt_arr (Some (example_rdm1_eff From_1_25))) vk = Inl ambiguous"
    for d vk
    using dft_setup_test_error(2) [OF ks(1) t ks(2)] .
  have k: "main_kwargs example_ext example_mol (example_decomp ''atoms'' ''energy'') c occ ''weights''
           = Some (PWeights example_weights)" for c occ
    by (simp add: main_kwargs_def main_extra_def example_ext_def example_decomp_def)
  have p: "prop_tot 4 [0, 1] example_mol example_ks_mf c occ
             (opt_arr (Some (example_rdm1_eff From_1_25))) ''mulliken'' ''energy'' ''atoms'' False
             (main_kwargs example_ext example_mol (example_decomp ''atoms'' ''energy'') c occ)
           = Inl ambiguous" for c occ
  proof (rule prop_tot_dft_error [OF refl _ _ _ d])
    show "\<not> isl (charge_atom (if ''mulliken'' = ''iao'' then reference_mol example_mol
                                else atoms.truncate example_mol)
                  (main_kwargs example_ext example_mol (example_decomp ''atoms'' ''energy'') c occ))"
      by (simp add: charge_atom_def k)
    show "\<not> isl (e_nuc (if ''mulliken'' = ''iao'' then reference_mol example_mol
                          else atoms.truncate example_mol) (mm_mol example_ks_mf))"
      by (simp add: e_nuc_def ks(3) Let_def)
    show "\<not> isl (h_core example_mol (case mm_mol example_ks_mf of None \<Rightarrow> None
                                       | Some _ \<Rightarrow> Some (mm_pot_ints example_ks_mf)))"
      by (simp add: ks(3) h_core_def Let_def example_mol_def nth_res_def bind_res_def
          upt_conv_Cons)
  qed
  have s: "sanity_check example_ext example_mol (example_decomp ''atoms'' ''energy'') = None"
    by (simp add: example_ext_def)
  have f: "pop (example_decomp ''atoms'' ''energy'') = ''mulliken''"
    "prop' (example_decomp ''atoms'' ''energy'') = ''energy''"
    "part (example_decomp ''atoms'' ''energy'') = ''atoms''"
    "multiproc (example_decomp ''atoms'' ''energy'') = False"
    by (simp_all add: example_decomp_def)
  show ?thesis
    by (simp only: main_is_prop_tot s option.case f p)
qed

text \<open>
  C10. In every run of \<open>main\<close> the parameter \<open>ref\<close> of \<open>prop_tot\<close> receives the
  argument \<open>rdm1_eff\<close> (lemma \<open>main_is_prop_tot\<close>), which is an array or \<open>None\<close> and never a
  string, so the test \<open>ref == 'restricted'\<close> never holds and the restricted branch of
  \<open>_make_rho\<close> is never taken. The claim goes on to say that the spin-stacked total density
  is therefore always processed through the unrestricted branch. That holds when
  \<open>rdm1_eff\<close> is \<open>None\<close> and when NumPy compares an array with a string to a single
  \<open>False\<close>. With a NumPy from 1.25 on and an array of more than one entry the test itself
  raises ValueError: every run of \<open>main\<close> on a Kohn-Sham mean field that is given such an
  \<open>rdm1_eff\<close> raises, and the total density is processed through no branch at all. The
  parameter is declared \<open>ref: str\<close>, and \<open>main\<close> passes an array in its place.
\<close>

theorem array_ref_raises:
  assumes "is_ks mf" and "release a \<noteq> Before_1_25" and "1 < arr_size (entries a)"
  shows "make_rho ao (Rdm3 ds) (opt_arr (Some a)) xc = Inl ambiguous
         \<and> isl (main ext num_threads sched mol decomp mf rdm1_orb (Some a))"
proof
  have t: "ref_eq_str (opt_arr (Some a)) ''restricted'' = Inl ambiguous"
    using assms(2,3) by (rule ref_test_raises)
  then show "make_rho ao (Rdm3 ds) (opt_arr (Some a)) xc = Inl ambiguous"
    by (rule make_rho_test_error)
  have "isl (prop_tot num_threads sched mol mf c occ (opt_arr (Some a)) p pt pa mp kw)"
    for c occ p pt pa mp kw
    by (rule prop_tot_dft_raises) (rule dft_setup_test_error(1) [OF assms(1) t])
  then show "isl (main ext num_threads sched mol decomp mf rdm1_orb (Some a))"
    by (simp add: main_is_prop_tot split: option.split)
qed

theorem array_ref_raises_witness:
  "is_ks example_ks_mf \<and> release (example_rdm1_eff From_1_25) \<noteq> Before_1_25
   \<and> 1 < arr_size (entries (example_rdm1_eff From_1_25))
   \<and> make_rho (Ao2 [[1, 1]]) (Rdm3 ([[1, 1], [1, 1]], [[1, 1], [1, 1]]))
        (opt_arr (Some (example_rdm1_eff From_1_25))) LDA = Inl ambiguous
   \<and> make_rho (Ao2 [[1, 1]]) (Rdm3 ([[1, 1], [1, 1]], [[1, 1], [1, 1]])) (PStr ''unrestricted'') LDA
       = Inr ([[4, 4]], None, RhoPair (Rho1 [4]) (Rho1 [4]))
   \<and> main example_ext 4 [0, 1] example_mol (example_decomp ''atoms'' ''energy'') example_ks_mf None
        (Some (example_rdm1_eff From_1_25)) = Inl ambiguous"
proof -
  have h: "is_ks example_ks_mf" "release (example_rdm1_eff From_1_25) \<noteq> Before_1_25"
    "1 < arr_size (entries (example_rdm1_eff From_1_25))"
    by (simp_all add: example_ks_mf_def example_mf_def example_array_size)
       (simp add: example_rdm1_eff_def)
  note t = array_ref_raises [OF h, of "Ao2 [[1, 1]]" "([[1, 1], [1, 1]], [[1, 1], [1, 1]])" LDA
      example_ext 4 "[0, 1]" example_mol "example_decomp ''atoms'' ''energy''" None]
  from t have m: "make_rho (Ao2 [[1, 1]]) (Rdm3 ([[1, 1], [1, 1]], [[1, 1], [1, 1]]))
        (opt_arr (Some (example_rdm1_eff From_1_25))) LDA = Inl ambiguous" by blast
  show ?thesis
    using h m example_unrestricted example_main_raises by blast
qed


subsection \<open>The nuclear repulsion per atom\<close>

lemma sum_list_map2_nth:
  "length xs = n \<Longrightarrow> length ys = n \<Longrightarrow>
   sum_list (map2 f xs ys) = (\<Sum>i = 0..<n. (f (xs ! i) (ys ! i) :: real))"
proof -
  assume a: "length xs = n" "length ys = n"
  have "map2 f xs ys = map (\<lambda>i. f (xs ! i) (ys ! i)) [0..<n]"
    using a by (intro nth_equalityI) simp_all
  then show ?thesis
    by (simp add: interv_sum_list_conv_sum_set_nat)
qed

lemma norm3_sym: "norm3 (sub3 x y) = norm3 (sub3 y x)"
proof -
  obtain a b c where x: "x = (a, b, c)" by (cases x) auto
  obtain d e f where y: "y = (d, e, f)" by (cases y) auto
  have "(a - d) * (a - d) = (d - a) * (d - a)" "(b - e) * (b - e) = (e - b) * (e - b)"
    "(c - f) * (c - f) = (f - c) * (f - c)" by (simp_all add: algebra_simps)
  then show ?thesis by (simp add: x y norm3_def sub3_def)
qed

lemma pair_term_sym: "pair_term Z R a b = pair_term Z R b a"
  by (simp add: pair_term_def norm3_sym [of "R ! a" "R ! b"] mult.commute)

lemma e_nuc_entry:
  assumes len: "length Z = length R" and a: "a < length R"
  shows "contract_i_ij_j Z (recip (set_diag self_dist (inter_distance R))) Z ! a * (1 / 2)
         = pair_repulsion Z R a + self_residual Z a"
proof -
  let ?n = "length R"
  let ?row = "map (\<lambda>x. 1 / x) ((map (\<lambda>rj. norm3 (sub3 (R ! a) rj)) R)[a := self_dist])"
  have row: "recip (set_diag self_dist (inter_distance R)) ! a = ?row"
    using a by (simp add: recip_def set_diag_def inter_distance_def nth_enumerate_eq)
  have lenrow: "length ?row = ?n" by simp
  have lr: "length (recip (set_diag self_dist (inter_distance R))) = ?n"
    by (simp add: recip_def set_diag_def inter_distance_def)
  have "contract_i_ij_j Z (recip (set_diag self_dist (inter_distance R))) Z ! a
        = sum_list (map2 (\<lambda>x vj. Z ! a * x * vj) ?row Z)"
    using a len lr by (simp add: contract_i_ij_j_def row)
  also have "\<dots> = (\<Sum>b = 0..<?n. Z ! a * (?row ! b) * Z ! b)"
    using len by (simp add: sum_list_map2_nth [where n = ?n])
  also have "\<dots> = (\<Sum>b = 0..<?n. (if b = a then 0 else pair_term Z R a b)
                                  + (if b = a then Z ! a * Z ! a / self_dist else 0))"
    by (rule sum.cong) (auto simp add: pair_term_def nth_list_update)
  also have "\<dots> = (\<Sum>b = 0..<?n. if b = a then 0 else pair_term Z R a b) + Z ! a * Z ! a / self_dist"
    using a by (simp add: sum.distrib)
  finally show ?thesis
    by (simp add: pair_repulsion_def self_residual_def interv_sum_list_conv_sum_set_nat
        field_simps)
qed

lemma e_nuc_no_mm:
  assumes len: "length (atom_charges mol) = length (atom_coords mol)"
  shows "e_nuc mol None =
     Inr (map (\<lambda>a. pair_repulsion (atom_charges mol) (atom_coords mol) a
                   + self_residual (atom_charges mol) a) [0..<length (atom_coords mol)])"
proof -
  let ?Z = "atom_charges mol" and ?R = "atom_coords mol"
  let ?c = "contract_i_ij_j ?Z (recip (set_diag self_dist (inter_distance ?R))) ?Z"
  have l: "length ?c = length ?R"
    using len by (simp add: contract_i_ij_j_def recip_def set_diag_def inter_distance_def)
  have "map (\<lambda>x. x * (1 / 2)) ?c
        = map (\<lambda>a. pair_repulsion ?Z ?R a + self_residual ?Z a) [0..<length ?R]"
    using l e_nuc_entry [OF len] by (intro nth_equalityI) simp_all
  then show ?thesis by (simp add: e_nuc_def Let_def)
qed

lemma sum_pair_repulsion:
  "(\<Sum>a\<leftarrow>[0..<length R]. pair_repulsion Z R a) = total_repulsion Z R"
proof -
  let ?n = "length R"
  let ?f = "pair_term Z R"
  have split: "(\<Sum>b = 0..<?n. if b = a then 0 else ?f a b)
                = (\<Sum>b = 0..<a. ?f a b) + (\<Sum>b = Suc a..<?n. ?f a b)" if "a < ?n" for a
  proof -
    have "{0..<?n} = {0..<a} \<union> ({a} \<union> {Suc a..<?n})" using that by auto
    then have "(\<Sum>b = 0..<?n. if b = a then 0 else ?f a b)
          = (\<Sum>b \<in> {0..<a} \<union> ({a} \<union> {Suc a..<?n}). if b = a then 0 else ?f a b)" by simp
    also have "\<dots> = (\<Sum>b = 0..<a. if b = a then 0 else ?f a b)
                   + (\<Sum>b \<in> {a} \<union> {Suc a..<?n}. if b = a then 0 else ?f a b)"
      by (rule sum.union_disjoint) auto
    also have "(\<Sum>b \<in> {a} \<union> {Suc a..<?n}. if b = a then 0 else ?f a b)
                 = (\<Sum>b = Suc a..<?n. if b = a then 0 else ?f a b)"
      by (subst sum.union_disjoint) auto
    finally show ?thesis by simp
  qed
  have upper: "(\<Sum>a = 0..<?n. \<Sum>b = Suc a..<?n. ?f a b) = (\<Sum>a = 0..<?n. \<Sum>b = 0..<a. ?f a b)"
  proof -
    have "(\<Sum>a = 0..<?n. \<Sum>b = Suc a..<?n. ?f a b)
          = (\<Sum>(a, b) \<in> (SIGMA a : {0..<?n}. {Suc a..<?n}). ?f a b)"
      by (simp add: sum.Sigma)
    also have "\<dots> = (\<Sum>(b, a) \<in> (SIGMA b : {0..<?n}. {0..<b}). ?f a b)"
      by (rule sum.reindex_bij_witness [where i = "\<lambda>(b, a). (a, b)" and j = "\<lambda>(a, b). (b, a)"])
         auto
    also have "\<dots> = (\<Sum>b = 0..<?n. \<Sum>a = 0..<b. ?f a b)"
      by (simp add: sum.Sigma)
    also have "\<dots> = (\<Sum>b = 0..<?n. \<Sum>a = 0..<b. ?f b a)"
      by (simp add: pair_term_sym [of Z R])
    finally show ?thesis .
  qed
  have "(\<Sum>a = 0..<?n. \<Sum>b = 0..<?n. if b = a then 0 else ?f a b)
             = (\<Sum>a = 0..<?n. (\<Sum>b = 0..<a. ?f a b) + (\<Sum>b = Suc a..<?n. ?f a b))"
    by (rule sum.cong) (simp_all add: split)
  also have "\<dots> = (\<Sum>a = 0..<?n. \<Sum>b = 0..<a. ?f a b)
                   + (\<Sum>a = 0..<?n. \<Sum>b = Suc a..<?n. ?f a b)"
    by (simp only: sum.distrib)
  also have "\<dots> = 2 * (\<Sum>a = 0..<?n. \<Sum>b = 0..<a. ?f a b)"
    by (simp add: upper)
  finally have both: "(\<Sum>a = 0..<?n. \<Sum>b = 0..<?n. if b = a then 0 else ?f a b)
                       = 2 * (\<Sum>a = 0..<?n. \<Sum>b = 0..<a. ?f a b)" .
  have "(\<Sum>a\<leftarrow>[0..<?n]. pair_repulsion Z R a)
        = (\<Sum>a = 0..<?n. (1 / 2) * (\<Sum>b = 0..<?n. if b = a then 0 else ?f a b))"
    by (simp add: pair_repulsion_def interv_sum_list_conv_sum_set_nat)
  also have "\<dots> = (1 / 2) * (\<Sum>a = 0..<?n. \<Sum>b = 0..<?n. if b = a then 0 else ?f a b)"
    by (simp only: sum_distrib_left)
  also have "\<dots> = (\<Sum>a = 0..<?n. \<Sum>b = 0..<a. ?f a b)"
    by (simp only: both)
  finally show ?thesis
    by (simp add: total_repulsion_def interv_sum_list_conv_sum_set_nat)
qed


lemma foldM_res_append:
  "foldM_res f (xs @ ys) s = bind_res (foldM_res f xs s) (foldM_res f ys)"
  by (induction xs arbitrary: s) (simp_all add: bind_res_def split: sum.split)

lemma mm_loop:
  assumes lz: "length Z = n" and lr: "length R = n" and le: "length e = n"
  shows "k \<le> n \<Longrightarrow>
     foldM_res (\<lambda>j e.
         bind_res (nth_res Z j) (\<lambda>q2.
         bind_res (nth_res R j) (\<lambda>r2.
         bind_res (nth_res e j) (\<lambda>ej.
           let r = map (\<lambda>c. norm3 (sub3 r2 c)) (atom_coords mm)
           in Inr (e[j := ej + q2 * sum_list (map2 (\<lambda>q d. q / d) (atom_charges mm) r)])))))
       [0..<k] e
     = Inr (map (\<lambda>a. if a < k then e ! a + mm_term Z R mm a else e ! a) [0..<n])"
proof (induction k)
  case 0
  have "e = map (\<lambda>a. e ! a) [0..<n]"
    using le by (intro nth_equalityI) simp_all
  then show ?case by simp
next
  case (Suc k)
  then have k: "k < n" by simp
  let ?m = "map (\<lambda>a. if a < k then e ! a + mm_term Z R mm a else e ! a) [0..<n]"
  have upd: "?m[k := ?m ! k + Z ! k * sum_list (map2 (\<lambda>q d. q / d) (atom_charges mm)
                 (map (\<lambda>c. norm3 (sub3 (R ! k) c)) (atom_coords mm)))]
             = map (\<lambda>a. if a < Suc k then e ! a + mm_term Z R mm a else e ! a) [0..<n]"
    using k by (intro nth_equalityI) (auto simp add: nth_list_update mm_term_def less_Suc_eq)
  show ?case
    using Suc.IH k lz lr upd
    by (simp add: foldM_res_append bind_res_def nth_res_def Let_def)
qed

lemma e_nuc_mm:
  assumes len: "length (atom_charges mol) = length (atom_coords mol)"
    and n: "natm mol = length (atom_coords mol)"
  shows "e_nuc mol (Some mm) =
     Inr (map (\<lambda>a. pair_repulsion (atom_charges mol) (atom_coords mol) a
                   + self_residual (atom_charges mol) a
                   + mm_term (atom_charges mol) (atom_coords mol) mm a)
            [0..<length (atom_coords mol)])"
proof -
  let ?Z = "atom_charges mol" and ?R = "atom_coords mol"
  let ?e = "map (\<lambda>a. pair_repulsion ?Z ?R a + self_residual ?Z a) [0..<length ?R]"
  have e: "e_nuc mol None = Inr ?e" using len by (rule e_nuc_no_mm)
  have e': "map (\<lambda>x. x * (1 / 2))
              (contract_i_ij_j ?Z (recip (set_diag self_dist (inter_distance ?R))) ?Z) = ?e"
    using e by (simp add: e_nuc_def Let_def)
  have "e_nuc mol (Some mm) =
          Inr (map (\<lambda>a. if a < length ?R then ?e ! a + mm_term ?Z ?R mm a else ?e ! a)
                 [0..<length ?R])"
    unfolding e_nuc_def Let_def e' option.case n
    using mm_loop [of ?Z "length ?R" ?R ?e "length ?R" mm] len
    by (simp add: Let_def)
  also have "map (\<lambda>a. if a < length ?R then ?e ! a + mm_term ?Z ?R mm a else ?e ! a) [0..<length ?R]
             = map (\<lambda>a. pair_repulsion ?Z ?R a + self_residual ?Z a + mm_term ?Z ?R mm a)
                 [0..<length ?R]"
    by (intro nth_equalityI) simp_all
  finally show ?thesis .
qed


text \<open>
  C3, as the code has it. The claim is that the self-distance term is excluded from the
  pairwise sum and that the entries sum exactly to the pairwise repulsion energy. The code
  does not exclude the term: it stores \<open>1e200\<close> on the diagonal of the distance matrix, and
  the contraction runs over all pairs, so each entry carries the residual
  \<open>Z\<^sub>a\<^sup>2 / (2 * 1e200)\<close>. For a single atom the entry is this residual, not zero.

  Amended: for nuclei at distinct positions (and MM sites away from them), each entry is
  one half of the sum over the other atoms of the product of the charges over the
  distance, plus the residual self term, plus the interaction with the MM sites when there
  is an MM region; the pairwise parts sum to the total pairwise repulsion energy, so the
  entries without an MM region sum to that energy plus the residuals.
\<close>

theorem e_nuc_self_term_counterexample:
  "e_nuc single_atom (None :: atoms option) = Inr [1 / (2 * 10 ^ 200)]
   \<and> pair_repulsion (atom_charges single_atom) (atom_coords single_atom) 0 = 0
   \<and> total_repulsion (atom_charges single_atom) (atom_coords single_atom) = 0
   \<and> e_nuc single_atom (None :: atoms option)
       \<noteq> Inr (map (pair_repulsion (atom_charges single_atom) (atom_coords single_atom))
                [0..<natm single_atom])"
  by (simp add: e_nuc_no_mm single_atom_def pair_repulsion_def total_repulsion_def
      self_residual_def self_dist_def)

theorem e_nuc_entries:
  assumes len: "length (atom_charges mol) = length (atom_coords mol)"
    and n: "natm mol = length (atom_coords mol)"
    and apart: "distinct (atom_coords mol)"
    and sites: "case mm of None \<Rightarrow> True
                | Some m \<Rightarrow> length (atom_charges m) = length (atom_coords m)
                            \<and> list_all (\<lambda>c. c \<notin> set (atom_coords mol)) (atom_coords m)"
  shows "e_nuc mol mm =
           Inr (map (\<lambda>a. pair_repulsion (atom_charges mol) (atom_coords mol) a
                         + self_residual (atom_charges mol) a
                         + mm_part (atom_charges mol) (atom_coords mol) mm a) [0..<natm mol])
       \<and> (\<Sum>a\<leftarrow>[0..<natm mol]. pair_repulsion (atom_charges mol) (atom_coords mol) a)
           = total_repulsion (atom_charges mol) (atom_coords mol)
       \<and> (\<Sum>a\<leftarrow>[0..<natm mol]. pair_repulsion (atom_charges mol) (atom_coords mol) a
                                  + self_residual (atom_charges mol) a)
           = total_repulsion (atom_charges mol) (atom_coords mol)
             + (\<Sum>a\<leftarrow>[0..<natm mol]. self_residual (atom_charges mol) a)"
proof -
  have 1: "e_nuc mol mm =
           Inr (map (\<lambda>a. pair_repulsion (atom_charges mol) (atom_coords mol) a
                         + self_residual (atom_charges mol) a
                         + mm_part (atom_charges mol) (atom_coords mol) mm a) [0..<natm mol])"
  proof (cases mm)
    case None
    then show ?thesis using e_nuc_no_mm [OF len] n by (simp add: mm_part_def)
  next
    case (Some m)
    then show ?thesis using e_nuc_mm [OF len n, of m] n by (simp add: mm_part_def)
  qed
  have 2: "(\<Sum>a\<leftarrow>[0..<natm mol]. pair_repulsion (atom_charges mol) (atom_coords mol) a)
           = total_repulsion (atom_charges mol) (atom_coords mol)"
    using sum_pair_repulsion [where R = "atom_coords mol" and Z = "atom_charges mol"] n by simp
  have 3: "(\<Sum>a\<leftarrow>[0..<natm mol]. pair_repulsion (atom_charges mol) (atom_coords mol) a
                                  + self_residual (atom_charges mol) a)
           = (\<Sum>a\<leftarrow>[0..<natm mol]. pair_repulsion (atom_charges mol) (atom_coords mol) a)
             + (\<Sum>a\<leftarrow>[0..<natm mol]. self_residual (atom_charges mol) a)"
    by (simp add: sum_list_addf)
  from 1 2 3 show ?thesis by simp
qed

theorem e_nuc_entries_witness:
  "length (atom_charges example_atoms) = length (atom_coords example_atoms)
   \<and> natm example_atoms = length (atom_coords example_atoms)
   \<and> distinct (atom_coords example_atoms)
   \<and> e_nuc example_atoms (None :: atoms option)
       = Inr [1 / 4 + 1 / (2 * self_dist), 1 / 4 + 1 / (2 * self_dist)]
   \<and> total_repulsion (atom_charges example_atoms) (atom_coords example_atoms) = 1 / 2"
  using e_nuc_entries [of example_atoms "None :: atoms option"]
  by (simp add: example_atoms_def pair_repulsion_def self_residual_def pair_term_def
      total_repulsion_def mm_part_def norm3_def sub3_def upt_conv_Cons)

subsection \<open>Collecting the results of the bonds strategy\<close>

text \<open>
  C4. The claim is that the result of the k-th task lands in the slot of that task's spin
  channel and position, also when the two channels hold different numbers of orbitals,
  and that no two tasks share a slot. The position in the beta channel is computed as
  \<open>k % len(rep_idx[0])\<close>, which is \<open>k - len(rep_idx[0])\<close> only while the beta channel is no
  longer than the alpha channel. With one alpha and two beta orbitals the domain is
  \<open>[(0, 0), (1, 0), (1, 1)]\<close>; the results of the second and the third task are both
  written to the first beta slot, the third overwrites the second, and the second beta slot
  keeps its initial zero.
\<close>

theorem bonds_slot_collision:
  "bonds_domain ([0], [0, 1]) = [(0, 0), (1, 0), (1, 1)]
   \<and> collect_bonds (length [0 :: nat])
       [[''el'' \<mapsto> v0], [''el'' \<mapsto> v1], [''el'' \<mapsto> v2]]
       [''el'' \<mapsto> ESpin (replicate (length [0 :: nat]) (Sc 0))
                          (replicate (length [0 :: nat, 1]) (Sc 0))]
     = Inr [''el'' \<mapsto> ESpin [v0] [v2, Sc 0]]"
  by (simp add: bonds_domain_def collect_bonds_def items_def COMP_KEYS_def store_bond_def
      bind_res_def)

subsection \<open>The effective atomic charges\<close>

lemma length_sum_rows:
  "\<forall>row\<in>set ws. length row = n \<Longrightarrow> length (sum_rows n ws) = n"
  by (induction ws) (simp_all add: sum_rows_def vadd_def)

lemma nth_sum_rows:
  "\<forall>row\<in>set ws. length row = n \<Longrightarrow> a < n \<Longrightarrow>
   sum_rows n ws ! a = (\<Sum>row\<leftarrow>ws. row ! a)"
proof (induction ws)
  case Nil
  then show ?case by (simp add: sum_rows_def)
next
  case (Cons w ws)
  then have "length (sum_rows n ws) = n" by (simp add: length_sum_rows)
  with Cons show ?case
    using Cons by (simp add: sum_rows_def vadd_def)
qed

lemma sum_list_map2_add:
  "length u = length v \<Longrightarrow> sum_list (map2 (+) u v) = sum_list u + sum_list (v :: real list)"
  by (induction u v rule: list_induct2) simp_all

lemma sum_list_map2_minus:
  "length u = length v \<Longrightarrow> sum_list (map2 (-) u v) = sum_list u - sum_list (v :: real list)"
  by (induction u v rule: list_induct2) simp_all

lemma sum_list_sum_rows:
  "\<forall>row\<in>set ws. length row = n \<Longrightarrow> sum_list (sum_rows n ws) = (\<Sum>row\<leftarrow>ws. sum_list row)"
proof (induction ws)
  case Nil
  then show ?case by (simp add: sum_rows_def sum_list_replicate)
next
  case (Cons w ws)
  then have "length (sum_rows n ws) = length w" by (simp add: length_sum_rows)
  with Cons show ?case
    by (simp add: sum_rows_def vadd_def sum_list_map2_add)
qed

lemma sum_list_const_one:
  "\<forall>row\<in>set ws. sum_list row = (1::real) \<Longrightarrow> (\<Sum>row\<leftarrow>ws. sum_list row) = real (length ws)"
  by (induction ws) simp_all


lemma charge_atom_list:
  assumes w: "kwargs ''weights'' = Some (PWeights (w0, w1))"
    and len: "\<forall>row\<in>set (w0 @ w1). length row = length (atom_charges pmol)"
  shows "charge_atom pmol kwargs =
           Inr (EVec (map (\<lambda>a. atom_charges pmol ! a - (\<Sum>row\<leftarrow>w0 @ w1. row ! a))
                        [0..<length (atom_charges pmol)]))"
proof -
  let ?n = "length (atom_charges pmol)"
  have l: "length (sum_rows ?n (w0 @ w1)) = ?n"
    using len by (rule length_sum_rows)
  have "map2 (-) (atom_charges pmol) (sum_rows ?n (w0 @ w1))
        = map (\<lambda>a. atom_charges pmol ! a - (\<Sum>row\<leftarrow>w0 @ w1. row ! a)) [0..<?n]"
    using l len by (intro nth_equalityI) (simp_all add: nth_sum_rows)
  then show ?thesis using w by (simp add: charge_atom_def)
qed

lemma charge_atom_total:
  assumes len: "\<forall>row\<in>set ws. length row = length (Z :: real list)"
    and one: "\<forall>row\<in>set ws. sum_list row = 1"
  shows "(\<Sum>a\<leftarrow>[0..<length Z]. Z ! a - (\<Sum>row\<leftarrow>ws. row ! a)) = sum_list Z - real (length ws)"
proof -
  let ?n = "length Z"
  have l: "length (sum_rows ?n ws) = ?n"
    using len by (rule length_sum_rows)
  have "map (\<lambda>a. Z ! a - (\<Sum>row\<leftarrow>ws. row ! a)) [0..<?n] = map2 (-) Z (sum_rows ?n ws)"
    using l len by (intro nth_equalityI) (simp_all add: nth_sum_rows)
  then have "(\<Sum>a\<leftarrow>[0..<?n]. Z ! a - (\<Sum>row\<leftarrow>ws. row ! a)) = sum_list (map2 (-) Z (sum_rows ?n ws))"
    by simp
  also have "\<dots> = sum_list Z - sum_list (sum_rows ?n ws)"
    using l by (simp add: sum_list_map2_minus)
  also have "sum_list (sum_rows ?n ws) = (\<Sum>row\<leftarrow>ws. sum_list row)"
    using len by (rule sum_list_sum_rows)
  also have "\<dots> = real (length ws)"
    using one by (rule sum_list_const_one)
  finally show ?thesis .
qed

text \<open>
  C6. With the weights passed (atoms and EDA strategies), each entry of \<open>charge_atom\<close> is
  the nuclear charge of the atom minus the sum of its weights over the orbitals of both
  spin channels. When the weights of every orbital sum to one over the atoms, the charges
  sum to the total nuclear charge minus the number of occupied spin-orbitals, which is
  zero when the two are equal (a neutral molecule).
\<close>

theorem charge_atom_value:
  assumes w: "kwargs ''weights'' = Some (PWeights (w0, w1))"
    and len: "\<forall>row\<in>set (w0 @ w1). length row = length (atom_charges pmol)"
  shows "charge_atom pmol kwargs =
           Inr (EVec (map (\<lambda>a. atom_charges pmol ! a - (\<Sum>row\<leftarrow>w0 @ w1. row ! a))
                        [0..<length (atom_charges pmol)]))
       \<and> ((\<forall>row\<in>set (w0 @ w1). sum_list row = 1) \<longrightarrow>
            (\<Sum>a\<leftarrow>[0..<length (atom_charges pmol)].
                 atom_charges pmol ! a - (\<Sum>row\<leftarrow>w0 @ w1. row ! a))
              = sum_list (atom_charges pmol) - real (length w0 + length w1)
            \<and> (sum_list (atom_charges pmol) = real (length w0 + length w1) \<longrightarrow>
                 (\<Sum>a\<leftarrow>[0..<length (atom_charges pmol)].
                      atom_charges pmol ! a - (\<Sum>row\<leftarrow>w0 @ w1. row ! a)) = 0))"
  using w len charge_atom_list [where kwargs = kwargs and ?w0.0 = w0 and ?w1.0 = w1 and pmol = pmol]
    charge_atom_total [where ws = "w0 @ w1" and Z = "atom_charges pmol"] len
  by simp

theorem charge_atom_value_witness:
  "charge_atom example_atoms [''weights'' \<mapsto> PWeights example_weights] = Inr (EVec [0, 0])
   \<and> list_all (\<lambda>row. length row = length (atom_charges example_atoms) \<and> sum_list row = 1)
         (fst example_weights @ snd example_weights)
   \<and> sum_list (atom_charges example_atoms)
       = real (length (fst example_weights) + length (snd example_weights))"
  using charge_atom_value [of "[''weights'' \<mapsto> PWeights example_weights]"
      "fst example_weights" "snd example_weights" example_atoms]
  by (simp add: example_weights_def example_atoms_def upt_conv_Cons)


subsection \<open>Sequential and parallel execution\<close>

lemma same_outcome_refl: "same_outcome m m"
  by (simp add: same_outcome_def split: sum.split)

lemma same_outcome_bind:
  "same_outcome m m' \<Longrightarrow> same_outcome (bind_res m k) (bind_res m' k)"
  by (auto simp add: same_outcome_def bind_res_def split: sum.splits)

lemma same_outcome_cong:
  "(\<And>v. same_outcome (f v) (g v)) \<Longrightarrow> same_outcome (bind_res m f) (bind_res m g)"
  by (cases m) (simp_all add: bind_res_def same_outcome_def)

lemma fold_slots_nth:
  "i < length s0 \<Longrightarrow>
   foldl (\<lambda>slots k. slots[k := Some (g k)]) s0 xs ! i = (if i \<in> set xs then Some (g i) else s0 ! i)"
proof (induction xs arbitrary: s0)
  case Nil
  then show ?case by simp
next
  case (Cons x xs)
  then show ?case by (simp add: nth_list_update)
qed

lemma fold_slots_length:
  "length (foldl (\<lambda>slots k. slots[k := Some (g k)]) s0 xs) = length s0"
  by (induction xs arbitrary: s0) simp_all

lemma fill_slots_complete:
  assumes "all_complete sched (length domain)"
  shows "fill_slots f domain sched = map (\<lambda>x. Some (f x)) domain"
proof (intro nth_equalityI)
  show "length (fill_slots f domain sched) = length (map (\<lambda>x. Some (f x)) domain)"
    by (simp add: fill_slots_def fold_slots_length)
next
  fix i assume "i < length (fill_slots f domain sched)"
  then have i: "i < length domain" by (simp add: fill_slots_def fold_slots_length)
  then have "i \<in> set sched" using assms by (simp add: all_complete_def list_all_iff)
  then show "fill_slots f domain sched ! i = map (\<lambda>x. Some (f x)) domain ! i"
    using i by (simp add: fill_slots_def fold_slots_nth)
qed

lemma mapM_slot_value: "mapM_res slot_value (map (\<lambda>x. Some (f x)) xs) = mapM_res f xs"
  by (induction xs) (simp_all add: slot_value_def)

lemma mapM_res_Inr_iff:
  "mapM_res f xs = Inr ys \<Longrightarrow> list_all (\<lambda>x. \<not> isl (f x)) xs"
  by (induction xs arbitrary: ys) (auto simp add: bind_res_def split: sum.splits)

lemma mapM_res_Inl:
  "mapM_res f xs = Inl e \<Longrightarrow> \<exists>k<length xs. isl (f (xs ! k))"
proof (induction xs arbitrary: e)
  case Nil
  then show ?case by simp
next
  case (Cons x xs)
  show ?case
  proof (cases "f x")
    case (Inl a)
    then show ?thesis by auto
  next
    case (Inr b)
    with Cons.prems obtain e' where "mapM_res f xs = Inl e'"
      by (auto simp add: bind_res_def split: sum.splits)
    from Cons.IH [OF this] obtain k where "k < length xs" "isl (f (xs ! k))" by blast
    then have "Suc k < length (x # xs) \<and> isl (f ((x # xs) ! Suc k))" by simp
    then show ?thesis by blast
  qed
qed

lemma pool_map_same:
  assumes comp: "all_complete sched (length domain)" and p: "1 \<le> processes"
  shows "same_outcome (seq_map f domain) (pool_map processes sched f domain)"
proof (cases "seq_map f domain")
  case (Inr ys)
  then have ok: "list_all (\<lambda>x. \<not> isl (f x)) domain"
    by (simp add: seq_map_def mapM_res_Inr_iff)
  have "List.find (\<lambda>k. isl (f (domain ! k))) (filter (\<lambda>k. k < length domain) sched) = None"
    using ok by (auto simp add: find_None_iff list_all_iff)
  then have "pool_map processes sched f domain = mapM_res f domain"
    using p comp by (simp add: pool_map_def fill_slots_complete mapM_slot_value)
  then show ?thesis using Inr by (simp add: same_outcome_def seq_map_def)
next
  case (Inl e)
  then obtain k where k: "k < length domain" "isl (f (domain ! k))"
    using mapM_res_Inl [of f domain e] by (auto simp add: seq_map_def)
  then have "k \<in> set sched" using comp by (simp add: all_complete_def list_all_iff)
  then have "\<exists>x. x \<in> set (filter (\<lambda>k. k < length domain) sched) \<and> isl (f (domain ! x))"
    using k by auto
  then obtain k' where
    "List.find (\<lambda>k. isl (f (domain ! k))) (filter (\<lambda>k. k < length domain) sched) = Some k'"
    by (cases "List.find (\<lambda>k. isl (f (domain ! k))) (filter (\<lambda>k. k < length domain) sched)")
       (auto simp add: find_None_iff)
  then have "isl (pool_map processes sched f domain)"
    using p by (simp add: pool_map_def)
  then show ?thesis using Inl by (simp add: same_outcome_def)
qed

lemma run_kernel_same:
  assumes "all_complete sched (length domain)" and "1 \<le> num_threads" and "1 \<le> domain_size"
  shows "same_outcome (run_kernel False domain_size num_threads sched f domain)
                      (run_kernel True domain_size num_threads sched f domain)"
  using pool_map_same [OF assms(1), of "min domain_size num_threads" f] assms(2,3)
  by (simp add: run_kernel_def)

lemma decompose_same:
  assumes "all_complete sched (n_tasks pmol part_name kwargs)" and "1 \<le> num_threads"
    and "0 < n_tasks pmol part_name kwargs"
  shows "same_outcome (decompose num_threads sched c pmol part_name False kwargs charge)
                      (decompose num_threads sched c pmol part_name True kwargs charge)"
proof (cases "part_name = ''atoms'' \<or> part_name = ''eda''")
  case True
  then have n: "n_tasks pmol part_name kwargs = natm pmol" by (simp add: n_tasks_def)
  have "same_outcome
          (run_kernel False (length [0..<natm pmol]) num_threads sched
             (if part_name = ''atoms'' then prop_atom c else prop_eda c) [0..<natm pmol])
          (run_kernel True (length [0..<natm pmol]) num_threads sched
             (if part_name = ''atoms'' then prop_atom c else prop_eda c) [0..<natm pmol])"
    using assms n by (intro run_kernel_same) simp_all
  then show ?thesis
    using True unfolding decompose_def Let_def
    by (auto intro!: same_outcome_cong same_outcome_bind)
next
  case False
  show ?thesis
  proof (cases "kwargs ''rep_idx''")
    case None
    then show ?thesis using False by (simp add: decompose_def same_outcome_def)
  next
    case (Some v)
    show ?thesis
    proof (cases v)
      case (PRepIdx rep_idx)
      then have n: "n_tasks pmol part_name kwargs = length (bonds_domain rep_idx)"
        using False Some by (simp add: n_tasks_def)
      have "same_outcome
          (run_kernel False (2 * length (bonds_domain rep_idx)) num_threads sched
             (prop_bonds c) (bonds_domain rep_idx))
          (run_kernel True (2 * length (bonds_domain rep_idx)) num_threads sched
             (prop_bonds c) (bonds_domain rep_idx))"
        using assms n by (intro run_kernel_same) (simp_all add: Suc_le_eq)
      then show ?thesis
        using False Some PRepIdx unfolding decompose_def Let_def
        by (auto intro!: same_outcome_cong same_outcome_bind)
    qed (use False Some in \<open>simp_all add: decompose_def same_outcome_def\<close>)
  qed
qed


text \<open>
  C7. The claim is that the parallel and the sequential run of \<open>prop_tot\<close> give identical
  result structures for every input. The sequential path maps the kernel over the domain
  and returns; the parallel path first creates a pool of
  \<open>min(domain.size, lib.num_threads())\<close> processes, and a pool of zero processes raises
  ValueError. On an empty domain (here the bonds strategy on a system without occupied
  orbitals) the sequential run returns its result and the parallel run raises: the parallel
  path misses the case that its sequential sibling handles.
\<close>

theorem parallel_empty_domain_counterexample:
  "prop_tot 4 [] proton_mol example_mf ([[]], [[]]) ([], []) PNone ''mulliken'' ''energy''
      ''bonds'' True [''rep_idx'' \<mapsto> PRepIdx ([], [])]
    = Inl (ValueError ''Number of processes must be at least 1'')
   \<and> \<not> isl (prop_tot 4 [] proton_mol example_mf ([[]], [[]]) ([], []) PNone ''mulliken''
              ''energy'' ''bonds'' False [''rep_idx'' \<mapsto> PRepIdx ([], [])])"
  by (simp add: prop_tot_def Let_def bind_res_def charge_atom_def proton_mol_def example_mf_def
      atoms.truncate_def e_nuc_def h_core_def nth_res_def dft_setup_def upt_conv_Cons
      decompose_def run_kernel_def seq_map_def pool_map_def bonds_domain_def collect_bonds_def)

text \<open>
  Where the domain holds at least one task, the machine reports at least one thread and
  the pool completes every task, the two paths have the same outcome, whatever the order
  of completion.
\<close>

theorem parallel_equals_sequential:
  assumes "all_complete sched (n_tasks (pmol_of mol pop_name) part_name kwargs)"
    and "1 \<le> num_threads"
    and "0 < n_tasks (pmol_of mol pop_name) part_name kwargs"
  shows "same_outcome
           (prop_tot num_threads sched mol mf mo_coeff mo_occ ref pop_name prop_type part_name False kwargs)
           (prop_tot num_threads sched mol mf mo_coeff mo_occ ref pop_name prop_type part_name True kwargs)"
proof -
  have d: "same_outcome
             (decompose num_threads sched c (if pop_name = ''iao'' then reference_mol mol
                                             else atoms.truncate mol) part_name False kwargs charge)
             (decompose num_threads sched c (if pop_name = ''iao'' then reference_mol mol
                                             else atoms.truncate mol) part_name True kwargs charge)"
    for c charge
    using decompose_same [OF assms] by (simp add: pmol_of_def)
  show ?thesis
    unfolding prop_tot_def Let_def case_prod_beta
    by (intro same_outcome_cong d)
qed



theorem parallel_equals_sequential_witness:
  "all_complete [1, 0] (n_tasks (pmol_of example_mol ''mulliken'') ''atoms''
       [''weights'' \<mapsto> PWeights example_weights])
   \<and> 0 < n_tasks (pmol_of example_mol ''mulliken'') ''atoms'' [''weights'' \<mapsto> PWeights example_weights]
   \<and> same_outcome
        (prop_tot 4 [1, 0] example_mol example_mf (fst example_orbs) (snd example_orbs) PNone
           ''mulliken'' ''energy'' ''atoms'' False [''weights'' \<mapsto> PWeights example_weights])
        (prop_tot 4 [1, 0] example_mol example_mf (fst example_orbs) (snd example_orbs) PNone
           ''mulliken'' ''energy'' ''atoms'' True [''weights'' \<mapsto> PWeights example_weights])"
  using parallel_equals_sequential [of "[1, 0]" example_mol "''mulliken''" "''atoms''"
      "[''weights'' \<mapsto> PWeights example_weights]" 4 example_mf "fst example_orbs"
      "snd example_orbs" PNone "''energy''"]
  by (simp add: all_complete_def n_tasks_def pmol_of_def example_mol_def atoms.truncate_def
      upt_conv_Cons)


subsection \<open>Matrices, traces and the atom-weighted kernel\<close>

lemma vdot_comm: "vdot u v = vdot v u"
  unfolding vdot_def
  by (induction u arbitrary: v) (simp, case_tac v, simp_all add: mult.commute)

lemma vdot_vadd_right:
  "length u = length v \<Longrightarrow> vdot a (vadd u v) = vdot a u + vdot a v"
proof (induction a arbitrary: u v)
  case Nil
  then show ?case by (simp add: vdot_def)
next
  case (Cons x a)
  then show ?case
    by (cases u; cases v) (simp_all add: vdot_def vadd_def algebra_simps)
qed

lemma vdot_scale_right: "vdot a (map ((*) c) u) = c * vdot a u"
proof (induction a arbitrary: u)
  case Nil
  then show ?case by (simp add: vdot_def)
next
  case (Cons x a)
  then show ?case by (cases u) (simp_all add: vdot_def algebra_simps)
qed

lemma vdot_zero_right: "list_all (\<lambda>x. x = 0) u \<Longrightarrow> vdot a u = 0"
proof (induction a arbitrary: u)
  case Nil
  then show ?case by (simp add: vdot_def)
next
  case (Cons x a)
  then show ?case by (cases u) (simp_all add: vdot_def)
qed

lemma contract_comm: "contract_ij_ij A B = contract_ij_ij B A"
  unfolding contract_ij_ij_def
proof (induction A arbitrary: B)
  case Nil
  then show ?case by simp
next
  case (Cons r A)
  then show ?case by (cases B) (simp_all add: vdot_comm [of r])
qed

lemma contract_madd_right_aux:
  "list_all2 (\<lambda>r s. length r = length s) D E \<Longrightarrow>
   contract_ij_ij N (madd D E) = contract_ij_ij N D + contract_ij_ij N E"
proof (induction N arbitrary: D E)
  case Nil
  then show ?case by (simp add: contract_ij_ij_def)
next
  case (Cons r N)
  show ?case
  proof (cases D)
    case Nil
    with Cons.prems show ?thesis by (simp add: contract_ij_ij_def madd_def)
  next
    case D: (Cons d D')
    with Cons.prems obtain e E' where E: "E = e # E'" and de: "length d = length e"
      and rest: "list_all2 (\<lambda>r s. length r = length s) D' E'"
      by (cases E) simp_all
    have ih: "contract_ij_ij N (madd D' E') = contract_ij_ij N D' + contract_ij_ij N E'"
      using rest by (rule Cons.IH)
    have "contract_ij_ij (r # N) (madd (d # D') (e # E'))
          = vdot r (vadd d e) + contract_ij_ij N (madd D' E')"
      by (simp add: contract_ij_ij_def madd_def)
    also have "\<dots> = (vdot r d + vdot r e) + (contract_ij_ij N D' + contract_ij_ij N E')"
      using de by (simp only: ih vdot_vadd_right)
    also have "\<dots> = contract_ij_ij (r # N) (d # D') + contract_ij_ij (r # N) (e # E')"
      by (simp add: contract_ij_ij_def)
    finally show ?thesis by (simp only: D E)
  qed
qed

lemma is_mat_same_shape:
  "is_mat n m D \<Longrightarrow> is_mat n m E \<Longrightarrow> list_all2 (\<lambda>r s. length r = length s) D E"
  by (simp add: is_mat_def list_all2_conv_all_nth list_all_length)

lemma contract_madd_right:
  "is_mat n m D \<Longrightarrow> is_mat n m E \<Longrightarrow>
   contract_ij_ij N (madd D E) = contract_ij_ij N D + contract_ij_ij N E"
  by (intro contract_madd_right_aux is_mat_same_shape)

lemma contract_mscale_right: "contract_ij_ij N (mscale c D) = c * contract_ij_ij N D"
proof (induction N arbitrary: D)
  case Nil
  then show ?case by (simp add: contract_ij_ij_def)
next
  case (Cons r N)
  then show ?case
    by (cases D) (simp_all add: contract_ij_ij_def mscale_def vdot_scale_right algebra_simps)
qed

lemma contract_allzero_right:
  "list_all (list_all (\<lambda>x. x = 0)) D \<Longrightarrow> contract_ij_ij N D = 0"
proof (induction N arbitrary: D)
  case Nil
  then show ?case by (simp add: contract_ij_ij_def)
next
  case (Cons r N)
  then show ?case
    by (cases D) (simp_all add: contract_ij_ij_def vdot_zero_right)
qed

lemma allzero_zeros_like: "list_all (list_all (\<lambda>x. x = 0)) (zeros_like D)"
  by (simp add: zeros_like_def list_all_iff)

lemma allzero_zeros: "list_all (list_all (\<lambda>x. x = 0)) (zeros n m)"
  by (simp add: zeros_def list_all_iff)

lemma is_mat_zeros_like: "is_mat n m D \<Longrightarrow> is_mat n m (zeros_like D)"
  by (simp add: is_mat_def zeros_like_def list_all_iff)

lemma is_mat_zeros: "is_mat n m (zeros n m)"
  by (simp add: is_mat_def zeros_def list_all_iff)

lemma is_mat_madd: "is_mat n m D \<Longrightarrow> is_mat n m E \<Longrightarrow> is_mat n m (madd D E)"
  by (auto simp add: is_mat_def madd_def vadd_def list_all_iff dest!: set_zip_leftD set_zip_rightD
      elim!: in_set_zipE)

lemma is_mat_mscale: "is_mat n m D \<Longrightarrow> is_mat n m (mscale c D)"
  by (simp add: is_mat_def mscale_def list_all_iff)

lemma contract_madd_left:
  "is_mat n m A \<Longrightarrow> is_mat n m B \<Longrightarrow>
   contract_ij_ij (madd A B) D = contract_ij_ij A D + contract_ij_ij B D"
  using contract_madd_right [of n m A B D] by (simp add: contract_comm [of _ D])

lemma contract_sum_axis0:
  "list_all (is_mat n m) Ms \<Longrightarrow>
   is_mat n m (sum_axis0 n m Ms) \<and>
   contract_ij_ij (sum_axis0 n m Ms) D = (\<Sum>M\<leftarrow>Ms. contract_ij_ij M D)"
proof (induction Ms)
  case Nil
  then show ?case
    using contract_allzero_right [OF allzero_zeros, of D n m]
    by (simp add: sum_axis0_def is_mat_zeros contract_comm [of _ D])
next
  case (Cons M Ms)
  then have M: "is_mat n m M" and S: "is_mat n m (sum_axis0 n m Ms)"
    and ih: "contract_ij_ij (sum_axis0 n m Ms) D = (\<Sum>M\<leftarrow>Ms. contract_ij_ij M D)"
    by simp_all
  have "sum_axis0 n m (M # Ms) = madd M (sum_axis0 n m Ms)"
    by (simp add: sum_axis0_def)
  then show ?case
    using is_mat_madd [OF M S] contract_madd_left [OF M S, of D] ih by simp
qed

lemma bind_res_Inr: "bind_res (Inr x) f = f x"
  by (simp add: bind_res_def)

lemma bind_res_Inl: "bind_res (Inl e) f = Inl e"
  by (simp add: bind_res_def)

lemma xc_terms_eq:
  "res key = Some (Sc x) \<Longrightarrow>
   xc_terms c d key res = bind_res (xc_value c d) (\<lambda>e. Inr (res(key \<mapsto> Sc (x + e))))"
  by (auto simp add: xc_terms_def xc_value_def bind_res_def dict_get_def fun_upd_idem
      split: option.splits sum.splits prod.splits)

lemma atom_step_ok:
  "pair_ok c a i (m, j) \<Longrightarrow>
   bind_res (orb_rdm1 c i j) (\<lambda>rdm1_orb.
     bind_res (get_weight c i m a) (\<lambda>w. Inr (madd d (mscale w rdm1_orb))))
   = Inr (madd d (mscale (weight_of c i m a) (orb_density c i j)))"
  by (auto simp add: pair_ok_def orb_rdm1_def orbital_def nth_res_def bind_res_def get_weight_def
      weight_of_def orb_density_def split: option.splits)

lemma atom_loop:
  "list_all (pair_ok c a i) ps \<Longrightarrow>
   foldM_res (\<lambda>(m, j) d.
         bind_res (orb_rdm1 c i j) (\<lambda>rdm1_orb.
         bind_res (get_weight c i m a) (\<lambda>w.
           Inr (madd d (mscale w rdm1_orb))))) ps d0
   = Inr (foldl (\<lambda>d (m, j). madd d (mscale (weight_of c i m a) (orb_density c i j))) d0 ps)"
proof (induction ps arbitrary: d0)
  case Nil
  then show ?case by simp
next
  case (Cons p ps)
  obtain m j where p: "p = (m, j)" by (cases p)
  with Cons.prems have ok: "pair_ok c a i (m, j)" and rest: "list_all (pair_ok c a i) ps"
    by simp_all
  show ?case
    using Cons.IH [OF rest] by (simp add: p atom_step_ok [OF ok] bind_res_Inr)
qed

lemma spin_ok_pairs:
  assumes "spin_ok c n_atoms i" and "a < n_atoms"
  shows "list_all (pair_ok c a i) (enumerate 0 (spin_orbs c i))"
proof -
  obtain w where w: "k_weights c = Some w" and lw: "length (spin_get w i) = length (spin_orbs c i)"
    and rows: "list_all (\<lambda>row. length row = n_atoms) (spin_get w i)"
    using assms(1) by (auto simp add: spin_ok_def split: option.splits)
  have orbs: "\<And>j. j \<in> set (spin_orbs c i) \<Longrightarrow>
      list_all (\<lambda>row. j < length row) (spin_get (k_mo_coeff c) i)
      \<and> j < length (spin_get (k_mo_occ c) i)"
    using assms(1) by (simp add: spin_ok_def list_all_iff)
  show ?thesis
    unfolding list_all_iff
  proof
    fix mj assume "mj \<in> set (enumerate 0 (spin_orbs c i))"
    then have m: "fst mj < length (spin_orbs c i)" and e: "spin_orbs c i ! fst mj = snd mj"
      by (auto simp add: in_set_enumerate_eq)
    have j: "snd mj \<in> set (spin_orbs c i)"
      using nth_mem [OF m] e by simp
    have "length (spin_get w i ! fst mj) = n_atoms"
      using rows m lw by (simp add: list_all_length)
    then show "pair_ok c a i mj"
      using orbs [OF j] m lw w assms(2) by (simp add: pair_ok_def)
  qed
qed

lemma atom_rdm1_ok:
  assumes "spin_ok c n_atoms i" and "a < n_atoms"
  shows "atom_rdm1 c a i (spin_orbs c i) (zeros_like (spin_get (k_rdm1_tot c) i))
         = Inr (atom_density c a i)"
  unfolding atom_rdm1_def atom_density_def
  by (rule atom_loop) (rule spin_ok_pairs [OF assms])

lemma atom_spin_energy:
  "k_prop_type c = ''energy'' \<Longrightarrow> atom_rdm1 c a i mo (spin_get dd i) = Inr d \<Longrightarrow>
   res ''coul'' = Some (Sc x) \<Longrightarrow> res ''exch'' = Some (Sc y) \<Longrightarrow>
   atom_spin c a i mo (res, dd) =
     Inr (res(''coul'' \<mapsto> Sc (x + contract_ij_ij (sum_spin (k_vj c)) d * (1 / 2)),
              ''exch'' \<mapsto> Sc (y - contract_ij_ij (spin_get (k_vk c) i) d * (1 / 2))),
          spin_set dd i d)"
  by (simp add: atom_spin_def dict_iadd_def dict_isub_def dict_get_def bind_res_def trace_def
      val_sub_def)

lemma prop_atom_energy:
  assumes ok: "atom_ctx_ok c n_atoms nao" and en: "k_prop_type c = ''energy''" and a: "a < n_atoms"
  shows "prop_atom c a = bind_res (xc_value c (atom_dens c a)) (\<lambda>exc. Inr (atom_result c a exc))"
proof -
  from ok have s0: "spin_ok c n_atoms 0" and s1: "spin_ok c n_atoms 1"
    by (simp_all add: atom_ctx_ok_def)
  obtain p where p: "k_prop_nuc_rep c = Some p" "length p = n_atoms"
    using ok by (auto simp add: atom_ctx_ok_def split: option.splits)
  have sub: "a < length (k_sub_nuc c)" using ok a by (simp add: atom_ctx_ok_def)
  have es: "case k_e_solvent c of None \<Rightarrow> True | Some es \<Rightarrow> a < length es"
    using ok a by (auto simp add: atom_ctx_ok_def split: option.splits)
  have r0: "atom_rdm1 c a 0 (k_alpha c) (zeros_like (fst (k_rdm1_tot c))) = Inr (atom_density c a 0)"
    using atom_rdm1_ok [OF s0 a] by (simp add: spin_orbs_def spin_get_def)
  have r1: "atom_rdm1 c a 1 (k_beta c) (zeros_like (snd (k_rdm1_tot c))) = Inr (atom_density c a 1)"
    using atom_rdm1_ok [OF s1 a] by (simp add: spin_orbs_def spin_get_def)
  let ?res0 = "init_res (k_prop_type c)"
  let ?dd0 = "(zeros_like (fst (k_rdm1_tot c)), zeros_like (snd (k_rdm1_tot c)))"
  let ?res1 = "?res0(''coul'' \<mapsto> Sc (0 + contract_ij_ij (sum_spin (k_vj c)) (atom_density c a 0) * (1 / 2)),
                     ''exch'' \<mapsto> Sc (0 - contract_ij_ij (fst (k_vk c)) (atom_density c a 0) * (1 / 2)))"
  have st0: "atom_spin c a 0 (k_alpha c) (?res0, ?dd0)
             = Inr (?res1, (atom_density c a 0, zeros_like (snd (k_rdm1_tot c))))"
    using atom_spin_energy [OF en, of a 0 "k_alpha c" ?dd0 "atom_density c a 0" ?res0 0 0] r0
    by (simp add: spin_get_def spin_set_def init_res_def en dict_init_def COMP_KEYS_def)
  let ?res2 = "?res1(''coul'' \<mapsto> Sc (coul_of c a), ''exch'' \<mapsto> Sc (exch_of c a))"
  have st1: "atom_spin c a 1 (k_beta c) (?res1, (atom_density c a 0, zeros_like (snd (k_rdm1_tot c))))
             = Inr (?res2, (atom_density c a 0, atom_density c a 1))"
    using atom_spin_energy [OF en, of a 1 "k_beta c"
        "(atom_density c a 0, zeros_like (snd (k_rdm1_tot c)))" "atom_density c a 1" ?res1
        "0 + contract_ij_ij (sum_spin (k_vj c)) (atom_density c a 0) * (1 / 2)"
        "0 - contract_ij_ij (fst (k_vk c)) (atom_density c a 0) * (1 / 2)"] r1
    by (simp add: spin_get_def spin_set_def coul_of_def exch_of_def)
  show ?thesis
    unfolding prop_atom_def Let_def st0 bind_res_Inr st1 case_prod_conv
    using sub es p a
    apply (simp add: en dict_iadd_def dict_get_def bind_res_Inr nth_res_def trace_def
        init_res_def dict_init_def COMP_KEYS_def xc_terms_eq atom_dens_def
        add_solvent_def split: option.split)
    apply (cases "xc_value c (sum_spin (atom_density c a 0, atom_density c a (Suc 0)))")
     apply (simp_all add: bind_res_Inr bind_res_Inl sum_el_def COMP_KEYS_def dict_get_def
        add_struct_def nth_res_def atom_result_def kin_of_def nuc_att_of_def solvent_of_def
        atom_dens_def)
    apply (auto simp add: fun_eq_iff)
    done
qed

lemma vdot_nth:
  "length u = n \<Longrightarrow> length v = n \<Longrightarrow> vdot u v = (\<Sum>k = 0..<n. u ! k * v ! k)"
  by (simp add: vdot_def sum_list_map2_nth)

lemma contract_nth:
  assumes A: "is_mat n m A" and B: "is_mat n m B"
  shows "contract_ij_ij A B = (\<Sum>i = 0..<n. \<Sum>j = 0..<m. A ! i ! j * B ! i ! j)"
proof -
  have "contract_ij_ij A B = (\<Sum>i = 0..<n. vdot (A ! i) (B ! i))"
    using A B by (simp add: contract_ij_ij_def is_mat_def sum_list_map2_nth)
  also have "\<dots> = (\<Sum>i = 0..<n. \<Sum>j = 0..<m. A ! i ! j * B ! i ! j)"
    using A B by (intro sum.cong refl vdot_nth) (simp_all add: is_mat_def list_all_length)
  finally show ?thesis .
qed

lemma is_mat_make_rdm1: "is_mat (length X) (length X) (make_rdm1 X occ)"
  by (simp add: is_mat_def make_rdm1_def list_all_iff)

lemma make_rdm1_nth:
  assumes C: "is_mat nao nmo C" and occ: "length occ = nmo" and i: "i < nao" and j: "j < nao"
  shows "make_rdm1 C occ ! i ! j = (\<Sum>p = 0..<nmo. occ ! p * C ! i ! p * C ! j ! p)"
proof -
  have li: "length (C ! i) = nmo" and lj: "length (C ! j) = nmo"
    using C i j by (simp_all add: is_mat_def list_all_length)
  have "make_rdm1 C occ ! i ! j = sum_list (map2 (*) (map2 (*) occ (C ! i)) (C ! j))"
    using C i j by (simp add: make_rdm1_def is_mat_def)
  also have "\<dots> = (\<Sum>p = 0..<nmo. (map2 (*) occ (C ! i)) ! p * C ! j ! p)"
    using li lj occ by (simp add: sum_list_map2_nth)
  also have "\<dots> = (\<Sum>p = 0..<nmo. occ ! p * C ! i ! p * C ! j ! p)"
    using li occ by (intro sum.cong refl) simp
  finally show ?thesis .
qed

lemma orb_nth:
  assumes "length C = nao" and "i < nao" and "j < nao"
  shows "make_rdm1 (map (\<lambda>row. [row ! p]) C) [oc] ! i ! j = oc * C ! i ! p * C ! j ! p"
  using assms by (simp add: make_rdm1_def)

lemma contract_orb:
  assumes N: "is_mat nao nao N" and C: "length C = nao"
  shows "contract_ij_ij N (make_rdm1 (map (\<lambda>row. [row ! p]) C) [oc])
         = (\<Sum>i = 0..<nao. \<Sum>j = 0..<nao. N ! i ! j * (oc * C ! i ! p * C ! j ! p))"
proof -
  have m: "is_mat nao nao (make_rdm1 (map (\<lambda>row. [row ! p]) C) [oc])"
    using is_mat_make_rdm1 [of "map (\<lambda>row. [row ! p]) C" "[oc]"] C by simp
  show ?thesis
    unfolding contract_nth [OF N m]
    using C by (intro sum.cong refl) (simp add: orb_nth)
qed

lemma contract_make_rdm1:
  assumes N: "is_mat nao nao N" and C: "is_mat nao nmo C" and occ: "length occ = nmo"
  shows "contract_ij_ij N (make_rdm1 C occ)
         = (\<Sum>p = 0..<nmo. contract_ij_ij N (make_rdm1 (map (\<lambda>row. [row ! p]) C) [occ ! p]))"
proof -
  have lc: "length C = nao" using C by (simp add: is_mat_def)
  have m: "is_mat nao nao (make_rdm1 C occ)"
    using is_mat_make_rdm1 [of C occ] lc by simp
  have "contract_ij_ij N (make_rdm1 C occ)
        = (\<Sum>i = 0..<nao. \<Sum>j = 0..<nao. N ! i ! j * (\<Sum>p = 0..<nmo. occ ! p * C ! i ! p * C ! j ! p))"
    unfolding contract_nth [OF N m]
    using C occ by (intro sum.cong refl) (simp add: make_rdm1_nth)
  also have "\<dots> = (\<Sum>i = 0..<nao. \<Sum>j = 0..<nao. \<Sum>p = 0..<nmo. N ! i ! j * (occ ! p * C ! i ! p * C ! j ! p))"
    by (simp only: sum_distrib_left)
  also have "\<dots> = (\<Sum>i = 0..<nao. \<Sum>p = 0..<nmo. \<Sum>j = 0..<nao. N ! i ! j * (occ ! p * C ! i ! p * C ! j ! p))"
    by (intro sum.cong refl sum.swap)
  also have "\<dots> = (\<Sum>p = 0..<nmo. \<Sum>i = 0..<nao. \<Sum>j = 0..<nao. N ! i ! j * (occ ! p * C ! i ! p * C ! j ! p))"
    by (rule sum.swap)
  also have "\<dots> = (\<Sum>p = 0..<nmo. contract_ij_ij N (make_rdm1 (map (\<lambda>row. [row ! p]) C) [occ ! p]))"
    by (simp only: contract_orb [OF N lc])
  finally show ?thesis .
qed

lemma contract_orb_unoccupied:
  assumes N: "is_mat nao nao N" and C: "length C = nao"
  shows "contract_ij_ij N (make_rdm1 (map (\<lambda>row. [row ! p]) C) [0]) = 0"
  by (simp add: contract_orb [OF N C])

lemma sum_list_swap:
  "(\<Sum>x\<leftarrow>xs. \<Sum>y\<leftarrow>ys. (f x y :: real)) = (\<Sum>y\<leftarrow>ys. \<Sum>x\<leftarrow>xs. f x y)"
proof (induction xs)
  case Nil
  then show ?case by simp
next
  case (Cons x xs)
  then show ?case by (simp add: sum_list_addf)
qed

lemma foldl_density:
  assumes "is_mat n n d0" and "list_all (\<lambda>mj. is_mat n n (G mj)) ps"
  shows "is_mat n n (foldl (\<lambda>d mj. madd d (G mj)) d0 ps)
         \<and> contract_ij_ij N (foldl (\<lambda>d mj. madd d (G mj)) d0 ps)
             = contract_ij_ij N d0 + (\<Sum>mj\<leftarrow>ps. contract_ij_ij N (G mj))"
  using assms
proof (induction ps arbitrary: d0)
  case Nil
  then show ?case by simp
next
  case (Cons mj ps)
  then have g: "is_mat n n (G mj)" and rest: "list_all (\<lambda>mj. is_mat n n (G mj)) ps" by simp_all
  have m: "is_mat n n (madd d0 (G mj))" using Cons.prems(1) g by (rule is_mat_madd)
  have "contract_ij_ij N (madd d0 (G mj)) = contract_ij_ij N d0 + contract_ij_ij N (G mj)"
    using Cons.prems(1) g by (rule contract_madd_right)
  then show ?case using Cons.IH [OF m rest] by simp
qed

lemma is_mat_orb_density:
  "length (spin_get (k_mo_coeff c) i) = nao \<Longrightarrow> is_mat nao nao (orb_density c i j)"
  using is_mat_make_rdm1 [of "map (\<lambda>row. [row ! j]) (spin_get (k_mo_coeff c) i)"]
  by (simp add: orb_density_def)

lemma atom_density_trace:
  assumes C: "length (spin_get (k_mo_coeff c) i) = nao"
    and D: "is_mat nao nao (spin_get (k_rdm1_tot c) i)"
  shows "is_mat nao nao (atom_density c a i)
         \<and> contract_ij_ij N (atom_density c a i)
             = (\<Sum>mj\<leftarrow>enumerate 0 (spin_orbs c i).
                   weight_of c i (fst mj) a * contract_ij_ij N (orb_density c i (snd mj)))"
proof -
  let ?G = "\<lambda>mj. mscale (weight_of c i (fst mj) a) (orb_density c i (snd mj))"
  have eq: "atom_density c a i
            = foldl (\<lambda>d mj. madd d (?G mj)) (zeros_like (spin_get (k_rdm1_tot c) i))
                (enumerate 0 (spin_orbs c i))"
    by (simp add: atom_density_def split_def)
  have g: "list_all (\<lambda>mj. is_mat nao nao (?G mj)) (enumerate 0 (spin_orbs c i))"
    using is_mat_orb_density [OF C] by (simp add: list_all_iff is_mat_mscale)
  have z: "contract_ij_ij N (zeros_like (spin_get (k_rdm1_tot c) i)) = 0"
    by (rule contract_allzero_right) (rule allzero_zeros_like)
  show ?thesis
    using foldl_density [OF is_mat_zeros_like [OF D] g, of N] z
    by (simp add: eq contract_mscale_right)
qed

lemma weight_row_sum:
  assumes ok: "spin_ok c n_atoms i" and wc: "weights_complete c i"
    and m: "m < length (spin_orbs c i)"
  shows "(\<Sum>a\<leftarrow>[0..<n_atoms]. weight_of c i m a) = 1"
proof -
  obtain w where w: "k_weights c = Some w" and lw: "length (spin_get w i) = length (spin_orbs c i)"
    and rows: "list_all (\<lambda>row. length row = n_atoms) (spin_get w i)"
    using ok by (auto simp add: spin_ok_def split: option.splits)
  have len: "length (spin_get w i ! m) = n_atoms"
    using rows m lw by (simp add: list_all_length)
  have one: "sum_list (spin_get w i ! m) = 1"
    using wc w m lw by (simp add: weights_complete_def list_all_length)
  have "map (\<lambda>a. weight_of c i m a) [0..<n_atoms] = spin_get w i ! m"
    using len w by (intro nth_equalityI) (simp_all add: weight_of_def)
  then show ?thesis using one by simp
qed

lemma sum_atoms_density:
  assumes ok: "spin_ok c n_atoms i" and wc: "weights_complete c i" and ol: "occupied_listed c i"
    and C: "length (spin_get (k_mo_coeff c) i) = nao"
    and D: "spin_get (k_rdm1_tot c) i
              = make_rdm1 (spin_get (k_mo_coeff c) i) (spin_get (k_mo_occ c) i)"
    and N: "is_mat nao nao N"
  shows "(\<Sum>a\<leftarrow>[0..<n_atoms]. contract_ij_ij N (atom_density c a i))
         = contract_ij_ij N (spin_get (k_rdm1_tot c) i)"
proof -
  let ?mo = "spin_orbs c i" and ?occ = "spin_get (k_mo_occ c) i" and ?C = "spin_get (k_mo_coeff c) i"
  let ?t = "\<lambda>j. contract_ij_ij N (orb_density c i j)"
  have Dm: "is_mat nao nao (spin_get (k_rdm1_tot c) i)"
    using is_mat_make_rdm1 [of ?C ?occ] C D by simp
  have "(\<Sum>a\<leftarrow>[0..<n_atoms]. contract_ij_ij N (atom_density c a i))
        = (\<Sum>a\<leftarrow>[0..<n_atoms]. \<Sum>mj\<leftarrow>enumerate 0 ?mo. weight_of c i (fst mj) a * ?t (snd mj))"
    using atom_density_trace [OF C Dm] by simp
  also have "\<dots> = (\<Sum>mj\<leftarrow>enumerate 0 ?mo. \<Sum>a\<leftarrow>[0..<n_atoms]. weight_of c i (fst mj) a * ?t (snd mj))"
    by (rule sum_list_swap)
  also have "\<dots> = (\<Sum>mj\<leftarrow>enumerate 0 ?mo. ?t (snd mj))"
  proof (rule arg_cong [where f = sum_list], rule map_cong [OF refl])
    fix mj assume "mj \<in> set (enumerate 0 ?mo)"
    then have m: "fst mj < length ?mo" by (auto simp add: in_set_enumerate_eq)
    have "(\<Sum>a\<leftarrow>[0..<n_atoms]. weight_of c i (fst mj) a * ?t (snd mj))
          = (\<Sum>a\<leftarrow>[0..<n_atoms]. weight_of c i (fst mj) a) * ?t (snd mj)"
      by (simp add: sum_list_mult_const)
    then show "(\<Sum>a\<leftarrow>[0..<n_atoms]. weight_of c i (fst mj) a * ?t (snd mj)) = ?t (snd mj)"
      using weight_row_sum [OF ok wc m] by simp
  qed
  also have "\<dots> = (\<Sum>j\<leftarrow>?mo. ?t j)"
  proof -
    have "map (\<lambda>mj. ?t (snd mj)) (enumerate 0 ?mo) = map ?t (map snd (enumerate 0 ?mo))"
      by (simp only: map_map comp_def)
    also have "\<dots> = map ?t ?mo" by (simp only: map_snd_enumerate)
    finally show ?thesis by simp
  qed
  also have "\<dots> = (\<Sum>j\<in>set ?mo. ?t j)"
    using ol by (simp add: occupied_listed_def sum_list_distinct_conv_sum_set)
  also have "\<dots> = (\<Sum>p = 0..<length ?occ. ?t p)"
  proof (rule sum.mono_neutral_left)
    show "finite {0..<length ?occ}" by simp
    show "set ?mo \<subseteq> {0..<length ?occ}"
      using ol by (auto simp add: occupied_listed_def list_all_iff)
    show "\<forall>p\<in>{0..<length ?occ} - set ?mo. ?t p = 0"
    proof
      fix p assume p: "p \<in> {0..<length ?occ} - set ?mo"
      then have "?occ ! p = 0"
        using ol by (auto simp add: occupied_listed_def list_all_iff)
      then show "?t p = 0"
        using contract_orb_unoccupied [OF N C, of p] by (simp add: orb_density_def)
    qed
  qed
  also have "\<dots> = contract_ij_ij N (make_rdm1 ?C ?occ)"
  proof -
    have Cm: "is_mat nao (length ?occ) ?C"
      using ol C by (simp add: occupied_listed_def is_mat_def)
    show ?thesis
      using contract_make_rdm1 [OF N Cm refl] by (simp add: orb_density_def)
  qed
  finally show ?thesis using D by simp
qed

lemma sum_nuc_att:
  assumes ok: "atom_ctx_ok c n_atoms nao" and built: "built_by_prop_tot c nao"
    and ol: "occupied_listed c 0" "occupied_listed c 1"
    and wc: "weights_complete c 0" "weights_complete c 1"
  shows "(\<Sum>a\<leftarrow>[0..<n_atoms]. nuc_att_of c a)
         = contract_ij_ij (k_nuc c) (sum_spin (k_rdm1_tot c))"
proof -
  let ?N = "k_nuc c" and ?D0 = "fst (k_rdm1_tot c)" and ?D1 = "snd (k_rdm1_tot c)"
  let ?DT = "sum_spin (k_rdm1_tot c)"
  from ok have s: "spin_ok c n_atoms 0" "spin_ok c n_atoms 1"
    and C: "length (spin_get (k_mo_coeff c) 0) = nao" "length (spin_get (k_mo_coeff c) 1) = nao"
    and Dm: "is_mat nao nao (spin_get (k_rdm1_tot c) 0)" "is_mat nao nao (spin_get (k_rdm1_tot c) 1)"
    and subs: "list_all (is_mat nao nao) (k_sub_nuc c)" and ls: "length (k_sub_nuc c) = n_atoms"
    by (simp_all add: atom_ctx_ok_def spin_get_def)
  from built have D: "spin_get (k_rdm1_tot c) 0
                        = make_rdm1 (spin_get (k_mo_coeff c) 0) (spin_get (k_mo_occ c) 0)"
      "spin_get (k_rdm1_tot c) 1
                        = make_rdm1 (spin_get (k_mo_coeff c) 1) (spin_get (k_mo_occ c) 1)"
    and nuc: "?N = sum_axis0 nao nao (k_sub_nuc c)"
    by (simp_all add: built_by_prop_tot_def spin_get_def)
  have N: "is_mat nao nao ?N"
    using contract_sum_axis0 [OF subs] nuc by simp
  have tot: "contract_ij_ij ?N ?DT = contract_ij_ij ?N ?D0 + contract_ij_ij ?N ?D1"
    using Dm by (simp add: sum_spin_def spin_get_def contract_madd_right)
  have atom: "contract_ij_ij ?N (atom_dens c a)
              = contract_ij_ij ?N (atom_density c a 0) + contract_ij_ij ?N (atom_density c a 1)"
    for a
  proof -
    have m0: "is_mat nao nao (atom_density c a 0)"
      using atom_density_trace [OF C(1) Dm(1), of a] by blast
    have m1: "is_mat nao nao (atom_density c a 1)"
      using atom_density_trace [OF C(2) Dm(2), of a] by blast
    show ?thesis
      using contract_madd_right [OF m0 m1, of ?N] by (simp add: atom_dens_def sum_spin_def)
  qed
  have own: "(\<Sum>a\<leftarrow>[0..<n_atoms]. contract_ij_ij (k_sub_nuc c ! a) ?DT) = contract_ij_ij ?N ?DT"
  proof -
    have "map (\<lambda>a. contract_ij_ij (k_sub_nuc c ! a) ?DT) [0..<n_atoms]
          = map (\<lambda>M. contract_ij_ij M ?DT) (k_sub_nuc c)"
      using ls by (intro nth_equalityI) simp_all
    then show ?thesis using contract_sum_axis0 [OF subs, of ?DT] nuc by simp
  qed
  have "(\<Sum>a\<leftarrow>[0..<n_atoms]. nuc_att_of c a)
        = (\<Sum>a\<leftarrow>[0..<n_atoms]. (1 / 2) * contract_ij_ij ?N (atom_density c a 0)
                                 + (1 / 2) * contract_ij_ij ?N (atom_density c a 1)
                                 + (1 / 2) * contract_ij_ij (k_sub_nuc c ! a) ?DT)"
    by (simp add: nuc_att_of_def atom algebra_simps)
  also have "\<dots> = (1 / 2) * (\<Sum>a\<leftarrow>[0..<n_atoms]. contract_ij_ij ?N (atom_density c a 0))
                  + (1 / 2) * (\<Sum>a\<leftarrow>[0..<n_atoms]. contract_ij_ij ?N (atom_density c a 1))
                  + (1 / 2) * (\<Sum>a\<leftarrow>[0..<n_atoms]. contract_ij_ij (k_sub_nuc c ! a) ?DT)"
    by (simp only: sum_list_addf sum_list_const_mult)
  also have "\<dots> = (1 / 2) * contract_ij_ij ?N ?D0 + (1 / 2) * contract_ij_ij ?N ?D1
                  + (1 / 2) * contract_ij_ij ?N ?DT"
    using sum_atoms_density [OF s(1) wc(1) ol(1) C(1) D(1) N]
      sum_atoms_density [OF s(2) wc(2) ol(2) C(2) D(2) N] own
    by (simp add: spin_get_def)
  also have "\<dots> = contract_ij_ij ?N ?DT"
    by (simp add: tot field_simps)
  finally show ?thesis .
qed

lemmas example_evals = example_ctx_def example_weights_def atom_ctx_ok_def is_mat_def spin_ok_def
  spin_orbs_def spin_get_def built_by_prop_tot_def occupied_listed_def weights_complete_def
  sum_axis0_def zeros_def madd_def vadd_def make_rdm1_def numeral_2_eq_2

lemma example_ctx_ok:
  "atom_ctx_ok example_ctx 2 2 \<and> k_prop_type example_ctx = ''energy''
   \<and> built_by_prop_tot example_ctx 2 \<and> occupied_listed example_ctx 0 \<and> occupied_listed example_ctx 1
   \<and> weights_complete example_ctx 0 \<and> weights_complete example_ctx 1"
  by (simp add: example_evals)

lemma example_nuc_att:
  "nuc_att_of example_ctx 0 = - 10 \<and> nuc_att_of example_ctx 1 = - 10
   \<and> contract_ij_ij (k_nuc example_ctx) (sum_spin (k_rdm1_tot example_ctx)) = - 20"
  by (simp add: nuc_att_of_def atom_dens_def atom_density_def orb_density_def weight_of_def
      sum_spin_def contract_ij_ij_def vdot_def mscale_def zeros_like_def enumerate_eq_zip
      example_evals)

text \<open>
  C1. In energy mode, on inputs it can index, \<open>prop_atom\<close> returns exactly when the
  exchange-correlation part returns (always without a density functional), and the
  nuclear-attraction component it returns for atom \<open>a\<close> is one half of the trace of the
  total nuclear-attraction operator with the atom's weight-restricted density plus one
  half of the trace of the atom's own operator with the total density. When the weights of
  every occupied orbital sum to one over the atoms, these components sum over the atoms to
  the trace of the total operator with the total density.
\<close>

theorem atom_nuc_att:
  assumes ok: "atom_ctx_ok c n_atoms nao" and en: "k_prop_type c = ''energy''"
  shows "(\<forall>a<n_atoms.
            isl (prop_atom c a) = isl (xc_value c (atom_dens c a))
          \<and> (k_dft c = None \<longrightarrow> \<not> isl (prop_atom c a))
          \<and> (\<forall>r. prop_atom c a = Inr r \<longrightarrow> r ''nuc_att'' = Some (Sc (nuc_att_of c a))))
       \<and> (built_by_prop_tot c nao \<and> occupied_listed c 0 \<and> occupied_listed c 1
            \<and> weights_complete c 0 \<and> weights_complete c 1 \<longrightarrow>
          (\<Sum>a\<leftarrow>[0..<n_atoms]. nuc_att_of c a)
            = contract_ij_ij (k_nuc c) (sum_spin (k_rdm1_tot c)))"
proof (intro conjI allI impI)
  fix a assume a: "a < n_atoms"
  note e = prop_atom_energy [OF ok en a]
  show "isl (prop_atom c a) = isl (xc_value c (atom_dens c a))"
    by (cases "xc_value c (atom_dens c a)") (simp_all add: e bind_res_def)
  show "\<not> isl (prop_atom c a)" if "k_dft c = None"
    using that by (simp add: e xc_value_def bind_res_def)
  show "r ''nuc_att'' = Some (Sc (nuc_att_of c a))" if "prop_atom c a = Inr r" for r
    using that unfolding e
    by (cases "xc_value c (atom_dens c a)") (auto simp add: bind_res_def atom_result_def)
next
  assume "built_by_prop_tot c nao \<and> occupied_listed c 0 \<and> occupied_listed c 1
            \<and> weights_complete c 0 \<and> weights_complete c 1"
  then show "(\<Sum>a\<leftarrow>[0..<n_atoms]. nuc_att_of c a)
            = contract_ij_ij (k_nuc c) (sum_spin (k_rdm1_tot c))"
    using sum_nuc_att [OF ok] by simp
qed

theorem atom_nuc_att_witness:
  "atom_ctx_ok example_ctx 2 2 \<and> k_prop_type example_ctx = ''energy''
   \<and> built_by_prop_tot example_ctx 2 \<and> occupied_listed example_ctx 0 \<and> occupied_listed example_ctx 1
   \<and> weights_complete example_ctx 0 \<and> weights_complete example_ctx 1
   \<and> \<not> isl (prop_atom example_ctx 0) \<and> \<not> isl (prop_atom example_ctx 1)
   \<and> nuc_att_of example_ctx 0 = - 10 \<and> nuc_att_of example_ctx 1 = - 10
   \<and> (\<Sum>a\<leftarrow>[0..<2]. nuc_att_of example_ctx a) = - 20
   \<and> contract_ij_ij (k_nuc example_ctx) (sum_spin (k_rdm1_tot example_ctx)) = - 20"
proof -
  have d: "k_dft example_ctx = None" by (simp add: example_ctx_def)
  note t = atom_nuc_att [of example_ctx 2 2]
  have r: "\<forall>a<2. \<not> isl (prop_atom example_ctx a)"
    using t example_ctx_ok d by blast
  have s: "(\<Sum>a\<leftarrow>[0..<2]. nuc_att_of example_ctx a)
           = contract_ij_ij (k_nuc example_ctx) (sum_spin (k_rdm1_tot example_ctx))"
    using t example_ctx_ok by blast
  from r have "\<not> isl (prop_atom example_ctx 0)" "\<not> isl (prop_atom example_ctx 1)"
    by simp_all
  then show ?thesis
    using s example_ctx_ok example_nuc_att by simp
qed


subsection \<open>An atom without weight\<close>

lemma allzero_madd: "allzero A \<Longrightarrow> allzero B \<Longrightarrow> allzero (madd A B)"
  unfolding allzero_def madd_def vadd_def list_all_iff
  by (auto elim!: in_set_zipE) (metis add_0)

lemma allzero_mscale0: "allzero (mscale 0 X)"
  by (simp add: allzero_def mscale_def list_all_iff)

lemma allzero_foldl:
  "allzero d0 \<Longrightarrow> list_all (\<lambda>mj. allzero (G mj)) ps \<Longrightarrow>
   allzero (foldl (\<lambda>d mj. madd d (G mj)) d0 ps)"
  by (induction ps arbitrary: d0) (simp_all add: allzero_madd)

lemma zero_weight_of:
  assumes ok: "spin_ok c n_atoms i" and z: "zero_weight c a"
    and m: "m < length (spin_orbs c i)"
  shows "weight_of c i m a = 0"
proof -
  obtain w where w: "k_weights c = Some w" and lw: "length (spin_get w i) = length (spin_orbs c i)"
    using ok by (auto simp add: spin_ok_def split: option.splits)
  have "list_all (\<lambda>row. row ! a = 0) (spin_get w i)"
    using z w by (simp add: zero_weight_def spin_get_def)
  then show ?thesis using w lw m by (simp add: weight_of_def list_all_length)
qed

lemma atom_density_zero:
  assumes ok: "spin_ok c n_atoms i" and z: "zero_weight c a"
  shows "allzero (atom_density c a i)"
proof -
  let ?G = "\<lambda>mj. mscale (weight_of c i (fst mj) a) (orb_density c i (snd mj))"
  have eq: "atom_density c a i
            = foldl (\<lambda>d mj. madd d (?G mj)) (zeros_like (spin_get (k_rdm1_tot c) i))
                (enumerate 0 (spin_orbs c i))"
    by (simp add: atom_density_def split_def)
  have "list_all (\<lambda>mj. allzero (?G mj)) (enumerate 0 (spin_orbs c i))"
    unfolding list_all_iff
  proof
    fix mj assume "mj \<in> set (enumerate 0 (spin_orbs c i))"
    then have "fst mj < length (spin_orbs c i)" by (auto simp add: in_set_enumerate_eq)
    then show "allzero (?G mj)"
      using zero_weight_of [OF ok z] by (simp add: allzero_mscale0)
  qed
  then show ?thesis
    unfolding eq using allzero_zeros_like by (intro allzero_foldl) (simp_all add: allzero_def)
qed

lemma atom_dens_zero:
  assumes "spin_ok c n_atoms 0" and "spin_ok c n_atoms 1" and "zero_weight c a"
  shows "allzero (atom_dens c a)"
  using atom_density_zero [OF assms(1,3)] atom_density_zero [OF assms(2,3)]
  by (simp add: atom_dens_def sum_spin_def allzero_madd)

lemma contract_allzero: "allzero D \<Longrightarrow> contract_ij_ij N D = 0"
  by (simp add: allzero_def contract_allzero_right)

lemma allzero_transpose:
  assumes "allzero xs"
  shows "allzero (transpose xs)"
  unfolding allzero_def list_all_iff
proof (intro ballI)
  fix cb x assume cb: "cb \<in> set (transpose xs)" and x: "x \<in> set cb"
  from cb obtain i where i: "i < length (transpose xs)" and e: "cb = transpose xs ! i"
    by (auto simp add: in_set_conv_nth)
  have "cb = map (\<lambda>ys. ys ! i) (filter (\<lambda>ys. i < length ys) xs)"
    using nth_transpose [OF i] e by simp
  with x obtain ys where "ys \<in> set xs" "i < length ys" "x = ys ! i" by auto
  then show "x = 0"
    using assms by (auto simp add: allzero_def list_all_iff)
qed

lemma allzero_ik_kj: "allzero d \<Longrightarrow> allzero (contract_ik_kj a d)"
  using allzero_transpose [of d]
  by (auto simp add: allzero_def contract_ik_kj_def list_all_iff intro!: vdot_zero_right)

lemma zero_pi_pi_right: "allzero c0 \<Longrightarrow> list_all (\<lambda>x. x = 0) (contract_pi_pi a c0)"
  unfolding contract_pi_pi_def allzero_def list_all_iff
  by (auto elim!: in_set_zipE intro!: vdot_zero_right simp add: list_all_iff)

lemma vdot_zero_left: "list_all (\<lambda>x. x = 0) u \<Longrightarrow> vdot u a = 0"
  using vdot_zero_right [of u a] by (simp add: vdot_comm [of u a])

lemma zero_pi_pi_left: "allzero c0 \<Longrightarrow> list_all (\<lambda>x. x = 0) (contract_pi_pi c0 a)"
  unfolding contract_pi_pi_def allzero_def list_all_iff
  by (auto elim!: in_set_zipE intro!: vdot_zero_left simp add: list_all_iff)

lemma contract_i_i_i_zero: "list_all (\<lambda>x. x = 0) r \<Longrightarrow> contract_i_i_i eps r w = 0"
  unfolding contract_i_i_i_def
proof (induction eps arbitrary: r w)
  case Nil
  then show ?case by simp
next
  case (Cons e eps)
  then show ?case by (cases r; cases w) simp_all
qed

lemma e_xc_zero:
  "list_all (\<lambda>x. x = 0) r \<Longrightarrow> e_xc eps w (Rho1 r) = Inr 0"
  "list_all (\<lambda>x. x = 0) r \<Longrightarrow> e_xc eps w (RhoN (r # rest)) = Inr 0"
  by (simp_all add: e_xc_def nth_res_def bind_res_def contract_i_i_i_zero)

lemma make_rho_zero:
  assumes z: "allzero d" and r: "make_rho ao (Rdm2 d) ref xc = Inr out"
  shows "e_xc_out eps w (snd (snd out)) = Inr 0"
proof -
  have c0: "allzero (contract_ik_kj a d)" for a using z by (rule allzero_ik_kj)
  note zz = zero_pi_pi_left [OF c0] zero_pi_pi_right [OF c0]
  show ?thesis
    using r zz
    by (auto simp add: make_rho_def make_rho_interm1_def make_rho_interm2_def bind_res_def
        e_xc_out_def e_xc_zero Let_def
        split: if_splits ao_arr.splits sum.splits option.splits prod.splits)
qed

lemma xc_value_zero:
  "allzero d \<Longrightarrow> xc_value c d = Inr e \<Longrightarrow> e = 0"
  by (auto simp add: xc_value_def bind_res_def make_rho_zero
      split: option.splits sum.splits)

lemma interm1_no_zde: "make_rho_interm1 ao d xc \<noteq> Inl ZeroDivisionError"
  by (auto simp add: make_rho_interm1_def bind_res_def nth_res_def
      split: ao_arr.splits sum.splits if_splits)

lemma interm2_no_zde: "make_rho_interm2 c0 c1 ao xc \<noteq> Inl ZeroDivisionError"
  by (auto simp add: make_rho_interm2_def bind_res_def nth_res_def Let_def
      split: ao_arr.splits sum.splits if_splits option.splits)

lemma ref_eq_str_no_zde: "ref_eq_str r s \<noteq> Inl ZeroDivisionError"
  by (simp add: ref_eq_str_def array_eq_str_def ambiguous_def
      split: pyval.split numpy_release.split)

lemma make_rho_no_zde: "make_rho ao rd ref xc \<noteq> Inl ZeroDivisionError"
  using interm1_no_zde interm2_no_zde ref_eq_str_no_zde
  by (auto simp add: make_rho_def bind_res_def split: rdm_arg.splits sum.splits prod.splits)

lemma e_xc_out_no_zde: "e_xc_out eps w rho \<noteq> Inl ZeroDivisionError"
  by (auto simp add: e_xc_out_def e_xc_def bind_res_def nth_res_def
      split: rho_out.splits rho_arr.splits sum.splits if_splits)

lemma xc_value_no_zde: "xc_value c d \<noteq> Inl ZeroDivisionError"
  using make_rho_no_zde e_xc_out_no_zde
  by (auto simp add: xc_value_def bind_res_def split: option.splits sum.splits)

lemma example_zero_ctx_ok:
  "atom_ctx_ok example_zero_ctx 2 2 \<and> k_prop_type example_zero_ctx = ''energy''
   \<and> zero_weight example_zero_ctx 1 \<and> k_dft example_zero_ctx = None"
  by (simp add: example_zero_ctx_def zero_weight_def example_evals)

text \<open>
  C8, as the code has it. The claim is that an atom whose weights are all zero gets a
  zero contribution and no division error. There is no division in \<open>prop_atom\<close>, and the
  terms that are traces with the atom's density vanish; but the nuclear-attraction
  component also holds one half of the trace of the atom's own operator with the total
  density, the solvent component the atom's share of the solvation energy, and the
  structural component the atom's nuclear term. In the example with the whole orbital on
  the first atom, the second atom gets a nuclear attraction of \<open>-5\<close>.

  Amended: in energy mode, for an atom whose weights are all zero, \<open>prop_atom\<close> raises no
  division error and returns exactly when the exchange-correlation part returns; the
  Coulomb, exchange, kinetic and exchange-correlation components are zero, the
  nuclear-attraction component is one half of the trace of the atom's own operator with
  the total density, the solvent component is the atom's share of the solvation energy,
  the electronic total is the sum of these two, and the structural component is the
  atom's nuclear term.
\<close>

theorem zero_weight_counterexample:
  "zero_weight example_zero_ctx 1
   \<and> prop_atom example_zero_ctx 1 = Inr (atom_result example_zero_ctx 1 0)
   \<and> atom_result example_zero_ctx 1 0 ''nuc_att'' = Some (Sc (- 5))
   \<and> atom_result example_zero_ctx 1 0 ''el'' = Some (Sc (- 5))
   \<and> atom_result example_zero_ctx 1 0 ''struct'' = Some (Sc (1 / 4))"
proof -
  have ok: "atom_ctx_ok example_zero_ctx 2 2" and en: "k_prop_type example_zero_ctx = ''energy''"
    and d: "k_dft example_zero_ctx = None"
    using example_zero_ctx_ok by simp_all
  have p: "prop_atom example_zero_ctx 1 = Inr (atom_result example_zero_ctx 1 0)"
    using prop_atom_energy [OF ok en, of 1] d by (simp add: xc_value_def bind_res_def)
  have v: "atom_result example_zero_ctx 1 0 ''nuc_att'' = Some (Sc (- 5))
           \<and> atom_result example_zero_ctx 1 0 ''el'' = Some (Sc (- 5))
           \<and> atom_result example_zero_ctx 1 0 ''struct'' = Some (Sc (1 / 4))"
    by (simp add: atom_result_def coul_of_def exch_of_def kin_of_def solvent_of_def
        nuc_att_of_def atom_dens_def atom_density_def orb_density_def weight_of_def
        sum_spin_def contract_ij_ij_def vdot_def mscale_def zeros_like_def enumerate_eq_zip
        example_zero_ctx_def example_evals)
  from p v example_zero_ctx_ok show ?thesis by simp
qed

theorem zero_weight_atom:
  assumes ok: "atom_ctx_ok c n_atoms nao" and en: "k_prop_type c = ''energy''"
    and a: "a < n_atoms" and z: "zero_weight c a"
  shows "prop_atom c a \<noteq> Inl ZeroDivisionError
       \<and> isl (prop_atom c a) = isl (xc_value c (atom_dens c a))
       \<and> (k_dft c = None \<longrightarrow> \<not> isl (prop_atom c a))
       \<and> (\<forall>r. prop_atom c a = Inr r \<longrightarrow>
             r ''coul'' = Some (Sc 0) \<and> r ''exch'' = Some (Sc 0) \<and> r ''kin'' = Some (Sc 0)
           \<and> r ''xc'' = Some (Sc 0)
           \<and> r ''nuc_att''
               = Some (Sc (contract_ij_ij (k_sub_nuc c ! a) (sum_spin (k_rdm1_tot c)) * (1 / 2)))
           \<and> r ''solvent'' = Some (Sc (case k_e_solvent c of None \<Rightarrow> 0 | Some es \<Rightarrow> es ! a))
           \<and> r ''el''
               = Some (Sc (contract_ij_ij (k_sub_nuc c ! a) (sum_spin (k_rdm1_tot c)) * (1 / 2)
                           + (case k_e_solvent c of None \<Rightarrow> 0 | Some es \<Rightarrow> es ! a)))
           \<and> (case k_prop_nuc_rep c of None \<Rightarrow> False
               | Some p \<Rightarrow> r ''struct'' = Some (val_add (Sc 0) (p ! a))))"
proof -
  from ok have s: "spin_ok c n_atoms 0" "spin_ok c n_atoms 1"
    by (simp_all add: atom_ctx_ok_def)
  obtain p where p: "k_prop_nuc_rep c = Some p"
    using ok by (auto simp add: atom_ctx_ok_def split: option.splits)
  note e = prop_atom_energy [OF ok en a]
  note z0 = atom_density_zero [OF s(1) z] and z1 = atom_density_zero [OF s(2) z]
    and zd = atom_dens_zero [OF s z]
  have comps: "coul_of c a = 0" "exch_of c a = 0" "kin_of c a = 0"
    "nuc_att_of c a = contract_ij_ij (k_sub_nuc c ! a) (sum_spin (k_rdm1_tot c)) * (1 / 2)"
    "solvent_of c a = (case k_e_solvent c of None \<Rightarrow> 0 | Some es \<Rightarrow> es ! a)"
    using z0 z1 zd
    by (simp_all add: coul_of_def exch_of_def kin_of_def nuc_att_of_def solvent_of_def
        contract_allzero split: option.splits)
  show ?thesis
  proof (cases "xc_value c (atom_dens c a)")
    case (Inl err)
    then have "err \<noteq> ZeroDivisionError" using xc_value_no_zde [of c "atom_dens c a"] by auto
    then show ?thesis using Inl by (simp add: e bind_res_def xc_value_def split: option.splits)
  next
    case (Inr exc)
    then have "exc = 0" using xc_value_zero [OF zd] by simp
    then show ?thesis
      using Inr p by (simp add: e bind_res_def atom_result_def comps)
  qed
qed

theorem zero_weight_atom_witness:
  "atom_ctx_ok example_zero_ctx 2 2 \<and> k_prop_type example_zero_ctx = ''energy''
   \<and> zero_weight example_zero_ctx 1
   \<and> prop_atom example_zero_ctx 1 \<noteq> Inl ZeroDivisionError
   \<and> \<not> isl (prop_atom example_zero_ctx 1)"
proof -
  have ok: "atom_ctx_ok example_zero_ctx 2 2" and en: "k_prop_type example_zero_ctx = ''energy''"
    and z: "zero_weight example_zero_ctx 1" and d: "k_dft example_zero_ctx = None"
    using example_zero_ctx_ok by simp_all
  have lt: "(1 :: nat) < 2" by simp
  note t = zero_weight_atom [OF ok en lt z]
  have "prop_atom example_zero_ctx 1 \<noteq> Inl ZeroDivisionError"
    "\<not> isl (prop_atom example_zero_ctx 1)"
    using t d by blast+
  then show ?thesis using ok en z by simp
qed

subsection \<open>The nuclear attraction of the EDA kernel\<close>

lemma rows_ok:
  "list_all (\<lambda>k. k < length A) select \<Longrightarrow> rows A select = Inr (sel_rows A select)"
  unfolding rows_def sel_rows_def
  by (induction select) (simp_all add: nth_res_def bind_res_def)

lemma select_in_range: "list_all (\<lambda>k. k < length labels) (select_aos labels a)"
  by (simp add: select_aos_def list_all_iff)

lemma eda_xc_eq:
  "res ''xc'' = Some (Sc x) \<Longrightarrow>
   eda_xc c select res = bind_res (eda_xc_value c select) (\<lambda>e. Inr (res(''xc'' \<mapsto> Sc (x + e))))"
  by (auto simp add: eda_xc_def eda_xc_value_def bind_res_def dict_get_def fun_upd_idem
      split: option.splits sum.splits prod.splits)

lemma is_mat_madd_len: "is_mat n m A \<Longrightarrow> is_mat n m B \<Longrightarrow> length (madd A B) = n"
  using is_mat_madd [of n m A B] by (simp add: is_mat_def)

lemma eda_spin_energy:
  assumes "rows (sum_spin (k_vj c)) select = Inr vj_sel"
    and "rows (spin_get (k_rdm1_tot c) i) select = Inr d_sel"
    and "rows (spin_get (k_vk c) i) select = Inr vk_sel"
    and "res ''coul'' = Some (Sc x)" and "res ''exch'' = Some (Sc y)"
  shows "eda_spin c select i res =
           Inr (res(''coul'' \<mapsto> Sc (x + contract_ij_ij vj_sel d_sel * (1 / 2)),
                    ''exch'' \<mapsto> Sc (y - contract_ij_ij vk_sel d_sel * (1 / 2))))"
  using assms
  by (simp add: eda_spin_def dict_get_def bind_res_def trace_def val_sub_def)

lemma prop_eda_energy:
  assumes ok: "eda_ctx_ok c n_atoms nao" and en: "k_prop_type c = ''energy''" and a: "a < n_atoms"
  shows "prop_eda c a = bind_res (eda_xc_value c (eda_select c a)) (\<lambda>exc. Inr (eda_result c a exc))"
proof -
  let ?sel = "eda_select c a"
  have sel: "list_all (\<lambda>k. k < nao) ?sel"
    using ok select_in_range [of "k_ao_labels c" a] by (simp add: eda_ctx_ok_def eda_select_def)
  have len: "length (sum_spin (k_vj c)) = nao" "length (fst (k_rdm1_tot c)) = nao"
    "length (snd (k_rdm1_tot c)) = nao" "length (fst (k_vk c)) = nao" "length (snd (k_vk c)) = nao"
    "length (k_kin c) = nao" "length (k_nuc c) = nao" "length (sum_spin (k_rdm1_tot c)) = nao"
  proof -
    have m: "is_mat nao nao (fst (k_rdm1_tot c))" "is_mat nao nao (snd (k_rdm1_tot c))"
      "is_mat nao nao (fst (k_vj c))" "is_mat nao nao (snd (k_vj c))"
      "is_mat nao nao (fst (k_vk c))" "is_mat nao nao (snd (k_vk c))"
      "is_mat nao nao (k_kin c)" "is_mat nao nao (k_nuc c)"
      using ok by (simp_all add: eda_ctx_ok_def)
    show "length (sum_spin (k_vj c)) = nao" "length (sum_spin (k_rdm1_tot c)) = nao"
      using m by (simp_all add: sum_spin_def is_mat_madd_len)
    show "length (fst (k_rdm1_tot c)) = nao"
      "length (snd (k_rdm1_tot c)) = nao" "length (fst (k_vk c)) = nao" "length (snd (k_vk c)) = nao"
      "length (k_kin c) = nao" "length (k_nuc c) = nao"
      using m by (simp_all add: is_mat_def)
  qed
  have r: "rows (sum_spin (k_vj c)) ?sel = Inr (sel_rows (sum_spin (k_vj c)) ?sel)"
    "rows (fst (k_rdm1_tot c)) ?sel = Inr (sel_rows (fst (k_rdm1_tot c)) ?sel)"
    "rows (snd (k_rdm1_tot c)) ?sel = Inr (sel_rows (snd (k_rdm1_tot c)) ?sel)"
    "rows (fst (k_vk c)) ?sel = Inr (sel_rows (fst (k_vk c)) ?sel)"
    "rows (snd (k_vk c)) ?sel = Inr (sel_rows (snd (k_vk c)) ?sel)"
    "rows (k_kin c) ?sel = Inr (sel_rows (k_kin c) ?sel)"
    "rows (k_nuc c) ?sel = Inr (sel_rows (k_nuc c) ?sel)"
    "rows (sum_spin (k_rdm1_tot c)) ?sel = Inr (sel_rows (sum_spin (k_rdm1_tot c)) ?sel)"
    using sel len by (simp_all add: rows_ok)
  have mm: "case k_mm_pot c of None \<Rightarrow> True
            | Some mm_pot \<Rightarrow> rows mm_pot ?sel = Inr (sel_rows mm_pot ?sel)"
    using ok sel by (auto simp add: eda_ctx_ok_def is_mat_def rows_ok split: option.splits)
  obtain p where p: "k_prop_nuc_rep c = Some p" "length p = n_atoms"
    using ok by (auto simp add: eda_ctx_ok_def split: option.splits)
  have sub: "a < length (k_sub_nuc c)" using ok a by (simp add: eda_ctx_ok_def)
  have es: "case k_e_solvent c of None \<Rightarrow> True | Some es \<Rightarrow> a < length es"
    using ok a by (auto simp add: eda_ctx_ok_def split: option.splits)
  let ?res0 = "init_res (k_prop_type c)"
  let ?res1 = "?res0(''coul'' \<mapsto> Sc (0 + contract_ij_ij (sel_rows (sum_spin (k_vj c)) ?sel)
                                       (sel_rows (fst (k_rdm1_tot c)) ?sel) * (1 / 2)),
                     ''exch'' \<mapsto> Sc (0 - contract_ij_ij (sel_rows (fst (k_vk c)) ?sel)
                                       (sel_rows (fst (k_rdm1_tot c)) ?sel) * (1 / 2)))"
  have st0: "eda_spin c ?sel 0 ?res0 = Inr ?res1"
    using r by (intro eda_spin_energy)
      (simp_all add: spin_get_def init_res_def en dict_init_def COMP_KEYS_def)
  let ?res2 = "?res1(''coul'' \<mapsto> Sc (eda_coul_of c a), ''exch'' \<mapsto> Sc (eda_exch_of c a))"
  have st1: "eda_spin c ?sel 1 ?res1 = Inr ?res2"
    unfolding eda_coul_of_def eda_exch_of_def
    using r by (intro eda_spin_energy) (simp_all add: spin_get_def)
  show ?thesis
  proof (cases "k_mm_pot c")
    case None
    show ?thesis
      unfolding prop_eda_def Let_def eda_select_def [symmetric] st0 bind_res_Inr st1 r
      using sub es p a None
      apply (simp add: en dict_get_def bind_res_Inr nth_res_def trace_def
          init_res_def dict_init_def COMP_KEYS_def eda_xc_eq
          add_solvent_def split: option.split)
      apply (cases "eda_xc_value c (eda_select c a)")
       apply (simp_all add: bind_res_Inr bind_res_Inl sum_el_def COMP_KEYS_def dict_get_def
          add_struct_def nth_res_def eda_result_def eda_kin_of_def eda_nuc_att_of_def
          eda_solvent_of_def)
      apply (auto simp add: fun_eq_iff)
      done
  next
    case (Some mm_pot)
    with mm have mmr: "rows mm_pot (eda_select c a) = Inr (sel_rows mm_pot (eda_select c a))"
      by simp
    show ?thesis
      unfolding prop_eda_def Let_def eda_select_def [symmetric] st0 bind_res_Inr st1 r
      using sub es p a Some mmr
      apply (simp add: en dict_get_def bind_res_Inr nth_res_def trace_def
          init_res_def dict_init_def COMP_KEYS_def eda_xc_eq
          add_solvent_def split: option.split)
      apply (cases "eda_xc_value c (eda_select c a)")
       apply (simp_all add: bind_res_Inr bind_res_Inl sum_el_def COMP_KEYS_def dict_get_def
          add_struct_def nth_res_def eda_result_def eda_kin_of_def eda_nuc_att_of_def
          eda_solvent_of_def)
      apply (auto simp add: fun_eq_iff)
      done
  qed
qed

lemma contract_rows:
  "length A = n \<Longrightarrow> length B = n \<Longrightarrow>
   contract_ij_ij A B = (\<Sum>i\<leftarrow>[0..<n]. vdot (A ! i) (B ! i))"
  by (simp add: contract_ij_ij_def sum_list_map2_nth interv_sum_list_conv_sum_set_nat)

lemma contract_sel_rows:
  "contract_ij_ij (sel_rows A select) (sel_rows B select) = (\<Sum>i\<leftarrow>select. vdot (A ! i) (B ! i))"
  unfolding contract_ij_ij_def sel_rows_def
  by (induction select) simp_all

lemma sum_over_labels:
  assumes "list_all (\<lambda>l. l < n) labels"
  shows "(\<Sum>a\<leftarrow>[0..<n]. \<Sum>i\<leftarrow>select_aos labels a. (f i :: real))
         = (\<Sum>i\<leftarrow>[0..<length labels]. f i)"
proof -
  have "(\<Sum>a\<leftarrow>[0..<n]. \<Sum>i\<leftarrow>select_aos labels a. f i)
        = (\<Sum>a\<leftarrow>[0..<n]. \<Sum>i\<leftarrow>[0..<length labels]. if labels ! i = a then f i else 0)"
    by (simp add: select_aos_def sum_list_map_filter')
  also have "\<dots> = (\<Sum>i\<leftarrow>[0..<length labels]. \<Sum>a\<leftarrow>[0..<n]. if labels ! i = a then f i else 0)"
    by (rule sum_list_swap)
  also have "\<dots> = (\<Sum>i\<leftarrow>[0..<length labels]. f i)"
  proof (rule arg_cong [where f = sum_list], rule map_cong [OF refl])
    fix i assume "i \<in> set [0..<length labels]"
    then have "labels ! i < n" using assms by (simp add: list_all_length)
    then show "(\<Sum>a\<leftarrow>[0..<n]. if labels ! i = a then f i else 0) = f i"
      by (simp add: interv_sum_list_conv_sum_set_nat)
  qed
  finally show ?thesis .
qed

lemma sum_list_nth:
  "(\<Sum>a\<leftarrow>[0..<length xs]. (f (xs ! a) :: real)) = (\<Sum>x\<leftarrow>xs. f x)"
proof -
  have "map (\<lambda>a. f (xs ! a)) [0..<length xs] = map f (map (\<lambda>a. xs ! a) [0..<length xs])"
    by (simp add: comp_def)
  then show ?thesis by (simp only: map_nth)
qed

lemma sum_list_half: "(\<Sum>x\<leftarrow>xs. f x / (2 :: real)) = (\<Sum>x\<leftarrow>xs. f x) / 2"
  by (induction xs) (simp_all add: add_divide_distrib)

lemma eda_sum_nuc_att:
  assumes ok: "eda_ctx_ok c n_atoms nao"
    and nuc: "k_nuc c = sum_axis0 nao nao (k_sub_nuc c)"
    and lab: "list_all (\<lambda>l. l < n_atoms) (k_ao_labels c)"
  shows "(\<Sum>a\<leftarrow>[0..<n_atoms]. eda_nuc_att_of c a)
         = contract_ij_ij (k_nuc c) (sum_spin (k_rdm1_tot c))"
proof -
  let ?D = "sum_spin (k_rdm1_tot c)"
  have len: "length (k_nuc c) = nao" "length ?D = nao" "length (k_ao_labels c) = nao"
  proof -
    have m: "is_mat nao nao (fst (k_rdm1_tot c))" "is_mat nao nao (snd (k_rdm1_tot c))"
      "is_mat nao nao (k_nuc c)"
      using ok by (simp_all add: eda_ctx_ok_def)
    show "length ?D = nao" using m by (simp add: sum_spin_def is_mat_madd_len)
    show "length (k_nuc c) = nao" using m by (simp add: is_mat_def)
    show "length (k_ao_labels c) = nao" using ok by (simp add: eda_ctx_ok_def)
  qed
  have sub: "length (k_sub_nuc c) = n_atoms" "list_all (is_mat nao nao) (k_sub_nuc c)"
    using ok by (simp_all add: eda_ctx_ok_def)
  have first: "(\<Sum>a\<leftarrow>[0..<n_atoms]. contract_ij_ij (sel_rows (k_nuc c) (eda_select c a))
                                                   (sel_rows ?D (eda_select c a)))
               = contract_ij_ij (k_nuc c) ?D"
    unfolding contract_sel_rows eda_select_def
    using sum_over_labels [OF lab, of "\<lambda>i. vdot (k_nuc c ! i) (?D ! i)"] len
    by (simp add: contract_rows [of "k_nuc c" nao ?D])
  have "(\<Sum>a\<leftarrow>[0..<n_atoms]. contract_ij_ij (k_sub_nuc c ! a) ?D)
        = (\<Sum>M\<leftarrow>k_sub_nuc c. contract_ij_ij M ?D)"
    unfolding sub(1) [symmetric] by (rule sum_list_nth)
  also have "\<dots> = contract_ij_ij (k_nuc c) ?D"
    using contract_sum_axis0 [OF sub(2), of ?D] nuc by simp
  finally have second: "(\<Sum>a\<leftarrow>[0..<n_atoms]. contract_ij_ij (k_sub_nuc c ! a) ?D)
                        = contract_ij_ij (k_nuc c) ?D" .
  have "(\<Sum>a\<leftarrow>[0..<n_atoms]. eda_nuc_att_of c a)
        = (\<Sum>a\<leftarrow>[0..<n_atoms]. contract_ij_ij (sel_rows (k_nuc c) (eda_select c a))
                                            (sel_rows ?D (eda_select c a))) * (1 / 2)
          + (\<Sum>a\<leftarrow>[0..<n_atoms]. contract_ij_ij (k_sub_nuc c ! a) ?D) * (1 / 2)"
    unfolding eda_nuc_att_of_def
    by (simp add: sum_list_addf sum_list_half)
  then show ?thesis unfolding first second by simp
qed

lemma example_eda_ok:
  "eda_ctx_ok example_ctx 2 2 \<and> k_prop_type example_ctx = ''energy'' \<and> k_dft example_ctx = None
   \<and> k_nuc example_ctx = sum_axis0 2 2 (k_sub_nuc example_ctx)
   \<and> list_all (\<lambda>l. l < 2) (k_ao_labels example_ctx)"
  by (simp add: eda_ctx_ok_def example_evals)

lemma example_eda_nuc_att:
  "eda_select example_ctx 0 = [0] \<and> eda_select example_ctx 1 = [1]
   \<and> eda_nuc_att_of example_ctx 0 = - 10 \<and> eda_nuc_att_of example_ctx 1 = - 10
   \<and> contract_ij_ij (k_nuc example_ctx) (sum_spin (k_rdm1_tot example_ctx)) = - 20"
  by (simp add: eda_nuc_att_of_def eda_select_def select_aos_def sel_rows_def example_ctx_def
      contract_ij_ij_def vdot_def sum_spin_def madd_def vadd_def upt_conv_Cons)

text \<open>
  C2. In energy mode, on a context of the shapes that \<open>prop_tot\<close> builds, \<open>prop_eda\<close> returns
  for an atom exactly when its exchange-correlation part returns (always, without a
  functional), and the entry \<open>nuc_att\<close> of its result is \<open>eda_nuc_att_of\<close>: one half of the
  trace of the total nuclear-attraction operator with the total density, both restricted to
  the rows of the basis functions centred on the atom, plus one half of the trace of the
  atom's own operator with the whole, unrestricted total density. When the total operator
  is the sum of the per-atom operators and every basis function is centred on one of the
  atoms, these entries add up, over the atoms, to the trace of the total operator with the
  total density, the whole nuclear-attraction energy.
\<close>

theorem eda_nuc_att:
  assumes ok: "eda_ctx_ok c n_atoms nao" and en: "k_prop_type c = ''energy''"
  shows "(\<forall>a<n_atoms.
            isl (prop_eda c a) = isl (eda_xc_value c (eda_select c a))
            \<and> (\<forall>r. prop_eda c a = Inr r \<longrightarrow> r ''nuc_att'' = Some (Sc (eda_nuc_att_of c a))))
         \<and> (k_dft c = None \<longrightarrow> (\<forall>a<n_atoms. \<exists>r. prop_eda c a = Inr r))
         \<and> (k_nuc c = sum_axis0 nao nao (k_sub_nuc c)
              \<and> list_all (\<lambda>l. l < n_atoms) (k_ao_labels c) \<longrightarrow>
            (\<Sum>a\<leftarrow>[0..<n_atoms]. eda_nuc_att_of c a)
              = contract_ij_ij (k_nuc c) (sum_spin (k_rdm1_tot c)))"
proof (intro conjI allI impI)
  fix a assume a: "a < n_atoms"
  show "isl (prop_eda c a) = isl (eda_xc_value c (eda_select c a))"
    unfolding prop_eda_energy [OF ok en a]
    by (cases "eda_xc_value c (eda_select c a)") (simp_all add: bind_res_Inl bind_res_Inr)
next
  fix a r assume a: "a < n_atoms" and r: "prop_eda c a = Inr r"
  from r obtain exc where "r = eda_result c a exc"
    unfolding prop_eda_energy [OF ok en a]
    by (cases "eda_xc_value c (eda_select c a)") (auto simp add: bind_res_Inl bind_res_Inr)
  then show "r ''nuc_att'' = Some (Sc (eda_nuc_att_of c a))"
    by (simp add: eda_result_def)
next
  fix a assume "k_dft c = None" and a: "a < n_atoms"
  then show "\<exists>r. prop_eda c a = Inr r"
    unfolding prop_eda_energy [OF ok en a] by (simp add: eda_xc_value_def bind_res_Inr)
next
  assume "k_nuc c = sum_axis0 nao nao (k_sub_nuc c)
          \<and> list_all (\<lambda>l. l < n_atoms) (k_ao_labels c)"
  then show "(\<Sum>a\<leftarrow>[0..<n_atoms]. eda_nuc_att_of c a)
             = contract_ij_ij (k_nuc c) (sum_spin (k_rdm1_tot c))"
    using eda_sum_nuc_att [OF ok] by simp
qed

theorem eda_nuc_att_witness:
  "eda_ctx_ok example_ctx 2 2 \<and> k_prop_type example_ctx = ''energy''
   \<and> eda_select example_ctx 0 = [0] \<and> eda_select example_ctx 1 = [1]
   \<and> (\<exists>r. prop_eda example_ctx 0 = Inr r \<and> r ''nuc_att'' = Some (Sc (- 10)))
   \<and> (\<exists>r. prop_eda example_ctx 1 = Inr r \<and> r ''nuc_att'' = Some (Sc (- 10)))
   \<and> (\<Sum>a\<leftarrow>[0..<2]. eda_nuc_att_of example_ctx a) = - 20
   \<and> contract_ij_ij (k_nuc example_ctx) (sum_spin (k_rdm1_tot example_ctx)) = - 20"
proof -
  have ok: "eda_ctx_ok example_ctx 2 2" and en: "k_prop_type example_ctx = ''energy''"
    and nd: "k_dft example_ctx = None"
    and nuc: "k_nuc example_ctx = sum_axis0 2 2 (k_sub_nuc example_ctx)"
    and lab: "list_all (\<lambda>l. l < 2) (k_ao_labels example_ctx)"
    using example_eda_ok by simp_all
  note t = eda_nuc_att [OF ok en]
  have l0: "(0 :: nat) < 2" and l1: "(1 :: nat) < 2" by simp_all
  from t nd l0 obtain r0 where r0: "prop_eda example_ctx 0 = Inr r0" by blast
  from t nd l1 obtain r1 where r1: "prop_eda example_ctx 1 = Inr r1" by blast
  from t l0 r0 have v0: "r0 ''nuc_att'' = Some (Sc (eda_nuc_att_of example_ctx 0))" by blast
  from t l1 r1 have v1: "r1 ''nuc_att'' = Some (Sc (eda_nuc_att_of example_ctx 1))" by blast
  from t nuc lab have s: "(\<Sum>a\<leftarrow>[0..<2]. eda_nuc_att_of example_ctx a)
      = contract_ij_ij (k_nuc example_ctx) (sum_spin (k_rdm1_tot example_ctx))" by blast
  note e = example_eda_nuc_att
  from e have e0: "eda_nuc_att_of example_ctx 0 = - 10" and e1: "eda_nuc_att_of example_ctx 1 = - 10"
    and et: "contract_ij_ij (k_nuc example_ctx) (sum_spin (k_rdm1_tot example_ctx)) = - 20"
    and sel: "eda_select example_ctx 0 = [0]" "eda_select example_ctx 1 = [1]"
    by blast+
  show ?thesis
    using ok en sel r0 r1 v0 [unfolded e0] v1 [unfolded e1] s [unfolded et] et by blast
qed

end
